theory Spec2Isabelle
  imports Complex_Main
begin

section \<open>JavaScript values and typed arrays\<close>

text \<open>
  The renderer moves numbers between arrays and GPU buffers; it performs no arithmetic on
  buffer contents itself (the matrix product is a library call, taken as a parameter
  below).  A JavaScript number, and a 32-bit float stored in a typed array, is therefore
  represented by the real it denotes.
\<close>

type_synonym number = real
type_synonym vec = "number list"
type_synonym vec2 = "number \<times> number"
type_synonym handle = nat

text \<open>
  Exceptions of the source become values.  \<open>Unrepresented\<close> is not a JavaScript
  exception: it marks a typed-array view over bytes that were written through a
  different element type, which the byte-free buffer model below cannot read.
\<close>

datatype error = TypeError | RangeError | OperationError | AssetError | Unrepresented

text \<open>
  \<^verbatim>\<open>target.set(source, offset)\<close> of a typed array: copies all of \<open>source\<close> to
  \<open>target\<close> starting at \<open>offset\<close>, and throws a \<open>RangeError\<close> when the source does
  not fit.
\<close>

definition typed_set :: "'a list \<Rightarrow> 'a list \<Rightarrow> nat \<Rightarrow> error + 'a list" where
  "typed_set target source offset =
     (if length target < offset + length source then Inl RangeError
      else Inr (take offset target @ source @ drop (offset + length source) target))"

definition and_then :: "error + 'a \<Rightarrow> ('a \<Rightarrow> error + 'b) \<Rightarrow> error + 'b" where
  "and_then r f = (case r of Inl e \<Rightarrow> Inl e | Inr x \<Rightarrow> f x)"

section \<open>The libraries the renderer imports\<close>

text \<open>
  \<^verbatim>\<open>arcball_camera\<close> and \<^verbatim>\<open>gl-matrix\<close> are external packages.  Their functions are
  parameters: \<open>'cam\<close> is the state of an \<^verbatim>\<open>ArcballCamera\<close> object, \<open>cam_matrix\<close> reads
  its field \<^verbatim>\<open>camera\<close> (the view matrix), \<open>cam_eyePos\<close> is its method \<^verbatim>\<open>eyePos()\<close>,
  and \<open>mat4_mul a b\<close> is the array \<^verbatim>\<open>mat4.mul(out, a, b)\<close> returns.
\<close>

record 'cam library =
  mat4_mul :: "vec \<Rightarrow> vec \<Rightarrow> vec"
  mat4_perspective :: "number \<Rightarrow> number \<Rightarrow> number \<Rightarrow> number \<Rightarrow> vec"
  cam_new :: "vec \<Rightarrow> vec \<Rightarrow> vec \<Rightarrow> number \<Rightarrow> vec2 \<Rightarrow> 'cam"
  cam_matrix :: "'cam \<Rightarrow> vec"
  cam_eyePos :: "'cam \<Rightarrow> vec"
  cam_rotate :: "vec2 \<Rightarrow> vec2 \<Rightarrow> 'cam \<Rightarrow> 'cam"
  cam_pan :: "vec2 \<Rightarrow> 'cam \<Rightarrow> 'cam"
  cam_zoom :: "number \<Rightarrow> 'cam \<Rightarrow> 'cam"

text \<open>\<^verbatim>\<open>mat4.create()\<close>: a fresh 4x4 identity matrix, 16 floats.\<close>

definition mat4_create :: vec where
  "mat4_create = [1, 0, 0, 0,  0, 1, 0, 0,  0, 0, 1, 0,  0, 0, 0, 1]"

section \<open>The graphics device\<close>

text \<open>
  The device is the browser's.  The model keeps what the claims read: the buffers that
  are created, mapped, written and copied, the textures and bind groups that exist, and
  the command buffers handed to the queue.  A buffer's contents are kept as the elements
  of the typed array the program wrote them through; \<open>Zeros\<close> is a buffer as
  \<^verbatim>\<open>createBuffer\<close> delivers it (WebGPU zero-initialises every buffer).
\<close>

datatype map_state = Unmapped | Mapped

datatype contents = Zeros | F32 vec | U16 "nat list" | U8 "nat list"

record gpu_buffer =
  buf_size :: nat
  mapping :: map_state
  contents :: contents

datatype resource = BufferBinding handle | TextureView handle | SamplerBinding handle

record entry =
  binding :: nat
  resource :: resource

record color_attachment =
  view :: "handle option"
  loadOp :: string
  clearValue :: vec
  storeOp :: string

record copy_layout =
  src_buffer :: handle
  bytesPerRow :: nat
  rowsPerImage :: nat

text \<open>
  A texture is kept as the \<^verbatim>\<open>dimension\<close> and the \<^verbatim>\<open>size\<close> of the descriptor it was
  created from.
\<close>

datatype dimension = Dim1d | Dim2d | Dim3d

record texture =
  tex_dimension :: dimension
  tex_size :: "nat list"

datatype pass_cmd =
    SetPipeline handle
  | SetBindGroup nat handle
  | SetVertexBuffer nat handle
  | SetIndexBuffer handle string
  | Draw nat nat nat nat
  | DrawIndexed nat nat nat int nat

datatype command =
    CopyBufferToBuffer handle nat handle nat nat
  | CopyBufferToTexture copy_layout handle "nat \<times> nat \<times> nat"
  | RenderPass color_attachment "pass_cmd list"

text \<open>
  What one executed draw call reads: the colour target and its clear value, the view
  parameters found in the uniform buffer of binding 0 at that moment, the whole bound
  resource set, and the draw itself.
\<close>

record seen =
  seen_target :: handle
  seen_clear :: vec
  seen_params :: vec
  seen_entries :: "entry list"
  seen_draw :: pass_cmd

record gpu =
  fresh :: handle
  buffers :: "handle \<rightharpoonup> gpu_buffer"
  textures :: "handle \<rightharpoonup> texture"
  bindGroups :: "handle \<rightharpoonup> entry list"
  submitted :: "command list list"
  rejected :: nat
  presented :: "seen list"

definition new_device :: gpu where
  "new_device = \<lparr>fresh = 0, buffers = Map.empty, textures = Map.empty,
     bindGroups = Map.empty, submitted = [], rejected = 0, presented = []\<rparr>"

text \<open>An object of the device no claim looks into (sampler, pipeline, shader module).\<close>

definition alloc :: "gpu \<Rightarrow> handle \<times> gpu" where
  "alloc g = (fresh g, g\<lparr>fresh := Suc (fresh g)\<rparr>)"

text \<open>
  \<^verbatim>\<open>device.createBuffer({size, usage, mappedAtCreation})\<close>.  The call throws a
  \<open>RangeError\<close> when the buffer is to be mapped at creation and its size is not a
  multiple of 4.
\<close>

definition createBuffer :: "nat \<Rightarrow> bool \<Rightarrow> gpu \<Rightarrow> error + handle \<times> gpu" where
  "createBuffer sz mappedAtCreation g =
     (if mappedAtCreation \<and> \<not> 4 dvd sz then Inl RangeError
      else Inr (fresh g,
        g\<lparr>fresh := Suc (fresh g),
          buffers := (buffers g)(fresh g \<mapsto>
            \<lparr>buf_size = sz,
             mapping = (if mappedAtCreation then Mapped else Unmapped),
             contents = Zeros\<rparr>)\<rparr>))"

text \<open>
  Both programs call \<^verbatim>\<open>adapter.requestDevice()\<close> without asking for limits, so the
  device has the default ones.
\<close>

definition maxTextureDimension1D :: nat where
  "maxTextureDimension1D = 8192"

definition maxTextureDimension2D :: nat where
  "maxTextureDimension2D = 8192"

definition maxTextureDimension3D :: nat where
  "maxTextureDimension3D = 2048"

definition maxTextureArrayLayers :: nat where
  "maxTextureArrayLayers = 256"

definition maxBufferSize :: nat where
  "maxBufferSize = 268435456"

text \<open>
  A \<^verbatim>\<open>size\<close> of one, two or three numbers is a width, a height and a depth (or number
  of layers); the numbers left out are 1.  Both programs always give all three.
\<close>

definition extent3d :: "nat list \<Rightarrow> (nat \<times> nat \<times> nat) option" where
  "extent3d sz =
     (case sz of
        [w] \<Rightarrow> Some (w, 1, 1)
      | [w, h] \<Rightarrow> Some (w, h, 1)
      | [w, h, d] \<Rightarrow> Some (w, h, d)
      | _ \<Rightarrow> None)"

text \<open>
  The device's validation of a texture descriptor: no component of the size is zero and
  none exceeds the limit for the texture's dimension.  \<^verbatim>\<open>createTexture\<close> and
  \<^verbatim>\<open>createBuffer\<close> do not throw when the validation fails: they return an object that
  is invalid, and a command buffer that uses an invalid object is rejected when it is
  submitted.  The validity is consulted where a copy reads or writes the object.  A draw
  call is recorded with the resource set it is given; the pixels it produces, and with
  them the textures of that set, are outside the model.  So is running out of memory.
\<close>

definition texture_ok :: "texture \<Rightarrow> bool" where
  "texture_ok tx =
     (case extent3d (tex_size tx) of
        None \<Rightarrow> False
      | Some (w, h, d) \<Rightarrow>
          0 < w \<and> 0 < h \<and> 0 < d \<and>
          (case tex_dimension tx of
             Dim1d \<Rightarrow> w \<le> maxTextureDimension1D \<and> h = 1 \<and> d = 1
           | Dim2d \<Rightarrow> w \<le> maxTextureDimension2D \<and> h \<le> maxTextureDimension2D \<and>
                      d \<le> maxTextureArrayLayers
           | Dim3d \<Rightarrow> w \<le> maxTextureDimension3D \<and> h \<le> maxTextureDimension3D \<and>
                      d \<le> maxTextureDimension3D))"

definition buffer_ok :: "gpu_buffer \<Rightarrow> bool" where
  "buffer_ok b = (buf_size b \<le> maxBufferSize)"

text \<open>\<^verbatim>\<open>device.createTexture({size, format, dimension, usage})\<close>.\<close>

definition createTexture :: "dimension \<Rightarrow> nat list \<Rightarrow> gpu \<Rightarrow> handle \<times> gpu" where
  "createTexture dimension sz g =
     (fresh g,
      g\<lparr>fresh := Suc (fresh g),
        textures := (textures g)(fresh g \<mapsto> \<lparr>tex_dimension = dimension, tex_size = sz\<rparr>)\<rparr>)"

text \<open>
  \<^verbatim>\<open>device.createBindGroup({layout, entries})\<close>: the descriptor is read when the call
  is made, so the bind group holds the entries as they were then, and it has no method
  that changes them afterwards.
\<close>

definition createBindGroup :: "entry list \<Rightarrow> gpu \<Rightarrow> handle \<times> gpu" where
  "createBindGroup es g =
     (fresh g, g\<lparr>fresh := Suc (fresh g), bindGroups := (bindGroups g)(fresh g \<mapsto> es)\<rparr>)"

text \<open>
  \<^verbatim>\<open>await buffer.mapAsync(mode)\<close>: the promise rejects with an \<open>OperationError\<close>
  unless the buffer is unmapped; once it resolves the buffer is mapped.
\<close>

definition mapAsync :: "handle \<Rightarrow> gpu \<Rightarrow> error + gpu" where
  "mapAsync h g =
     (case buffers g h of
        None \<Rightarrow> Inl OperationError
      | Some b \<Rightarrow>
          if mapping b = Unmapped
          then Inr (g\<lparr>buffers := (buffers g)(h \<mapsto> b\<lparr>mapping := Mapped\<rparr>)\<rparr>)
          else Inl OperationError)"

text \<open>\<^verbatim>\<open>buffer.getMappedRange()\<close>: throws unless the buffer is mapped.\<close>

definition getMappedRange :: "handle \<Rightarrow> gpu \<Rightarrow> error + gpu_buffer" where
  "getMappedRange h g =
     (case buffers g h of
        None \<Rightarrow> Inl OperationError
      | Some b \<Rightarrow> if mapping b = Mapped then Inr b else Inl OperationError)"

text \<open>The contents of a buffer read as 32-bit floats, 8-bit and 16-bit unsigned integers.\<close>

definition as_f32 :: "gpu_buffer \<Rightarrow> vec option" where
  "as_f32 b =
     (case contents b of
        Zeros \<Rightarrow> Some (replicate (buf_size b div 4) 0)
      | F32 v \<Rightarrow> Some v
      | _ \<Rightarrow> None)"

definition as_u16 :: "gpu_buffer \<Rightarrow> nat list option" where
  "as_u16 b =
     (case contents b of
        Zeros \<Rightarrow> Some (replicate (buf_size b div 2) 0)
      | U16 v \<Rightarrow> Some v
      | _ \<Rightarrow> None)"

definition as_u8 :: "gpu_buffer \<Rightarrow> nat list option" where
  "as_u8 b =
     (case contents b of
        Zeros \<Rightarrow> Some (replicate (buf_size b) 0)
      | U8 v \<Rightarrow> Some v
      | _ \<Rightarrow> None)"

text \<open>
  \<^verbatim>\<open>new Float32Array(range)\<close>, \<^verbatim>\<open>new Uint16Array(range)\<close>, \<^verbatim>\<open>new Uint8Array(range)\<close>
  over a mapped range: a \<open>RangeError\<close> when the byte length is not a multiple of the
  element size.
\<close>

definition Float32Array :: "gpu_buffer \<Rightarrow> error + vec" where
  "Float32Array b =
     (if \<not> 4 dvd buf_size b then Inl RangeError
      else case as_f32 b of None \<Rightarrow> Inl Unrepresented | Some v \<Rightarrow> Inr v)"

definition Uint16Array :: "gpu_buffer \<Rightarrow> error + nat list" where
  "Uint16Array b =
     (if \<not> 2 dvd buf_size b then Inl RangeError
      else case as_u16 b of None \<Rightarrow> Inl Unrepresented | Some v \<Rightarrow> Inr v)"

definition Uint8Array :: "gpu_buffer \<Rightarrow> error + nat list" where
  "Uint8Array b = (case as_u8 b of None \<Rightarrow> Inl Unrepresented | Some v \<Rightarrow> Inr v)"

text \<open>
  \<^verbatim>\<open>buffer.unmap()\<close>: what was written through the typed array over the mapped range
  becomes the buffer's contents, and the buffer is unmapped.
\<close>

definition unmap :: "handle \<Rightarrow> contents \<Rightarrow> gpu \<Rightarrow> gpu" where
  "unmap h written g =
     (case buffers g h of
        None \<Rightarrow> g
      | Some b \<Rightarrow> g\<lparr>buffers := (buffers g)(h \<mapsto> b\<lparr>mapping := Unmapped, contents := written\<rparr>)\<rparr>)"

subsection \<open>Executing a submission\<close>

definition copy_floats :: "vec \<Rightarrow> nat \<Rightarrow> vec \<Rightarrow> nat \<Rightarrow> nat \<Rightarrow> vec" where
  "copy_floats a soff b doff n =
     take (doff div 4) b @ take (n div 4) (drop (soff div 4) a) @ drop ((doff + n) div 4) b"

definition uniform_binding :: "entry list \<Rightarrow> handle option" where
  "uniform_binding es =
     (case filter (\<lambda>e. binding e = 0) es of
        [] \<Rightarrow> None
      | e # _ \<Rightarrow> (case resource e of BufferBinding h \<Rightarrow> Some h | _ \<Rightarrow> None))"

definition observe :: "gpu \<Rightarrow> color_attachment \<Rightarrow> handle option \<Rightarrow> pass_cmd \<Rightarrow> seen option" where
  "observe g att cur d =
     (case (view att, cur) of
        (Some target, Some bg) \<Rightarrow>
          (case bindGroups g bg of
             None \<Rightarrow> None
           | Some es \<Rightarrow>
               (case uniform_binding es of
                  None \<Rightarrow> None
                | Some h \<Rightarrow>
                    (case buffers g h of
                       None \<Rightarrow> None
                     | Some b \<Rightarrow>
                         (case as_f32 b of
                            None \<Rightarrow> None
                          | Some v \<Rightarrow>
                              if mapping b = Unmapped
                              then Some \<lparr>seen_target = target, seen_clear = clearValue att,
                                     seen_params = v, seen_entries = es, seen_draw = d\<rparr>
                              else None))))
      | _ \<Rightarrow> None)"

text \<open>
  A render pass, command by command: \<open>cur\<close> is the bind group set at index 0 so far;
  every draw call is observed with the state it finds.
\<close>

fun exec_pass :: "gpu \<Rightarrow> color_attachment \<Rightarrow> handle option \<Rightarrow> pass_cmd list \<Rightarrow> seen list option" where
  "exec_pass g att cur [] = Some []"
| "exec_pass g att cur (SetBindGroup i bg # cs) =
     exec_pass g att (if i = 0 then Some bg else cur) cs"
| "exec_pass g att cur (Draw n k fv fi # cs) =
     (case observe g att cur (Draw n k fv fi) of
        None \<Rightarrow> None
      | Some ob \<Rightarrow> map_option ((#) ob) (exec_pass g att cur cs))"
| "exec_pass g att cur (DrawIndexed n k fi bv fin # cs) =
     (case observe g att cur (DrawIndexed n k fi bv fin) of
        None \<Rightarrow> None
      | Some ob \<Rightarrow> map_option ((#) ob) (exec_pass g att cur cs))"
| "exec_pass g att cur (SetPipeline p # cs) = exec_pass g att cur cs"
| "exec_pass g att cur (SetVertexBuffer i b # cs) = exec_pass g att cur cs"
| "exec_pass g att cur (SetIndexBuffer b f # cs) = exec_pass g att cur cs"

text \<open>
  The bytes a buffer-to-texture copy of one-byte texels reads, and the device's rules
  for the copy: a valid buffer and a valid texture, \<open>bytesPerRow\<close> a multiple of 256 (the
  source's own note), rows and images no shorter than the copied extent, the copy inside
  the texture and inside the buffer.
\<close>

definition required_bytes :: "nat \<Rightarrow> nat \<Rightarrow> nat \<times> nat \<times> nat \<Rightarrow> nat" where
  "required_bytes bpr rpi ext =
     (case ext of (w, h, d) \<Rightarrow>
        (if 1 < d then bpr * rpi * (d - 1) else 0) +
        (if 0 < d then (if 1 < h then bpr * (h - 1) else 0) + (if 0 < h then w else 0) else 0))"

definition copy_to_texture_ok :: "gpu \<Rightarrow> copy_layout \<Rightarrow> handle \<Rightarrow> nat \<times> nat \<times> nat \<Rightarrow> bool" where
  "copy_to_texture_ok g src tex ext =
     (case (buffers g (src_buffer src), textures g tex, ext) of
        (Some b, Some tx, (w, h, d)) \<Rightarrow>
          (case extent3d (tex_size tx) of
             None \<Rightarrow> False
           | Some (tw, th, td) \<Rightarrow>
               buffer_ok b \<and> texture_ok tx \<and>
               mapping b = Unmapped \<and> 256 dvd bytesPerRow src \<and>
               w \<le> bytesPerRow src \<and> h \<le> rowsPerImage src \<and>
               w \<le> tw \<and> h \<le> th \<and> d \<le> td \<and>
               required_bytes (bytesPerRow src) (rowsPerImage src) ext \<le> buf_size b)
      | _ \<Rightarrow> False)"

fun exec_cmd :: "command \<Rightarrow> gpu \<Rightarrow> gpu option" where
  "exec_cmd (CopyBufferToBuffer src soff dst doff n) g =
     (case (buffers g src, buffers g dst) of
        (Some a, Some b) \<Rightarrow>
          (case (as_f32 a, as_f32 b) of
             (Some va, Some vb) \<Rightarrow>
               if src \<noteq> dst \<and> buffer_ok a \<and> buffer_ok b \<and>
                  mapping a = Unmapped \<and> mapping b = Unmapped \<and>
                  4 dvd soff \<and> 4 dvd doff \<and> 4 dvd n \<and>
                  soff + n \<le> buf_size a \<and> doff + n \<le> buf_size b
               then Some (g\<lparr>buffers := (buffers g)(dst \<mapsto>
                            b\<lparr>contents := F32 (copy_floats va soff vb doff n)\<rparr>)\<rparr>)
               else None
           | _ \<Rightarrow> None)
      | _ \<Rightarrow> None)"
| "exec_cmd (CopyBufferToTexture src tex ext) g =
     (if copy_to_texture_ok g src tex ext then Some g else None)"
| "exec_cmd (RenderPass att cs) g =
     (case exec_pass g att None cs of
        None \<Rightarrow> None
      | Some obs \<Rightarrow> Some (g\<lparr>presented := presented g @ obs\<rparr>))"

fun exec_cmds :: "command list \<Rightarrow> gpu \<Rightarrow> gpu option" where
  "exec_cmds [] g = Some g"
| "exec_cmds (c # cs) g = (case exec_cmd c g of None \<Rightarrow> None | Some g' \<Rightarrow> exec_cmds cs g')"

text \<open>
  \<^verbatim>\<open>device.queue.submit([encoder.finish()])\<close>.  The call never throws.  A command
  buffer that fails the device's validation is dropped as a whole and counted in
  \<open>rejected\<close>; a valid one is executed in order, before the buffers it reads can be
  mapped again.
\<close>

definition submit :: "command list \<Rightarrow> gpu \<Rightarrow> gpu" where
  "submit cmds g =
     (case exec_cmds cmds g of
        None \<Rightarrow> g\<lparr>rejected := Suc (rejected g)\<rparr>
      | Some g' \<Rightarrow> g'\<lparr>submitted := submitted g' @ [cmds]\<rparr>)"

section \<open>Input events and the camera controller\<close>

text \<open>
  The events the \<^verbatim>\<open>Controller\<close> forwards, and the four handlers the program installs on
  it.  \<^verbatim>\<open>controller.pinch = controller.wheel\<close>, so a pinch runs the wheel handler.
\<close>

datatype input_event =
    MouseMove vec2 vec2 nat
  | Wheel number
  | Pinch number
  | TwoFingerDrag vec2

definition mousemove :: "'cam library \<Rightarrow> vec2 \<Rightarrow> vec2 \<Rightarrow> nat \<Rightarrow> 'cam \<Rightarrow> 'cam" where
  "mousemove L prev cur buttons c =
     (if buttons = 1 then cam_rotate L prev cur c
      else if buttons = 2 then cam_pan L (fst cur - fst prev, snd prev - snd cur) c
      else c)"

definition wheel :: "'cam library \<Rightarrow> number \<Rightarrow> 'cam \<Rightarrow> 'cam" where
  "wheel L amt c = cam_zoom L amt c"

definition twoFingerDrag :: "'cam library \<Rightarrow> vec2 \<Rightarrow> 'cam \<Rightarrow> 'cam" where
  "twoFingerDrag L drag c = cam_pan L drag c"

fun handler :: "'cam library \<Rightarrow> input_event \<Rightarrow> 'cam \<Rightarrow> 'cam" where
  "handler L (MouseMove prev cur buttons) c = mousemove L prev cur buttons c"
| "handler L (Wheel amt) c = wheel L amt c"
| "handler L (Pinch amt) c = wheel L amt c"
| "handler L (TwoFingerDrag drag) c = twoFingerDrag L drag c"

section \<open>The program state\<close>

text \<open>
  The variables of the async main function that the frame loop and the event handlers
  share.  \<open>app\<close> holds those both source files have (in \<^verbatim>\<open>volume-raycaster.js\<close> the
  bind group variable is called \<^verbatim>\<open>viewParamBG\<close>; it is the field \<open>bindGroup\<close>);
  \<open>radar\<close> adds those only the radar renderer has.
\<close>

record 'cam app =
  dev :: gpu
  camera :: 'cam
  proj :: vec
  projView :: vec
  cube_vertices :: vec
  cube_indices :: "nat list"
  vertexBuffer :: handle
  indexBuffer :: handle
  viewParamsBuffer :: handle
  sampler :: handle
  colormapTexture :: handle
  volumeTexture :: handle
  renderPipeline :: handle
  renderPassDesc :: color_attachment
  bindGroup :: handle

record 'cam radar = "'cam app" +
  colormapName :: string
  volumeDataBuffer :: handle
  bindGroupEntries :: "entry list"
  upload :: handle

text \<open>An event reaches its handler; the handlers call methods of the camera only.\<close>

definition dispatch ::
  "'cam library \<Rightarrow> input_event \<Rightarrow> ('cam, 'z) app_scheme \<Rightarrow> ('cam, 'z) app_scheme" where
  "dispatch L e s = s\<lparr>camera := handler L e (camera s)\<rparr>"

definition deliver ::
  "'cam library \<Rightarrow> input_event list \<Rightarrow> ('cam, 'z) app_scheme \<Rightarrow> ('cam, 'z) app_scheme" where
  "deliver L evs s = foldl (\<lambda>s' e. dispatch L e s') s evs"

text \<open>
  What the host does around one iteration of the frame loop.  The loop is one task of a
  single-threaded event loop: whenever it is suspended at an \<^verbatim>\<open>await\<close>, the handlers
  above may run.  \<open>during_tick\<close> are the events handled while the loop waits for the
  animation frame, \<open>during_image\<close> while it waits for the colormap image, \<open>during_map\<close>
  while it waits for the staging buffer to be mapped.  \<open>hidden\<close> is
  \<^verbatim>\<open>document.hidden\<close> and \<open>picked\<close> is \<^verbatim>\<open>colormapPicker.value\<close> when the loop
  resumes, \<open>decoded\<close> the size of the decoded colormap image (\<open>None\<close> when the image
  cannot be loaded), \<open>surface\<close> the view of the canvas's current texture.
  \<open>hidden_at_submit\<close> is \<^verbatim>\<open>document.hidden\<close> when the iteration reaches
  \<^verbatim>\<open>device.queue.submit\<close>: the page can be hidden or shown again while the loop is
  suspended, and the loop reads \<^verbatim>\<open>document.hidden\<close> once, right after the animation
  frame.
\<close>

record tick =
  during_tick :: "input_event list"
  hidden :: bool
  picked :: string
  decoded :: "(nat \<times> nat) option"
  during_image :: "input_event list"
  during_map :: "input_event list"
  surface :: handle
  hidden_at_submit :: bool

section \<open>The frame loop of the radar renderer\<close>

text \<open>
  Modelled from the spec: \<^verbatim>\<open>uploadImage(device, src)\<close> is defined in \<^verbatim>\<open>volume.js\<close>,
  which is not among the sources.  The spec's Transfer Function Store decodes the image
  and uploads it as a 2-D texture, failing with an asset error when the image cannot be
  decoded; the block of \<^verbatim>\<open>volume-raycaster.js\<close> that loads the first colormap does the
  same inline, with a texture of size \<^verbatim>\<open>[width, height, 1]\<close>.
\<close>

definition uploadImage :: "(nat \<times> nat) option \<Rightarrow> gpu \<Rightarrow> error + handle \<times> gpu" where
  "uploadImage img g =
     (case img of
        None \<Rightarrow> Inl AssetError
      | Some (w, h) \<Rightarrow> Inr (createTexture Dim2d [w, h, 1] g))"

text \<open>
  The branch taken when \<^verbatim>\<open>colormapName != colormapPicker.value\<close>: the name is
  updated, the image is awaited, slot 2 of the array \<open>bindGroupEntries\<close> is assigned a
  view of the new texture, and a bind group is created from the whole array.
\<close>

definition swap_colormap :: "'cam library \<Rightarrow> tick \<Rightarrow> 'cam radar \<Rightarrow> error + 'cam radar" where
  "swap_colormap L t s =
     (let s0 = s\<lparr>colormapName := picked t\<rparr> in
      and_then (uploadImage (decoded t) (dev s0)) (\<lambda>(tex, g).
        let s1 = (deliver L (during_image t) (s0\<lparr>dev := g\<rparr>))\<lparr>colormapTexture := tex\<rparr> in
        if length (bindGroupEntries s1) \<le> 2 then Inl TypeError
        else
          let es = (bindGroupEntries s1)
                     [2 := (bindGroupEntries s1 ! 2)\<lparr>resource := TextureView tex\<rparr>];
              (bg, g') = createBindGroup es (dev s1)
          in Inr (s1\<lparr>bindGroupEntries := es, bindGroup := bg, dev := g'\<rparr>)))"

text \<open>
  The block that fills the staging buffer: wait for the mapping, read the eye position,
  write the matrix at offset 0 and the eye position right after it, unmap.
\<close>

definition stage_view_params :: "'cam library \<Rightarrow> tick \<Rightarrow> 'cam radar \<Rightarrow> error + 'cam radar" where
  "stage_view_params L t s =
     and_then (mapAsync (upload s) (dev s)) (\<lambda>g.
       let s1 = deliver L (during_map t) (s\<lparr>dev := g\<rparr>);
           eyePos = cam_eyePos L (camera s1)
       in and_then (getMappedRange (upload s1) (dev s1)) (\<lambda>range.
          and_then (Float32Array range) (\<lambda>m0.
          and_then (typed_set m0 (projView s1) 0) (\<lambda>m1.
          and_then (typed_set m1 eyePos (length (projView s1))) (\<lambda>m2.
            Inr (s1\<lparr>dev := unmap (upload s1) (F32 m2) (dev s1)\<rparr>))))))"

text \<open>
  The commands of one frame, in the order the encoder records them, for the staging
  buffer \<open>upl\<close>; and their submission.  \<^verbatim>\<open>cube.vertices.length / 3\<close> is converted to an
  unsigned integer by the call, which drops the fraction.
\<close>

definition frame_commands :: "handle \<Rightarrow> tick \<Rightarrow> ('cam, 'z) app_scheme \<Rightarrow> command list" where
  "frame_commands upl t s =
     [CopyBufferToBuffer upl 0 (viewParamsBuffer s) 0 (20 * 4),
      RenderPass ((renderPassDesc s)\<lparr>view := Some (surface t)\<rparr>)
        [SetPipeline (renderPipeline s),
         SetBindGroup 0 (bindGroup s),
         SetVertexBuffer 0 (vertexBuffer s),
         SetIndexBuffer (indexBuffer s) ''uint16'',
         Draw (length (cube_vertices s) div 3) 1 0 0]]"

definition encode_frame ::
  "handle \<Rightarrow> tick \<Rightarrow> ('cam, 'z) app_scheme \<Rightarrow> ('cam, 'z) app_scheme" where
  "encode_frame upl t s =
     s\<lparr>renderPassDesc := (renderPassDesc s)\<lparr>view := Some (surface t)\<rparr>,
       dev := submit (frame_commands upl t s) (dev s)\<rparr>"

text \<open>One iteration of \<^verbatim>\<open>while (true)\<close>; an exception ends the loop for good.\<close>

definition loop_body :: "'cam library \<Rightarrow> tick \<Rightarrow> 'cam radar \<Rightarrow> error + 'cam radar" where
  "loop_body L t s =
     (let s0 = deliver L (during_tick t) s in
      if hidden t then Inr s0
      else
        and_then (if colormapName s0 \<noteq> picked t then swap_colormap L t s0 else Inr s0)
          (\<lambda>s1.
            let s2 = s1\<lparr>projView := mat4_mul L (proj s1) (cam_matrix L (camera s1))\<rparr> in
            and_then (stage_view_params L t s2) (\<lambda>s3. Inr (encode_frame (upload s3) t s3))))"

fun run_loop :: "'cam library \<Rightarrow> tick list \<Rightarrow> 'cam radar \<Rightarrow> error + 'cam radar" where
  "run_loop L [] s = Inr s"
| "run_loop L (t # ts) s = and_then (loop_body L t s) (run_loop L ts)"

section \<open>The frame callback of \<^verbatim>\<open>volume-raycaster.js\<close>\<close>

text \<open>
  \<^verbatim>\<open>frame\<close> runs to completion without suspending: events are handled between two
  callbacks only (\<open>during_tick\<close>).  It creates a fresh staging buffer, mapped at creation,
  on every visible frame.
\<close>

definition frame :: "'cam library \<Rightarrow> tick \<Rightarrow> 'cam app \<Rightarrow> error + 'cam app" where
  "frame L t s =
     (let s0 = deliver L (during_tick t) s in
      if \<not> hidden t then
        let s1 = s0\<lparr>projView := mat4_mul L (proj s0) (cam_matrix L (camera s0))\<rparr> in
        and_then (createBuffer (20 * 4) True (dev s1)) (\<lambda>(upl, g).
          let eyePos = cam_eyePos L (camera s1) in
          and_then (getMappedRange upl g) (\<lambda>range.
          and_then (Float32Array range) (\<lambda>m0.
          and_then (typed_set m0 (projView s1) 0) (\<lambda>m1.
          and_then (typed_set m1 eyePos (length (projView s1))) (\<lambda>m2.
            Inr (encode_frame upl t (s1\<lparr>dev := unmap upl (F32 m2) g\<rparr>)))))))
      else Inr s0)"

fun run_frames :: "'cam library \<Rightarrow> tick list \<Rightarrow> 'cam app \<Rightarrow> error + 'cam app" where
  "run_frames L [] s = Inr s"
| "run_frames L (t # ts) s = and_then (frame L t s) (run_frames L ts)"

section \<open>Start-up\<close>

text \<open>
  What the page and the host provide when the main function runs.  \<open>gpu_defined\<close>:
  \<^verbatim>\<open>navigator.gpu\<close> is defined; \<open>adapter_found\<close>: \<^verbatim>\<open>requestAdapter()\<close> resolves to an
  adapter rather than \<^verbatim>\<open>null\<close>; \<open>shader_messages\<close>: the \<^verbatim>\<open>type\<close> of every shader
  compilation message; \<open>linked\<close>: the decoded URL fragment, when there is one;
  \<open>volume_names\<close>: the keys of the table \<^verbatim>\<open>volumes\<close>; \<open>mesh_vertices\<close> and
  \<open>mesh_indices\<close>: the result of \<^verbatim>\<open>getCubeMesh()\<close>; \<open>first_colormap\<close>: the decoded
  first colormap image; \<open>radar_size\<close>: the size of the texture \<^verbatim>\<open>uploadRadarVolume\<close>
  creates; \<open>volume_dims\<close> and \<open>volume_data\<close>: \<^verbatim>\<open>getVolumeDimensions\<close> and
  \<^verbatim>\<open>fetchVolume\<close> of the data set \<^verbatim>\<open>volume-raycaster.js\<close> loads.  The table and the
  functions are in \<^verbatim>\<open>volume.js\<close>, which is not among the sources, so their results are
  inputs.
\<close>

record host =
  gpu_defined :: bool
  adapter_found :: bool
  shader_messages :: "string list"
  linked :: "string option"
  volume_names :: "string list"
  canvas_size :: vec2
  mesh_vertices :: vec
  mesh_indices :: "nat list"
  first_colormap :: "(nat \<times> nat) option"
  radar_size :: "nat list"
  volume_dims :: "nat \<times> nat \<times> nat"
  volume_data :: "nat list option"

record page =
  canvas_style :: string
  no_webgpu_style :: string
  alerts :: "string list"

datatype 'a outcome = Returned | Threw error | Running 'a

text \<open>The two \<^verbatim>\<open>setAttribute\<close> calls that replace the canvas by the notice.\<close>

definition show_notice :: "page \<Rightarrow> page" where
  "show_notice p = p\<lparr>canvas_style := ''display:none;'', no_webgpu_style := ''display:block;''\<rparr>"

definition hadError :: "string list \<Rightarrow> bool" where
  "hadError msgs = (''error'' \<in> set msgs)"

text \<open>The cube's vertex and index buffers, created mapped, filled and unmapped.\<close>

definition upload_cube :: "vec \<Rightarrow> nat list \<Rightarrow> gpu \<Rightarrow> error + handle \<times> handle \<times> gpu" where
  "upload_cube vertices indices g =
     and_then (createBuffer (length vertices * 4) True g) (\<lambda>(vb, g1).
     and_then (getMappedRange vb g1) (\<lambda>vrange.
     and_then (Float32Array vrange) (\<lambda>vm.
     and_then (typed_set vm vertices 0) (\<lambda>vm'.
     and_then (createBuffer (length indices * 4) True (unmap vb (F32 vm') g1)) (\<lambda>(ib, g2).
     and_then (getMappedRange ib g2) (\<lambda>irange.
     and_then (Uint16Array irange) (\<lambda>im.
     and_then (typed_set im (map (\<lambda>i. i mod 65536) indices) 0) (\<lambda>im'.
       Inr (vb, ib, unmap ib (U16 im') g2)))))))))"

text \<open>
  The buffers and the sampler both programs create first: the cube's two buffers, the
  80-byte uniform buffer for the view parameters, and the sampler.
\<close>

definition create_buffers ::
  "host \<Rightarrow> gpu \<Rightarrow> error + handle \<times> handle \<times> handle \<times> handle \<times> gpu" where
  "create_buffers H g0 =
     and_then (upload_cube (mesh_vertices H) (mesh_indices H) g0) (\<lambda>(vb, ib, g1).
     and_then (createBuffer (20 * 4) False g1) (\<lambda>(vpb, g2).
       let (smp, g3) = alloc g2 in Inr (vb, ib, vpb, smp, g3)))"

definition clear_pass :: color_attachment where
  "clear_pass = \<lparr>view = None, loadOp = ''clear'', clearValue = [0.3, 0.3, 0.3, 1],
     storeOp = ''store''\<rparr>"

subsection \<open>The radar renderer\<close>

text \<open>
  Modelled from the spec: \<^verbatim>\<open>uploadRadarVolume(device)\<close> and \<^verbatim>\<open>uploadData(device)\<close>
  are defined in \<^verbatim>\<open>volume.js\<close>, which is not among the sources.  By the spec the
  Volume Store exposes the scalar field as a 3-D texture plus an auxiliary read-only
  buffer: the first creates a texture, the second an object of the device.
\<close>

definition uploadRadarVolume :: "nat list \<Rightarrow> gpu \<Rightarrow> handle \<times> gpu" where
  "uploadRadarVolume sz g = createTexture Dim3d sz g"

definition uploadData :: "gpu \<Rightarrow> handle \<times> gpu" where
  "uploadData g = alloc g"

text \<open>Everything between the linked-data-set check and the frame loop.\<close>

definition radar_setup ::
  "'cam library \<Rightarrow> host \<Rightarrow> handle \<times> handle \<times> handle \<times> handle \<times> gpu \<Rightarrow> error + 'cam radar" where
  "radar_setup L H st =
     (case st of (vb, ib, vpb, smp, g) \<Rightarrow>
      and_then (uploadImage (first_colormap H) g) (\<lambda>(cmt, g1).
        let (vt, g2) = uploadRadarVolume (radar_size H) g1;
            (vdb, g3) = uploadData g2;
            (bindGroupLayout, g4) = alloc g3;
            (layout, g5) = alloc g4;
            (pipeline, g6) = alloc g5;
            es = [\<lparr>binding = 0, resource = BufferBinding vpb\<rparr>,
                  \<lparr>binding = 1, resource = TextureView vt\<rparr>,
                  \<lparr>binding = 2, resource = TextureView cmt\<rparr>,
                  \<lparr>binding = 3, resource = SamplerBinding smp\<rparr>,
                  \<lparr>binding = 4, resource = BufferBinding vdb\<rparr>];
            (bg, g7) = createBindGroup es g6
        in and_then (createBuffer (20 * 4) False g7) (\<lambda>(upl, g8).
             Inr \<lparr>dev = g8,
                  camera = cam_new L [0, 0, 2] [0, 0, 0] [0, 1, 0] 2 (canvas_size H),
                  proj = mat4_perspective L (30 * pi / 180)
                           (fst (canvas_size H) / snd (canvas_size H)) 0.001 10,
                  projView = mat4_create,
                  cube_vertices = mesh_vertices H, cube_indices = mesh_indices H,
                  vertexBuffer = vb, indexBuffer = ib, viewParamsBuffer = vpb,
                  sampler = smp, colormapTexture = cmt, volumeTexture = vt,
                  renderPipeline = pipeline, renderPassDesc = clear_pass, bindGroup = bg,
                  colormapName = ''dBZ Radarscope'', volumeDataBuffer = vdb,
                  bindGroupEntries = es, upload = upl\<rparr>)))"

text \<open>
  The main function of the radar renderer, run against the events of \<open>ticks\<close>: the
  result is the page and how the function ended (it returned, it threw, or its loop is
  still running in the given state).
\<close>

definition radar_main ::
  "'cam library \<Rightarrow> host \<Rightarrow> page \<Rightarrow> tick list \<Rightarrow> page \<times> 'cam radar outcome" where
  "radar_main L H p ticks =
     (if \<not> gpu_defined H then (show_notice p, Returned)
      else if \<not> adapter_found H then (show_notice p, Returned)
      else
        let (shaderModule, g0) = alloc new_device in
        if hadError (shader_messages H) then (p, Returned)
        else
          case create_buffers H g0 of
            Inl e \<Rightarrow> (p, Threw e)
          | Inr st \<Rightarrow>
              (case linked H of
                 Some d \<Rightarrow>
                   if d \<in> set (volume_names H)
                   then (case and_then (radar_setup L H st) (run_loop L ticks) of
                           Inl e \<Rightarrow> (p, Threw e)
                         | Inr s \<Rightarrow> (p, Running s))
                   else (p\<lparr>alerts := alerts p @ [''Linked to invalid data set '' @ d]\<rparr>,
                         Returned)
               | None \<Rightarrow>
                   (case and_then (radar_setup L H st) (run_loop L ticks) of
                      Inl e \<Rightarrow> (p, Threw e)
                    | Inr s \<Rightarrow> (p, Running s))))"

subsection \<open>\<^verbatim>\<open>volume-raycaster.js\<close>\<close>

text \<open>
  The volume upload: a texture of the volume's dimensions, a staging buffer as long as
  the fetched bytes, and one buffer-to-texture copy whose \<^verbatim>\<open>bytesPerRow\<close> is
  \<^verbatim>\<open>volumeDims[0]\<close> and whose \<^verbatim>\<open>rowsPerImage\<close> is \<^verbatim>\<open>volumeDims[1]\<close>.
\<close>

definition upload_volume :: "nat \<times> nat \<times> nat \<Rightarrow> nat list \<Rightarrow> gpu \<Rightarrow> error + handle \<times> gpu" where
  "upload_volume volumeDims volumeData g =
     (case volumeDims of (w, h, d) \<Rightarrow>
        let (volumeTexture, g1) = createTexture Dim3d [w, h, d] g in
        and_then (createBuffer (length volumeData) True g1) (\<lambda>(volumeUploadBuf, g2).
        and_then (getMappedRange volumeUploadBuf g2) (\<lambda>range.
        and_then (Uint8Array range) (\<lambda>m.
        and_then (typed_set m volumeData 0) (\<lambda>m'.
          Inr (volumeTexture,
               submit [CopyBufferToTexture
                         \<lparr>src_buffer = volumeUploadBuf, bytesPerRow = w, rowsPerImage = h\<rparr>
                         volumeTexture (w, h, d)]
                 (unmap volumeUploadBuf (U8 m') g2)))))))"

definition vr_setup :: "'cam library \<Rightarrow> host \<Rightarrow> gpu \<Rightarrow> error + 'cam app" where
  "vr_setup L H g0 =
     and_then (create_buffers H g0) (\<lambda>(vb, ib, vpb, smp, g3).
       and_then (uploadImage (first_colormap H) g3) (\<lambda>(cmt, g4).
       and_then (case volume_data H of None \<Rightarrow> Inl AssetError | Some bytes \<Rightarrow> Inr bytes)
         (\<lambda>volumeData.
       and_then (upload_volume (volume_dims H) volumeData g4) (\<lambda>(vt, g5).
         let (bindGroupLayout, g6) = alloc g5;
             (bg, g7) = createBindGroup
                          [\<lparr>binding = 0, resource = BufferBinding vpb\<rparr>,
                           \<lparr>binding = 1, resource = TextureView vt\<rparr>,
                           \<lparr>binding = 2, resource = TextureView cmt\<rparr>,
                           \<lparr>binding = 3, resource = SamplerBinding smp\<rparr>] g6;
             (layout, g8) = alloc g7;
             (pipeline, g9) = alloc g8
         in Inr \<lparr>dev = g9,
                 camera = cam_new L [0.5, 0.5, 2.5] [0.5, 0.5, 0.5] [0, 1, 0] 2 (canvas_size H),
                 proj = mat4_perspective L (50 * pi / 180)
                          (fst (canvas_size H) / snd (canvas_size H)) 0.1 100,
                 projView = mat4_create,
                 cube_vertices = mesh_vertices H, cube_indices = mesh_indices H,
                 vertexBuffer = vb, indexBuffer = ib, viewParamsBuffer = vpb,
                 sampler = smp, colormapTexture = cmt, volumeTexture = vt,
                 renderPipeline = pipeline, renderPassDesc = clear_pass, bindGroup = bg\<rparr>))))"

text \<open>
  The main function of \<^verbatim>\<open>volume-raycaster.js\<close>.  It calls
  \<^verbatim>\<open>adapter.requestDevice()\<close> on whatever \<^verbatim>\<open>requestAdapter()\<close> resolved to; on
  \<^verbatim>\<open>null\<close> that member access throws a \<open>TypeError\<close>.
\<close>

definition vr_main ::
  "'cam library \<Rightarrow> host \<Rightarrow> page \<Rightarrow> tick list \<Rightarrow> page \<times> 'cam app outcome" where
  "vr_main L H p ticks =
     (if \<not> gpu_defined H then (show_notice p, Returned)
      else if \<not> adapter_found H then (p, Threw TypeError)
      else
        let (shaderModule, g0) = alloc new_device in
        if hadError (shader_messages H) then (p, Returned)
        else
          case and_then (vr_setup L H g0) (run_frames L ticks) of
            Inl e \<Rightarrow> (p, Threw e)
          | Inr s \<Rightarrow> (p, Running s))"

section \<open>Reading the state\<close>

text \<open>The floats a buffer holds (\<open>[]\<close> when there is no such buffer).\<close>

definition floats_of :: "gpu \<Rightarrow> handle \<Rightarrow> vec" where
  "floats_of g h =
     (case buffers g h of
        None \<Rightarrow> []
      | Some b \<Rightarrow> (case as_f32 b of None \<Rightarrow> [] | Some v \<Rightarrow> v))"

definition staged :: "'cam radar \<Rightarrow> vec" where
  "staged s = floats_of (dev s) (upload s)"

definition uniform :: "('cam, 'z) app_scheme \<Rightarrow> vec" where
  "uniform s = floats_of (dev s) (viewParamsBuffer s)"

text \<open>The camera after its handlers have run on a list of events.\<close>

definition cam_after :: "'cam library \<Rightarrow> input_event list \<Rightarrow> 'cam \<Rightarrow> 'cam" where
  "cam_after L evs c = foldl (\<lambda>c' e. handler L e c') c evs"

text \<open>
  The view-parameter record of one camera state: the projection-view matrix followed by
  the eye position.
\<close>

definition snapshot :: "'cam library \<Rightarrow> vec \<Rightarrow> 'cam \<Rightarrow> vec" where
  "snapshot L pr c = mat4_mul L pr (cam_matrix L c) @ cam_eyePos L c"

text \<open>
  What the libraries are relied on for: \<^verbatim>\<open>mat4.mul\<close> returns its 16-float output
  array and \<^verbatim>\<open>eyePos()\<close> a 3-component position.
\<close>

definition lib_ok :: "'cam library \<Rightarrow> bool" where
  "lib_ok L = ((\<forall>a b. length (mat4_mul L a b) = 16) \<and> (\<forall>c. length (cam_eyePos L c) = 3))"

text \<open>An unmapped 80-byte buffer of 20 floats.\<close>

definition params_buffer :: "gpu \<Rightarrow> handle \<Rightarrow> bool" where
  "params_buffer g h =
     (case buffers g h of
        None \<Rightarrow> False
      | Some b \<Rightarrow>
          buf_size b = 80 \<and> mapping b = Unmapped \<and>
          (case as_f32 b of None \<Rightarrow> False | Some v \<Rightarrow> length v = 20))"

text \<open>
  The state between two frames, in both programs: the uniform buffer exists, unmapped,
  the installed bind group has it at binding 0, the pass clears to the background
  colour, and the handles in use are older than the next fresh one.
\<close>

definition installed :: "('cam, 'z) app_scheme \<Rightarrow> bool" where
  "installed s =
     (params_buffer (dev s) (viewParamsBuffer s) \<and>
      viewParamsBuffer s < fresh (dev s) \<and> bindGroup s < fresh (dev s) \<and>
      colormapTexture s < fresh (dev s) \<and>
      map_option uniform_binding (bindGroups (dev s) (bindGroup s)) =
        Some (Some (viewParamsBuffer s)) \<and>
      loadOp (renderPassDesc s) = ''clear'' \<and>
      clearValue (renderPassDesc s) = [0.3, 0.3, 0.3, 1] \<and>
      storeOp (renderPassDesc s) = ''store'')"

text \<open>
  The state of the radar renderer between two iterations of its loop: in addition, the
  staging buffer exists, unmapped, and the installed bind group was created from the
  five entries of \<open>bindGroupEntries\<close>.
\<close>

definition ready :: "'cam radar \<Rightarrow> bool" where
  "ready s =
     (installed s \<and>
      params_buffer (dev s) (upload s) \<and> upload s \<noteq> viewParamsBuffer s \<and>
      upload s < fresh (dev s) \<and>
      bindGroups (dev s) (bindGroup s) = Some (bindGroupEntries s) \<and>
      map binding (bindGroupEntries s) = [0, 1, 2, 3, 4] \<and>
      resource (bindGroupEntries s ! 1) = TextureView (volumeTexture s) \<and>
      resource (bindGroupEntries s ! 2) = TextureView (colormapTexture s))"

text \<open>
  The two moments at which an iteration of the radar loop reads the camera: when it
  computes \<open>projView\<close> (after the events handled while it waited for the animation
  frame and, on a colormap change, for the image), and when it calls \<^verbatim>\<open>eyePos()\<close>
  (after the events handled while it waited for the staging buffer to be mapped).
\<close>

definition update_camera :: "'cam library \<Rightarrow> tick \<Rightarrow> 'cam radar \<Rightarrow> 'cam" where
  "update_camera L t s =
     cam_after L (if colormapName s \<noteq> picked t then during_image t else [])
       (cam_after L (during_tick t) (camera s))"

definition mapped_camera :: "'cam library \<Rightarrow> tick \<Rightarrow> 'cam radar \<Rightarrow> 'cam" where
  "mapped_camera L t s = cam_after L (during_map t) (update_camera L t s)"

text \<open>The state in which an iteration of the radar loop reaches its update step.\<close>

definition before_update :: "'cam library \<Rightarrow> tick \<Rightarrow> 'cam radar \<Rightarrow> error + 'cam radar" where
  "before_update L t s =
     (let s0 = deliver L (during_tick t) s in
      if colormapName s0 \<noteq> picked t then swap_colormap L t s0 else Inr s0)"

text \<open>An unmapped 80-byte buffer holding the floats \<open>r\<close>.\<close>

definition params_record :: "vec \<Rightarrow> gpu_buffer" where
  "params_record r = \<lparr>buf_size = 80, mapping = Unmapped, contents = F32 r\<rparr>"

text \<open>The device a run ended with, when it did not throw.\<close>

definition result_dev :: "error + ('cam, 'z) app_scheme \<Rightarrow> gpu option" where
  "result_dev r = (case r of Inl e \<Rightarrow> None | Inr s \<Rightarrow> Some (dev s))"

text \<open>The indexed draw calls, and all draw calls, of a command buffer's render passes.\<close>

fun is_indexed :: "pass_cmd \<Rightarrow> bool" where
  "is_indexed (DrawIndexed n k fi bv fin) = True"
| "is_indexed c = False"

fun is_draw :: "pass_cmd \<Rightarrow> bool" where
  "is_draw (Draw n k fv fi) = True"
| "is_draw (DrawIndexed n k fi bv fin) = True"
| "is_draw c = False"

fun pass_cmds :: "command \<Rightarrow> pass_cmd list" where
  "pass_cmds (RenderPass att cs) = cs"
| "pass_cmds c = []"

definition indexed_draws :: "command list \<Rightarrow> pass_cmd list" where
  "indexed_draws cmds = filter is_indexed (concat (map pass_cmds cmds))"

definition draws :: "command list \<Rightarrow> pass_cmd list" where
  "draws cmds = filter is_draw (concat (map pass_cmds cmds))"

section \<open>A small instance\<close>

text \<open>
  A camera on the z axis looking at the origin, whose state is its distance: the wheel
  moves it, rotation and panning leave it where it is.  The matrix product keeps the
  translation entry of the view matrix in all 16 places; this is enough to tell two
  camera states apart in what reaches the GPU.
\<close>

definition demo_lib :: "number library" where
  "demo_lib =
     \<lparr>mat4_mul = (\<lambda>a b. replicate 16 (b ! 14)),
      mat4_perspective = (\<lambda>fovy aspect near far. replicate 16 1),
      cam_new = (\<lambda>eye center up zoomSpeed screenDims. eye ! 2),
      cam_matrix = (\<lambda>z. [1, 0, 0, 0,  0, 1, 0, 0,  0, 0, 1, 0,  0, 0, - z, 1]),
      cam_eyePos = (\<lambda>z. [0, 0, z]),
      cam_rotate = (\<lambda>prev cur z. z),
      cam_pan = (\<lambda>drag z. z),
      cam_zoom = (\<lambda>amt z. z + amt)\<rparr>"

definition demo_entries :: "entry list" where
  "demo_entries =
     [\<lparr>binding = 0, resource = BufferBinding 3\<rparr>,
      \<lparr>binding = 1, resource = TextureView 6\<rparr>,
      \<lparr>binding = 2, resource = TextureView 5\<rparr>,
      \<lparr>binding = 3, resource = SamplerBinding 4\<rparr>,
      \<lparr>binding = 4, resource = BufferBinding 7\<rparr>]"

definition demo_dev :: gpu where
  "demo_dev =
     \<lparr>fresh = 13,
      buffers = [1 \<mapsto> \<lparr>buf_size = 168, mapping = Unmapped, contents = F32 (replicate 42 0)\<rparr>,
                 2 \<mapsto> \<lparr>buf_size = 56, mapping = Unmapped, contents = U16 (replicate 28 0)\<rparr>,
                 3 \<mapsto> \<lparr>buf_size = 80, mapping = Unmapped, contents = Zeros\<rparr>,
                 12 \<mapsto> \<lparr>buf_size = 80, mapping = Unmapped, contents = Zeros\<rparr>],
      textures = [5 \<mapsto> \<lparr>tex_dimension = Dim2d, tex_size = [2, 1, 1]\<rparr>,
                  6 \<mapsto> \<lparr>tex_dimension = Dim3d, tex_size = [500, 500, 40]\<rparr>],
      bindGroups = [11 \<mapsto> demo_entries],
      submitted = [], rejected = 0, presented = []\<rparr>"

definition demo_state :: "number radar" where
  "demo_state =
     \<lparr>dev = demo_dev, camera = 2, proj = replicate 16 1, projView = mat4_create,
      cube_vertices = replicate 42 0, cube_indices = replicate 14 0,
      vertexBuffer = 1, indexBuffer = 2, viewParamsBuffer = 3, sampler = 4,
      colormapTexture = 5, volumeTexture = 6, renderPipeline = 10,
      renderPassDesc = clear_pass, bindGroup = 11,
      colormapName = ''dBZ Radarscope'', volumeDataBuffer = 7,
      bindGroupEntries = demo_entries, upload = 12\<rparr>"

text \<open>
  Four ticks: an ordinary visible one; a hidden one; one on which another colormap has
  been picked; and one during which the wheel turns while the loop waits for the staging
  buffer to be mapped.
\<close>

definition demo_tick :: tick where
  "demo_tick = \<lparr>during_tick = [Wheel 1], hidden = False, picked = ''dBZ Radarscope'',
     decoded = Some (180, 1), during_image = [], during_map = [], surface = 100,
     hidden_at_submit = False\<rparr>"

definition hidden_tick :: tick where
  "hidden_tick = \<lparr>during_tick = [], hidden = True, picked = ''Cool Warm'',
     decoded = None, during_image = [], during_map = [], surface = 100,
     hidden_at_submit = True\<rparr>"

definition swap_tick :: tick where
  "swap_tick = \<lparr>during_tick = [], hidden = False, picked = ''Cool Warm'',
     decoded = Some (180, 1), during_image = [], during_map = [], surface = 100,
     hidden_at_submit = False\<rparr>"

definition torn_tick :: tick where
  "torn_tick = \<lparr>during_tick = [], hidden = False, picked = ''dBZ Radarscope'',
     decoded = Some (180, 1), during_image = [], during_map = [Wheel 1], surface = 100,
     hidden_at_submit = False\<rparr>"

text \<open>
  A tick on which another colormap has been picked and the page is hidden while the
  image loads: the iteration found the page visible, and the page is hidden when it
  submits.
\<close>

definition flight_tick :: tick where
  "flight_tick = \<lparr>during_tick = [], hidden = False, picked = ''Cool Warm'',
     decoded = Some (180, 1), during_image = [], during_map = [], surface = 100,
     hidden_at_submit = True\<rparr>"

text \<open>A 20-float record whose last float is zero.\<close>

definition padded :: "vec \<Rightarrow> bool" where
  "padded r = (length r = 20 \<and> r ! 19 = 0)"

definition demo_host :: host where
  "demo_host =
     \<lparr>gpu_defined = True, adapter_found = True, shader_messages = [], linked = None,
      volume_names = [''Bonsai'', ''Foot''], canvas_size = (640, 480),
      mesh_vertices = replicate 42 0, mesh_indices = replicate 14 0,
      first_colormap = Some (180, 1), radar_size = [500, 500, 40],
      volume_dims = (256, 256, 256), volume_data = Some (replicate 16777216 0)\<rparr>"

definition demo_page :: page where
  "demo_page = \<lparr>canvas_style = [], no_webgpu_style = ''display:none;'', alerts = []\<rparr>"

text \<open>The same state without the fields only the radar renderer has.\<close>

definition demo_app :: "number app" where
  "demo_app = app.truncate demo_state"


text \<open>
  The command buffers a run had accepted, and what its draw calls read, when it did not
  throw.
\<close>

definition result_submitted :: "error + ('cam, 'z) app_scheme \<Rightarrow> command list list" where
  "result_submitted r = (case r of Inl e \<Rightarrow> [] | Inr s \<Rightarrow> submitted (dev s))"

definition result_presented :: "error + ('cam, 'z) app_scheme \<Rightarrow> seen list" where
  "result_presented r = (case r of Inl e \<Rightarrow> [] | Inr s \<Rightarrow> presented (dev s))"

text \<open>
  A volume upload is accepted when the program threw nothing and the device executed
  the copy it submitted.
\<close>

definition volume_accepted :: "gpu \<Rightarrow> error + handle \<times> gpu \<Rightarrow> bool" where
  "volume_accepted g r =
     (case r of
        Inl e \<Rightarrow> False
      | Inr (vt, g') \<Rightarrow> length (submitted g') = Suc (length (submitted g)))"

lemma and_then_Inr [simp]: "and_then (Inr x) f = f x"
  by (simp add: and_then_def)

lemma and_then_Inl [simp]: "and_then (Inl e) f = Inl e"
  by (simp add: and_then_def)

lemma and_then_eq_Inr: "and_then r f = Inr y \<longleftrightarrow> (\<exists>x. r = Inr x \<and> f x = Inr y)"
  by (cases r) simp_all

lemma dev_deliver [simp]: "dev (deliver L evs s) = dev s"
  unfolding deliver_def by (induction evs arbitrary: s) (simp_all add: dispatch_def)

lemma camera_deliver: "camera (deliver L evs s) = cam_after L evs (camera s)"
  unfolding deliver_def cam_after_def by (induction evs arbitrary: s) (simp_all add: dispatch_def)

lemma deliver_eq: "deliver L evs s = s\<lparr>camera := cam_after L evs (camera s)\<rparr>"
  unfolding deliver_def cam_after_def by (induction evs arbitrary: s) (simp_all add: dispatch_def)


lemma typed_set_matrix:
  "length v = 20 \<Longrightarrow> length M = 16 \<Longrightarrow> typed_set v M 0 = Inr (M @ drop 16 v)"
  by (simp add: typed_set_def)

lemma drop_19_of_20: "length v = 20 \<Longrightarrow> drop 19 v = [v ! 19]"
  by (cases v rule: rev_cases) (simp_all add: nth_append)

lemma typed_set_eye:
  "length v = 20 \<Longrightarrow> length M = 16 \<Longrightarrow> length E = 3 \<Longrightarrow>
   typed_set (M @ drop 16 v) E 16 = Inr (M @ E @ [v ! 19])"
  by (simp add: typed_set_def drop_19_of_20)

lemma params_bufferE:
  assumes "params_buffer g h"
  obtains b v where "buffers g h = Some b" "buf_size b = 80" "mapping b = Unmapped"
    "as_f32 b = Some v" "length v = 20"
  using assms unfolding params_buffer_def by (auto split: option.splits)

lemma as_f32_mapping [simp]: "as_f32 (b\<lparr>mapping := m\<rparr>) = as_f32 b"
  by (simp add: as_f32_def split: contents.splits)

lemma stage_view_params_ok:
  assumes pb: "params_buffer (dev s) (upload s)"
    and len: "length (projView s) = 16"
    and lib: "lib_ok L"
  shows "\<exists>b. buffers (dev s) (upload s) = Some b \<and>
     stage_view_params L t s =
       Inr ((deliver L (during_map t) s)\<lparr>dev := (dev s)\<lparr>buffers := (buffers (dev s))(upload s \<mapsto>
              b\<lparr>mapping := Unmapped,
                contents := F32 (projView s @ cam_eyePos L (cam_after L (during_map t) (camera s))
                                 @ [floats_of (dev s) (upload s) ! 19])\<rparr>)\<rparr>\<rparr>)"
proof -
  from pb obtain b v where b: "buffers (dev s) (upload s) = Some b" "buf_size b = 80"
      "mapping b = Unmapped" "as_f32 b = Some v" "length v = 20"
    by (rule params_bufferE)
  have E: "length (cam_eyePos L (cam_after L (during_map t) (camera s))) = 3"
    using lib by (simp add: lib_ok_def)
  have fl: "floats_of (dev s) (upload s) = v"
    using b by (simp add: floats_of_def)
  show ?thesis
    using b len E fl
    by (simp add: stage_view_params_def mapAsync_def getMappedRange_def Float32Array_def
        unmap_def deliver_eq typed_set_matrix typed_set_eye Let_def)
qed


lemma copy_floats_whole:
  "length va = 20 \<Longrightarrow> length vb = 20 \<Longrightarrow> copy_floats va 0 vb 0 80 = va"
  by (simp add: copy_floats_def)

lemma as_f32_F32 [simp]: "as_f32 (b\<lparr>contents := F32 v\<rparr>) = Some v"
  by (simp add: as_f32_def)

lemma exec_frame_commands:
  assumes u: "buffers g u = Some bu" "buf_size bu = 80" "mapping bu = Unmapped"
      "as_f32 bu = Some r" "length r = 20"
    and v: "params_buffer g (viewParamsBuffer s)" "u \<noteq> viewParamsBuffer s"
    and bg: "bindGroups g (bindGroup s) = Some es" "uniform_binding es = Some (viewParamsBuffer s)"
  shows "\<exists>bv. buffers g (viewParamsBuffer s) = Some bv \<and>
     exec_cmds (frame_commands u t s) g =
       Some (g\<lparr>buffers := (buffers g)(viewParamsBuffer s \<mapsto> bv\<lparr>contents := F32 r\<rparr>),
               presented := presented g @
                 [\<lparr>seen_target = surface t, seen_clear = clearValue (renderPassDesc s),
                   seen_params = r, seen_entries = es,
                   seen_draw = Draw (length (cube_vertices s) div 3) 1 0 0\<rparr>]\<rparr>)"
proof -
  from v(1) obtain bv vv where bv: "buffers g (viewParamsBuffer s) = Some bv" "buf_size bv = 80"
      "mapping bv = Unmapped" "as_f32 bv = Some vv" "length vv = 20"
    by (rule params_bufferE)
  have cp: "exec_cmd (CopyBufferToBuffer u 0 (viewParamsBuffer s) 0 (20 * 4)) g =
      Some (g\<lparr>buffers := (buffers g)(viewParamsBuffer s \<mapsto> bv\<lparr>contents := F32 r\<rparr>)\<rparr>)"
    using u v(2) bv by (simp add: copy_floats_whole buffer_ok_def maxBufferSize_def)
  show ?thesis
    using bv(1) bv(3) bg cp
    by (simp add: frame_commands_def observe_def)
qed


lemma swap_colormap_ok:
  assumes len: "map binding (bindGroupEntries s) = [0, 1, 2, 3, 4]"
    and img: "decoded t = Some (w, h)"
  shows "swap_colormap L t s =
     Inr (s\<lparr>dev := (dev s)\<lparr>fresh := Suc (Suc (fresh (dev s))),
                 textures := (textures (dev s))(fresh (dev s) \<mapsto> \<lparr>tex_dimension = Dim2d, tex_size = [w, h, 1]\<rparr>),
                 bindGroups := (bindGroups (dev s))(Suc (fresh (dev s)) \<mapsto>
                    (bindGroupEntries s)[2 := \<lparr>binding = 2, resource = TextureView (fresh (dev s))\<rparr>])\<rparr>,
            camera := cam_after L (during_image t) (camera s),
            colormapTexture := fresh (dev s),
            bindGroup := Suc (fresh (dev s)),
            colormapName := picked t,
            bindGroupEntries :=
              (bindGroupEntries s)[2 := \<lparr>binding = 2, resource = TextureView (fresh (dev s))\<rparr>]\<rparr>)"
proof -
  have l5: "length (bindGroupEntries s) = 5"
    using arg_cong [OF len, of length] by simp
  have b2: "binding (bindGroupEntries s ! 2) = 2"
    using arg_cong [OF len, of "\<lambda>xs. xs ! 2"] l5 by simp
  have e2: "(bindGroupEntries s ! 2)\<lparr>resource := TextureView x\<rparr> = \<lparr>binding = 2, resource = TextureView x\<rparr>" for x
    using b2 by (cases "bindGroupEntries s ! 2") simp
  show ?thesis
    using img l5
    by (simp add: swap_colormap_def uploadImage_def createTexture_def createBindGroup_def
        deliver_eq e2 Let_def)
qed


lemma buffer_eq:
  "buf_size b = n \<Longrightarrow> b\<lparr>mapping := m, contents := c\<rparr> = \<lparr>buf_size = n, mapping = m, contents = c\<rparr>"
  "buf_size b = n \<Longrightarrow> mapping b = m \<Longrightarrow> b\<lparr>contents := c\<rparr> = \<lparr>buf_size = n, mapping = m, contents = c\<rparr>"
  by (cases b; simp)+


lemma readyD:
  assumes "ready s"
  shows "installed s" "params_buffer (dev s) (upload s)" "upload s \<noteq> viewParamsBuffer s"
    "upload s < fresh (dev s)" "bindGroups (dev s) (bindGroup s) = Some (bindGroupEntries s)"
    "map binding (bindGroupEntries s) = [0, 1, 2, 3, 4]"
    "resource (bindGroupEntries s ! 1) = TextureView (volumeTexture s)"
    "resource (bindGroupEntries s ! 2) = TextureView (colormapTexture s)"
  using assms by (simp_all add: ready_def)

lemma installedD:
  assumes "installed s"
  shows "params_buffer (dev s) (viewParamsBuffer s)" "viewParamsBuffer s < fresh (dev s)"
    "bindGroup s < fresh (dev s)" "colormapTexture s < fresh (dev s)"
    "\<exists>es. bindGroups (dev s) (bindGroup s) = Some es \<and> uniform_binding es = Some (viewParamsBuffer s)"
    "loadOp (renderPassDesc s) = ''clear''" "clearValue (renderPassDesc s) = [0.3, 0.3, 0.3, 1]"
    "storeOp (renderPassDesc s) = ''store''"
  using assms by (auto simp add: installed_def)

lemma stage_ready:
  fixes t :: tick and s :: "'cam radar"
  assumes rdy: "ready s" and lib: "lib_ok L"
  defines "M \<equiv> mat4_mul L (proj s) (cam_matrix L (camera s))"
  defines "r \<equiv> M @ cam_eyePos L (cam_after L (during_map t) (camera s)) @ [staged s ! 19]"
  shows "stage_view_params L t (s\<lparr>projView := M\<rparr>) =
      Inr (s\<lparr>dev := (dev s)\<lparr>buffers := (buffers (dev s))(upload s \<mapsto> params_record r)\<rparr>,
             camera := cam_after L (during_map t) (camera s), projView := M\<rparr>)"
proof -
  let ?s2 = "s\<lparr>projView := M\<rparr>"
  note R = readyD [OF rdy]
  have lenM: "length M = 16" using lib by (simp add: M_def lib_ok_def)
  from R(2) obtain bu vu where bu: "buffers (dev s) (upload s) = Some bu" "buf_size bu = 80"
      "mapping bu = Unmapped" "as_f32 bu = Some vu" "length vu = 20"
    by (rule params_bufferE)
  have st19: "floats_of (dev s) (upload s) ! 19 = staged s ! 19"
    by (simp add: staged_def)
  have "params_buffer (dev ?s2) (upload ?s2)" "length (projView ?s2) = 16"
    using R(2) lenM by simp_all
  from stage_view_params_ok [OF this lib, of t]
  show ?thesis
    using bu st19 by (simp add: deliver_eq r_def params_record_def buffer_eq)
qed

lemma frame_tail:
  fixes t :: tick and s :: "'cam radar"
  assumes rdy: "ready s" and lib: "lib_ok L"
  defines "M \<equiv> mat4_mul L (proj s) (cam_matrix L (camera s))"
  defines "r \<equiv> M @ cam_eyePos L (cam_after L (during_map t) (camera s)) @ [staged s ! 19]"
  shows "and_then (stage_view_params L t (s\<lparr>projView := M\<rparr>))
           (\<lambda>s3. Inr (encode_frame (upload s3) t s3)) =
     Inr (s\<lparr>dev := (dev s)\<lparr>buffers := (buffers (dev s))
                    (upload s \<mapsto> params_record r, viewParamsBuffer s \<mapsto> params_record r),
                  submitted := submitted (dev s) @ [frame_commands (upload s) t s],
                  presented := presented (dev s) @
                    [\<lparr>seen_target = surface t, seen_clear = [0.3, 0.3, 0.3, 1],
                      seen_params = r, seen_entries = bindGroupEntries s,
                      seen_draw = Draw (length (cube_vertices s) div 3) 1 0 0\<rparr>]\<rparr>,
            camera := cam_after L (during_map t) (camera s),
            projView := M,
            renderPassDesc := (renderPassDesc s)\<lparr>view := Some (surface t)\<rparr>\<rparr>)"
proof -
  let ?s2 = "s\<lparr>projView := M\<rparr>"
  note R = readyD [OF rdy]
  note I = installedD [OF R(1)]
  have lenM: "length M = 16" using lib by (simp add: M_def lib_ok_def)
  have lenE: "length (cam_eyePos L (cam_after L (during_map t) (camera s))) = 3"
    using lib by (simp add: lib_ok_def)
  from R(2) obtain bu vu where bu: "buffers (dev s) (upload s) = Some bu" "buf_size bu = 80"
      "mapping bu = Unmapped" "as_f32 bu = Some vu" "length vu = 20"
    by (rule params_bufferE)
  from I(1) obtain bv vv where bv: "buffers (dev s) (viewParamsBuffer s) = Some bv"
      "buf_size bv = 80" "mapping bv = Unmapped" "as_f32 bv = Some vv" "length vv = 20"
    by (rule params_bufferE)
  have st19: "floats_of (dev s) (upload s) ! 19 = staged s ! 19"
    by (simp add: staged_def)
  have "params_buffer (dev ?s2) (upload ?s2)" "length (projView ?s2) = 16"
    using R(2) lenM by simp_all
  from stage_view_params_ok [OF this lib, of t]
  have stage: "stage_view_params L t ?s2 =
      Inr (s\<lparr>dev := (dev s)\<lparr>buffers := (buffers (dev s))(upload s \<mapsto> params_record r)\<rparr>,
             camera := cam_after L (during_map t) (camera s), projView := M\<rparr>)"
    using bu st19 by (simp add: deliver_eq r_def params_record_def buffer_eq)
  let ?s3 = "s\<lparr>dev := (dev s)\<lparr>buffers := (buffers (dev s))(upload s \<mapsto> params_record r)\<rparr>,
             camera := cam_after L (during_map t) (camera s), projView := M\<rparr>"
  have lenr: "length r = 20" using lenM lenE by (simp add: r_def)
  have pbv: "params_buffer (dev ?s3) (viewParamsBuffer ?s3)"
    using I(1) R(3) by (simp add: params_buffer_def)
  have ex: "exec_cmds (frame_commands (upload s) t ?s3) (dev ?s3) =
       Some ((dev ?s3)\<lparr>buffers := (buffers (dev ?s3))(viewParamsBuffer s \<mapsto> params_record r),
               presented := presented (dev ?s3) @
                 [\<lparr>seen_target = surface t, seen_clear = clearValue (renderPassDesc ?s3),
                   seen_params = r, seen_entries = bindGroupEntries s,
                   seen_draw = Draw (length (cube_vertices ?s3) div 3) 1 0 0\<rparr>]\<rparr>)"
    using exec_frame_commands [of "dev ?s3" "upload s" "params_record r" r ?s3 "bindGroupEntries s" t]
      pbv R(3) R(5) I(5) lenr bv
    by (simp add: params_record_def as_f32_def buffer_eq)
  have fc: "frame_commands (upload s) t ?s3 = frame_commands (upload s) t s"
    by (simp add: frame_commands_def)
  show ?thesis
    unfolding stage
    using ex I(7) R(3)
    by (simp add: encode_frame_def submit_def fc fun_upd_twist)
qed


lemma entries5:
  assumes "map binding es = [0, 1, 2, 3, 4]"
  obtains e0 e1 e2 e3 e4 where "es = [e0, e1, e2, e3, e4]" "binding e0 = 0" "binding e1 = 1"
    "binding e2 = 2" "binding e3 = 3" "binding e4 = 4"
  using assms by (auto simp add: map_eq_Cons_conv)

lemma uniform_binding_swap:
  assumes "map binding es = [0, 1, 2, 3, 4]"
  shows "uniform_binding (es[2 := \<lparr>binding = 2, resource = x\<rparr>]) = uniform_binding es"
    and "map binding (es[2 := \<lparr>binding = 2, resource = x\<rparr>]) = [0, 1, 2, 3, 4]"
    and "es[2 := \<lparr>binding = 2, resource = x\<rparr>] ! 1 = es ! 1"
    and "resource (es[2 := \<lparr>binding = 2, resource = x\<rparr>] ! 2) = x"
  using assms by (auto elim!: entries5 simp add: uniform_binding_def)

lemma ready_camera [simp]: "ready (s\<lparr>camera := c\<rparr>) = ready s"
  by (simp add: ready_def installed_def)

lemma staged_camera [simp]: "staged (s\<lparr>camera := c\<rparr>) = staged s"
  by (simp add: staged_def)

lemma loop_body_visible:
  "\<not> hidden t \<Longrightarrow> loop_body L t s =
     and_then (before_update L t s) (\<lambda>s1.
       and_then (stage_view_params L t (s1\<lparr>projView := mat4_mul L (proj s1) (cam_matrix L (camera s1))\<rparr>))
         (\<lambda>s3. Inr (encode_frame (upload s3) t s3)))"
  by (simp add: loop_body_def before_update_def Let_def)

lemma before_update_same:
  "colormapName s = picked t \<Longrightarrow>
   before_update L t s = Inr (s\<lparr>camera := update_camera L t s\<rparr>)"
  by (simp add: before_update_def deliver_eq update_camera_def cam_after_def)

lemma cam_after_append: "cam_after L (xs @ ys) c = cam_after L ys (cam_after L xs c)"
  by (simp add: cam_after_def)

lemma before_update_swap:
  assumes "colormapName s \<noteq> picked t" "decoded t = Some (w, h)"
    "map binding (bindGroupEntries s) = [0, 1, 2, 3, 4]"
  shows "before_update L t s =
     Inr (s\<lparr>dev := (dev s)\<lparr>fresh := Suc (Suc (fresh (dev s))),
                 textures := (textures (dev s))(fresh (dev s) \<mapsto> \<lparr>tex_dimension = Dim2d, tex_size = [w, h, 1]\<rparr>),
                 bindGroups := (bindGroups (dev s))(Suc (fresh (dev s)) \<mapsto>
                    (bindGroupEntries s)[2 := \<lparr>binding = 2, resource = TextureView (fresh (dev s))\<rparr>])\<rparr>,
            camera := update_camera L t s,
            colormapTexture := fresh (dev s),
            bindGroup := Suc (fresh (dev s)),
            colormapName := picked t,
            bindGroupEntries :=
              (bindGroupEntries s)[2 := \<lparr>binding = 2, resource = TextureView (fresh (dev s))\<rparr>]\<rparr>)"
proof -
  let ?s0 = "deliver L (during_tick t) s"
  have "map binding (bindGroupEntries ?s0) = [0, 1, 2, 3, 4]"
    using assms(3) by (simp add: deliver_eq)
  from swap_colormap_ok [OF this assms(2), of L]
  show ?thesis
    using assms(1)
    by (simp add: before_update_def deliver_eq update_camera_def Let_def)
qed

lemma ready_swapped:
  assumes "ready s"
  shows "ready (s\<lparr>dev := (dev s)\<lparr>fresh := Suc (Suc (fresh (dev s))),
                 textures := (textures (dev s))(fresh (dev s) \<mapsto> sz),
                 bindGroups := (bindGroups (dev s))(Suc (fresh (dev s)) \<mapsto>
                    (bindGroupEntries s)[2 := \<lparr>binding = 2, resource = TextureView (fresh (dev s))\<rparr>])\<rparr>,
            camera := c,
            colormapTexture := fresh (dev s),
            bindGroup := Suc (fresh (dev s)),
            colormapName := nm,
            bindGroupEntries :=
              (bindGroupEntries s)[2 := \<lparr>binding = 2, resource = TextureView (fresh (dev s))\<rparr>]\<rparr>)"
proof -
  note R = readyD [OF assms]
  note I = installedD [OF R(1)]
  from I(5) R(5) have ub: "uniform_binding (bindGroupEntries s) = Some (viewParamsBuffer s)"
    by simp
  show ?thesis
    using R I ub uniform_binding_swap [OF R(6)]
    by (simp add: ready_def installed_def params_buffer_def)
qed


lemma params_buffer_upd_same:
  "length r = 20 \<Longrightarrow> params_buffer (g\<lparr>buffers := (buffers g)(h \<mapsto> params_record r)\<rparr>) h"
  by (simp add: params_buffer_def params_record_def as_f32_def)

lemma ready_rendered:
  assumes "ready s" "length r = 20"
  shows "ready (s\<lparr>dev := (dev s)\<lparr>buffers := (buffers (dev s))
                    (upload s \<mapsto> params_record r, viewParamsBuffer s \<mapsto> params_record r),
                  submitted := X, presented := Y\<rparr>,
            camera := c, projView := M,
            renderPassDesc := (renderPassDesc s)\<lparr>view := v\<rparr>\<rparr>)"
proof -
  note R = readyD [OF assms(1)]
  note I = installedD [OF R(1)]
  show ?thesis
    using R(3-) I(2-) assms(2)
    by (simp add: ready_def installed_def params_buffer_def params_record_def as_f32_def)
qed

lemma iteration_effect:
  fixes t :: tick and s :: "'cam radar"
  assumes rdy: "ready s" and lib: "lib_ok L" and vis: "\<not> hidden t"
    and img: "colormapName s = picked t \<or> decoded t \<noteq> None"
  defines "M \<equiv> mat4_mul L (proj s) (cam_matrix L (update_camera L t s))"
  defines "r \<equiv> M @ cam_eyePos L (mapped_camera L t s) @ [staged s ! 19]"
  shows "\<exists>s1 s'. before_update L t s = Inr s1 \<and> ready s1 \<and> loop_body L t s = Inr s' \<and> ready s' \<and>
     camera s' = mapped_camera L t s \<and> projView s' = M \<and> proj s' = proj s \<and>
     staged s' = r \<and> uniform s' = r \<and>
     buffers (dev s') = (buffers (dev s))
        (upload s \<mapsto> params_record r, viewParamsBuffer s \<mapsto> params_record r) \<and>
     presented (dev s') = presented (dev s) @
        [\<lparr>seen_target = surface t, seen_clear = [0.3, 0.3, 0.3, 1], seen_params = r,
          seen_entries = bindGroupEntries s',
          seen_draw = Draw (length (cube_vertices s) div 3) 1 0 0\<rparr>] \<and>
     submitted (dev s') = submitted (dev s) @ [frame_commands (upload s) t s1] \<and>
     rejected (dev s') = rejected (dev s) \<and>
     upload s' = upload s \<and> viewParamsBuffer s' = viewParamsBuffer s \<and>
     volumeTexture s' = volumeTexture s \<and> renderPipeline s' = renderPipeline s \<and>
     vertexBuffer s' = vertexBuffer s \<and> indexBuffer s' = indexBuffer s \<and>
     cube_vertices s' = cube_vertices s \<and> colormapName s' = picked t \<and>
     bindGroup s' = bindGroup s1 \<and> bindGroupEntries s' = bindGroupEntries s1 \<and>
     colormapTexture s' = colormapTexture s1 \<and>
     bindGroups (dev s') = bindGroups (dev s1) \<and> textures (dev s') = textures (dev s1) \<and>
     fresh (dev s') = fresh (dev s1) \<and>
     vertexBuffer s1 = vertexBuffer s \<and> indexBuffer s1 = indexBuffer s \<and>
     renderPipeline s1 = renderPipeline s \<and> viewParamsBuffer s1 = viewParamsBuffer s \<and>
     cube_vertices s1 = cube_vertices s \<and>
     renderPassDesc s1 = renderPassDesc s \<and> volumeTexture s1 = volumeTexture s \<and>
     camera s1 = update_camera L t s \<and>
     renderPassDesc s' = (renderPassDesc s)\<lparr>view := Some (surface t)\<rparr>"
proof -
  note R = readyD [OF rdy]
  have "\<exists>s1. before_update L t s = Inr s1 \<and> ready s1 \<and> camera s1 = update_camera L t s \<and>
      proj s1 = proj s \<and> staged s1 = staged s \<and> upload s1 = upload s \<and>
      viewParamsBuffer s1 = viewParamsBuffer s \<and> buffers (dev s1) = buffers (dev s) \<and>
      presented (dev s1) = presented (dev s) \<and> submitted (dev s1) = submitted (dev s) \<and>
      rejected (dev s1) = rejected (dev s) \<and> cube_vertices s1 = cube_vertices s \<and>
      volumeTexture s1 = volumeTexture s \<and> renderPipeline s1 = renderPipeline s \<and>
      vertexBuffer s1 = vertexBuffer s \<and> indexBuffer s1 = indexBuffer s \<and>
      renderPassDesc s1 = renderPassDesc s \<and> colormapName s1 = picked t"
  proof (cases "colormapName s = picked t")
    case True
    then show ?thesis
      using rdy by (simp add: before_update_same)
  next
    case False
    with img obtain w h where wh: "decoded t = Some (w, h)" by auto
    show ?thesis
      unfolding before_update_swap [OF False wh R(6)]
      using ready_swapped [OF rdy, where sz = "\<lparr>tex_dimension = Dim2d, tex_size = [w, h, 1]\<rparr>" and c = "update_camera L t s"
          and nm = "picked t"]
      by (simp add: staged_def floats_of_def)
  qed
  then obtain s1 where s1: "before_update L t s = Inr s1" "ready s1"
      "camera s1 = update_camera L t s"
      "proj s1 = proj s" "staged s1 = staged s" "upload s1 = upload s"
      "viewParamsBuffer s1 = viewParamsBuffer s" "buffers (dev s1) = buffers (dev s)"
      "presented (dev s1) = presented (dev s)" "submitted (dev s1) = submitted (dev s)"
      "rejected (dev s1) = rejected (dev s)" "cube_vertices s1 = cube_vertices s"
      "volumeTexture s1 = volumeTexture s" "renderPipeline s1 = renderPipeline s"
      "vertexBuffer s1 = vertexBuffer s" "indexBuffer s1 = indexBuffer s"
      "renderPassDesc s1 = renderPassDesc s" "colormapName s1 = picked t"
    by blast
  have lenr: "length r = 20"
    using lib by (simp add: r_def M_def lib_ok_def)
  have r1: "M @ cam_eyePos L (cam_after L (during_map t) (camera s1)) @ [staged s1 ! 19] = r"
    using s1 by (simp add: r_def mapped_camera_def)
  have M1: "mat4_mul L (proj s1) (cam_matrix L (camera s1)) = M"
    using s1 by (simp add: M_def)
  have body: "loop_body L t s = Inr (s1\<lparr>dev := (dev s1)\<lparr>buffers := (buffers (dev s1))
                    (upload s1 \<mapsto> params_record r, viewParamsBuffer s1 \<mapsto> params_record r),
                  submitted := submitted (dev s1) @ [frame_commands (upload s1) t s1],
                  presented := presented (dev s1) @
                    [\<lparr>seen_target = surface t, seen_clear = [0.3, 0.3, 0.3, 1],
                      seen_params = r, seen_entries = bindGroupEntries s1,
                      seen_draw = Draw (length (cube_vertices s1) div 3) 1 0 0\<rparr>]\<rparr>,
            camera := cam_after L (during_map t) (camera s1),
            projView := M,
            renderPassDesc := (renderPassDesc s1)\<lparr>view := Some (surface t)\<rparr>\<rparr>)"
    using frame_tail [OF s1(2) lib, of t] s1(1) vis
    by (simp add: loop_body_visible r1 M1)
  have rdy': "ready (s1\<lparr>dev := (dev s1)\<lparr>buffers := (buffers (dev s1))
                    (upload s1 \<mapsto> params_record r, viewParamsBuffer s1 \<mapsto> params_record r),
                  submitted := submitted (dev s1) @ [frame_commands (upload s1) t s1],
                  presented := presented (dev s1) @
                    [\<lparr>seen_target = surface t, seen_clear = [0.3, 0.3, 0.3, 1],
                      seen_params = r, seen_entries = bindGroupEntries s1,
                      seen_draw = Draw (length (cube_vertices s1) div 3) 1 0 0\<rparr>]\<rparr>,
            camera := cam_after L (during_map t) (camera s1),
            projView := M,
            renderPassDesc := (renderPassDesc s1)\<lparr>view := Some (surface t)\<rparr>\<rparr>)"
    by (rule ready_rendered [OF s1(2) lenr])
  have ne: "upload s \<noteq> viewParamsBuffer s" by (rule R(3))
  show ?thesis
    apply (rule exI [of _ s1])
    apply (rule exI)
    apply (intro conjI)
    apply (rule s1(1))
    apply (rule s1(2))
    apply (rule body)
    apply (rule rdy')
    using s1 ne
    apply (simp_all add: mapped_camera_def staged_def uniform_def floats_of_def params_record_def as_f32_def)
    done
qed

lemma ready_demo: "ready demo_state"
  by (simp add: ready_def installed_def params_buffer_def demo_state_def demo_dev_def
      demo_entries_def as_f32_def uniform_binding_def clear_pass_def)

lemma lib_ok_demo: "lib_ok demo_lib"
  by (simp add: lib_ok_def demo_lib_def)

lemma loop_body_Inr_image:
  assumes "loop_body L t s = Inr s'" "\<not> hidden t"
  shows "colormapName s = picked t \<or> decoded t \<noteq> None"
proof (rule ccontr)
  assume "\<not> ?thesis"
  then have "colormapName s \<noteq> picked t" "decoded t = None" by blast+
  then have "before_update L t s = Inl AssetError"
    by (simp add: before_update_def swap_colormap_def uploadImage_def deliver_eq Let_def)
  with assms show False
    by (simp add: loop_body_visible)
qed

text \<open>
  C7.  In every frame that is rendered, the write of the view-parameter record into the
  staging buffer is complete, mapping and unmapping included, before the copy into the
  uniform buffer is issued: the commands are recorded and submitted in the state \<open>s3\<close>
  the staging block returns, in which the staging buffer is unmapped and holds the
  matrix, the eye position and its untouched last float; the first command recorded is
  the copy out of that buffer, and the device accepts the submission.
\<close>

theorem staging_complete_before_copy:
  fixes t :: tick and s :: "'cam radar"
  assumes "ready s" and "lib_ok L" and "\<not> hidden t"
    and "colormapName s = picked t \<or> decoded t \<noteq> None"
  shows "\<exists>s1 s3. before_update L t s = Inr s1 \<and>
     stage_view_params L t
       (s1\<lparr>projView := mat4_mul L (proj s1) (cam_matrix L (camera s1))\<rparr>) = Inr s3 \<and>
     buffers (dev s3) (upload s3) =
       Some \<lparr>buf_size = 80, mapping = Unmapped,
             contents = F32 (projView s3 @ cam_eyePos L (camera s3) @ [staged s ! 19])\<rparr> \<and>
     loop_body L t s = Inr (encode_frame (upload s3) t s3) \<and>
     hd (frame_commands (upload s3) t s3) =
       CopyBufferToBuffer (upload s3) 0 (viewParamsBuffer s3) 0 80 \<and>
     rejected (dev (encode_frame (upload s3) t s3)) = rejected (dev s3) \<and>
     uniform (encode_frame (upload s3) t s3) =
       projView s3 @ cam_eyePos L (camera s3) @ [staged s ! 19]"
proof -
  from iteration_effect [OF assms]
  obtain s1 s' where s1: "before_update L t s = Inr s1" "ready s1"
    and s': "loop_body L t s = Inr s'"
    and eff: "projView s' = mat4_mul L (proj s) (cam_matrix L (update_camera L t s))"
      "camera s' = mapped_camera L t s"
      "uniform s' = mat4_mul L (proj s) (cam_matrix L (update_camera L t s)) @
         cam_eyePos L (mapped_camera L t s) @ [staged s ! 19]"
      "rejected (dev s') = rejected (dev s)"
    and s1eq: "camera s1 = update_camera L t s"
    by blast
  have st1': "staged s1 = staged s \<and> rejected (dev s1) = rejected (dev s) \<and> proj s1 = proj s"
  proof (cases "colormapName s = picked t")
    case True
    with s1(1) show ?thesis
      by (auto simp add: before_update_same)
  next
    case False
    note R = readyD [OF assms(1)]
    from False assms(4) obtain w h where wh: "decoded t = Some (w, h)" by auto
    from s1(1) show ?thesis
      unfolding before_update_swap [OF False wh R(6)]
      by (auto simp add: staged_def floats_of_def)
  qed
  then have st1: "staged s1 = staged s" "rejected (dev s1) = rejected (dev s)" "proj s1 = proj s"
    by simp_all
  let ?s3 = "s1\<lparr>dev := (dev s1)\<lparr>buffers := (buffers (dev s1))(upload s1 \<mapsto>
        params_record (mat4_mul L (proj s1) (cam_matrix L (camera s1)) @
          cam_eyePos L (cam_after L (during_map t) (camera s1)) @ [staged s1 ! 19]))\<rparr>,
      camera := cam_after L (during_map t) (camera s1),
      projView := mat4_mul L (proj s1) (cam_matrix L (camera s1))\<rparr>"
  have stage: "stage_view_params L t
      (s1\<lparr>projView := mat4_mul L (proj s1) (cam_matrix L (camera s1))\<rparr>) = Inr ?s3"
    by (rule stage_ready [OF s1(2) assms(2)])
  have body: "loop_body L t s = Inr (encode_frame (upload ?s3) t ?s3)"
    using s1(1) stage assms(3) by (simp add: loop_body_visible)
  with s' have s'eq: "s' = encode_frame (upload ?s3) t ?s3" by simp
  show ?thesis
    apply (rule exI [of _ s1])
    apply (rule exI [of _ ?s3])
    apply (intro conjI)
          apply (rule s1(1))
         apply (rule stage)
        apply (simp add: params_record_def st1)
       apply (rule body)
      apply (simp add: frame_commands_def)
    using eff(4) st1(2) s'eq apply simp
    using eff(3) s'eq s1eq st1 apply (simp add: mapped_camera_def)
    done
qed

theorem staging_complete_before_copy_witness:
  "ready demo_state \<and> lib_ok demo_lib \<and> \<not> hidden torn_tick \<and>
   colormapName demo_state = picked torn_tick \<and>
   (\<exists>s1 s3. before_update demo_lib torn_tick demo_state = Inr s1 \<and>
     stage_view_params demo_lib torn_tick
       (s1\<lparr>projView := mat4_mul demo_lib (proj s1) (cam_matrix demo_lib (camera s1))\<rparr>) = Inr s3 \<and>
     buffers (dev s3) (upload s3) =
       Some \<lparr>buf_size = 80, mapping = Unmapped,
             contents = F32 (projView s3 @ cam_eyePos demo_lib (camera s3) @ [staged demo_state ! 19])\<rparr> \<and>
     loop_body demo_lib torn_tick demo_state = Inr (encode_frame (upload s3) torn_tick s3) \<and>
     hd (frame_commands (upload s3) torn_tick s3) =
       CopyBufferToBuffer (upload s3) 0 (viewParamsBuffer s3) 0 80 \<and>
     rejected (dev (encode_frame (upload s3) torn_tick s3)) = rejected (dev s3) \<and>
     uniform (encode_frame (upload s3) torn_tick s3) =
       projView s3 @ cam_eyePos demo_lib (camera s3) @ [staged demo_state ! 19])"
proof -
  have h: "\<not> hidden torn_tick" "colormapName demo_state = picked torn_tick"
    by (simp_all add: torn_tick_def demo_state_def)
  from h(2) have h': "colormapName demo_state = picked torn_tick \<or> decoded torn_tick \<noteq> None"
    by simp
  show ?thesis
    using staging_complete_before_copy [OF ready_demo lib_ok_demo h(1) h'] ready_demo lib_ok_demo h
    by blast
qed

lemma typed_set_fresh:
  "length M = 16 \<Longrightarrow> length E = 3 \<Longrightarrow>
   and_then (typed_set (replicate 20 0) M 0) (\<lambda>m1. and_then (typed_set m1 E 16) f) =
   f (M @ E @ [0])"
  using typed_set_matrix [of "replicate 20 0" M] typed_set_eye [of "replicate 20 0" M E]
  by simp

lemma installed_rendered:
  assumes "installed s" "length r = 20"
  shows "installed (s\<lparr>dev := (dev s)\<lparr>fresh := Suc (fresh (dev s)), buffers := (buffers (dev s))
                    (fresh (dev s) \<mapsto> params_record r, viewParamsBuffer s \<mapsto> params_record r),
                  submitted := X, presented := Y\<rparr>,
            camera := c, projView := M,
            renderPassDesc := (renderPassDesc s)\<lparr>view := v\<rparr>\<rparr>)"
proof -
  note I = installedD [OF assms(1)]
  obtain es where "bindGroups (dev s) (bindGroup s) = Some es"
      "uniform_binding es = Some (viewParamsBuffer s)"
    using I(5) by blast
  then show ?thesis
    using I(2-4) I(6-) assms(2)
    by (simp add: installed_def params_buffer_def params_record_def as_f32_def)
qed

lemma frame_effect:
  fixes t :: tick and s :: "'cam app"
  assumes ins: "installed s" and lib: "lib_ok L" and vis: "\<not> hidden t"
  defines "c \<equiv> cam_after L (during_tick t) (camera s)"
  defines "M \<equiv> mat4_mul L (proj s) (cam_matrix L c)"
  defines "r \<equiv> M @ cam_eyePos L c @ [0]"
  shows "\<exists>es. bindGroups (dev s) (bindGroup s) = Some es \<and>
    frame L t s =
     Inr (s\<lparr>dev := (dev s)\<lparr>fresh := Suc (fresh (dev s)),
                  buffers := (buffers (dev s))
                    (fresh (dev s) \<mapsto> params_record r, viewParamsBuffer s \<mapsto> params_record r),
                  submitted := submitted (dev s) @ [frame_commands (fresh (dev s)) t s],
                  presented := presented (dev s) @
                    [\<lparr>seen_target = surface t, seen_clear = [0.3, 0.3, 0.3, 1],
                      seen_params = r, seen_entries = es,
                      seen_draw = Draw (length (cube_vertices s) div 3) 1 0 0\<rparr>]\<rparr>,
            camera := c, projView := M,
            renderPassDesc := (renderPassDesc s)\<lparr>view := Some (surface t)\<rparr>\<rparr>)"
proof -
  note I = installedD [OF ins]
  obtain es where es: "bindGroups (dev s) (bindGroup s) = Some es"
      "uniform_binding es = Some (viewParamsBuffer s)"
    using I(5) by blast
  have lenM: "length M = 16" and lenE: "length (cam_eyePos L c) = 3"
    using lib by (simp_all add: M_def lib_ok_def)
  have lenr: "length r = 20" using lenM lenE by (simp add: r_def)
  let ?u = "fresh (dev s)"
  let ?g = "(dev s)\<lparr>fresh := Suc ?u, buffers := (buffers (dev s))(?u \<mapsto> params_record r)\<rparr>"
  let ?s1 = "s\<lparr>camera := c, projView := M, dev := ?g\<rparr>"
  have ne: "?u \<noteq> viewParamsBuffer s" using I(2) by simp
  have pbv: "params_buffer ?g (viewParamsBuffer ?s1)"
    using I(1) ne by (simp add: params_buffer_def)
  have ex: "\<exists>bv. buffers ?g (viewParamsBuffer ?s1) = Some bv \<and>
     exec_cmds (frame_commands ?u t ?s1) ?g =
       Some (?g\<lparr>buffers := (buffers ?g)(viewParamsBuffer ?s1 \<mapsto> bv\<lparr>contents := F32 r\<rparr>),
               presented := presented ?g @
                 [\<lparr>seen_target = surface t, seen_clear = clearValue (renderPassDesc ?s1),
                   seen_params = r, seen_entries = es,
                   seen_draw = Draw (length (cube_vertices ?s1) div 3) 1 0 0\<rparr>]\<rparr>)"
    apply (rule exec_frame_commands [where bu = "params_record r"])
    using pbv ne es lenr by (simp_all add: params_record_def as_f32_def)
  from I(1) obtain bv vv where bv: "buffers (dev s) (viewParamsBuffer s) = Some bv"
      "buf_size bv = 80" "mapping bv = Unmapped"
    by (rule params_bufferE)
  have fc: "frame_commands ?u t ?s1 = frame_commands ?u t s"
    by (simp add: frame_commands_def)
  have "frame L t s =
     Inr (s\<lparr>dev := (dev s)\<lparr>fresh := Suc (fresh (dev s)),
                  buffers := (buffers (dev s))
                    (fresh (dev s) \<mapsto> params_record r, viewParamsBuffer s \<mapsto> params_record r),
                  submitted := submitted (dev s) @ [frame_commands (fresh (dev s)) t s],
                  presented := presented (dev s) @
                    [\<lparr>seen_target = surface t, seen_clear = [0.3, 0.3, 0.3, 1],
                      seen_params = r, seen_entries = es,
                      seen_draw = Draw (length (cube_vertices s) div 3) 1 0 0\<rparr>]\<rparr>,
            camera := c, projView := M,
            renderPassDesc := (renderPassDesc s)\<lparr>view := Some (surface t)\<rparr>\<rparr>)"
    using vis ex bv ne I(7) lenM lenE
    apply (simp add: frame_def deliver_eq createBuffer_def getMappedRange_def Float32Array_def
        as_f32_def Let_def c_def [symmetric] M_def [symmetric] typed_set_fresh unmap_def)
    apply (simp add: r_def [symmetric] params_record_def [symmetric] encode_frame_def
        submit_def fc buffer_eq)
    done
  with es(1) show ?thesis by blast
qed


lemma frame_hidden: "hidden t \<Longrightarrow> frame L t s = Inr (deliver L (during_tick t) s)"
  by (simp add: frame_def Let_def)

lemma loop_body_hidden: "hidden t \<Longrightarrow> loop_body L t s = Inr (deliver L (during_tick t) s)"
  by (simp add: loop_body_def Let_def)

lemma installed_camera [simp]: "installed (s\<lparr>camera := c\<rparr>) = installed s"
  by (simp add: installed_def)

lemma uniform_camera [simp]: "uniform (s\<lparr>camera := c\<rparr>) = uniform s"
  by (simp add: uniform_def)

text \<open>Start-up establishes the loop's invariant.\<close>

lemma upload_cube_ok:
  "upload_cube vs ixs g =
     Inr (fresh g, Suc (fresh g),
       g\<lparr>fresh := Suc (Suc (fresh g)),
         buffers := (buffers g)
           (fresh g \<mapsto> \<lparr>buf_size = length vs * 4, mapping = Unmapped, contents = F32 vs\<rparr>,
            Suc (fresh g) \<mapsto> \<lparr>buf_size = length ixs * 4, mapping = Unmapped,
               contents = U16 (map (\<lambda>i. i mod 65536) ixs @ replicate (length ixs) 0)\<rparr>)\<rparr>)"
proof -
  have d: "length ixs * 4 div 2 = length ixs + length ixs" by simp
  show ?thesis
    by (simp add: upload_cube_def createBuffer_def getMappedRange_def Float32Array_def
        Uint16Array_def as_f32_def as_u16_def typed_set_def unmap_def d
        replicate_add [symmetric] del: replicate_add)
qed


lemma create_buffers_ok:
  "create_buffers H g =
     Inr (fresh g, Suc (fresh g), Suc (Suc (fresh g)), Suc (Suc (Suc (fresh g))),
       g\<lparr>fresh := Suc (Suc (Suc (Suc (fresh g)))),
         buffers := (buffers g)
           (fresh g \<mapsto> \<lparr>buf_size = length (mesh_vertices H) * 4, mapping = Unmapped,
                          contents = F32 (mesh_vertices H)\<rparr>,
            Suc (fresh g) \<mapsto> \<lparr>buf_size = length (mesh_indices H) * 4, mapping = Unmapped,
                          contents = U16 (map (\<lambda>i. i mod 65536) (mesh_indices H) @
                                          replicate (length (mesh_indices H)) 0)\<rparr>,
            Suc (Suc (fresh g)) \<mapsto> \<lparr>buf_size = 80, mapping = Unmapped, contents = Zeros\<rparr>)\<rparr>)"
  by (simp add: create_buffers_def upload_cube_ok createBuffer_def alloc_def)

lemma radar_setup_ready:
  assumes "buffers g vpb = Some \<lparr>buf_size = 80, mapping = Unmapped, contents = Zeros\<rparr>"
    and "vpb < fresh g"
    and "radar_setup L H (vb, ib, vpb, smp, g) = Inr s0"
  shows "ready s0 \<and> staged s0 = replicate 20 0 \<and> uniform s0 = replicate 20 0 \<and>
     presented (dev s0) = presented g \<and> submitted (dev s0) = submitted g \<and>
     rejected (dev s0) = rejected g"
proof (cases "first_colormap H")
  case None
  with assms(3) show ?thesis
    by (simp add: radar_setup_def uploadImage_def)
next
  case (Some wh)
  obtain w h where wh: "wh = (w, h)" by (cases wh)
  from assms(3) have s0: "s0 = \<lparr>dev = g\<lparr>fresh := Suc (Suc (Suc (Suc (Suc (Suc (Suc (Suc (fresh g)))))))),
        textures := (textures g)(fresh g \<mapsto> \<lparr>tex_dimension = Dim2d, tex_size = [w, h, 1]\<rparr>, Suc (fresh g) \<mapsto> \<lparr>tex_dimension = Dim3d, tex_size = radar_size H\<rparr>),
        bindGroups := (bindGroups g)(Suc (Suc (Suc (Suc (Suc (Suc (fresh g)))))) \<mapsto>
          [\<lparr>binding = 0, resource = BufferBinding vpb\<rparr>,
           \<lparr>binding = 1, resource = TextureView (Suc (fresh g))\<rparr>,
           \<lparr>binding = 2, resource = TextureView (fresh g)\<rparr>,
           \<lparr>binding = 3, resource = SamplerBinding smp\<rparr>,
           \<lparr>binding = 4, resource = BufferBinding (Suc (Suc (fresh g)))\<rparr>]),
        buffers := (buffers g)(Suc (Suc (Suc (Suc (Suc (Suc (Suc (fresh g))))))) \<mapsto>
          \<lparr>buf_size = 80, mapping = Unmapped, contents = Zeros\<rparr>)\<rparr>,
      camera = cam_new L [0, 0, 2] [0, 0, 0] [0, 1, 0] 2 (canvas_size H),
      proj = mat4_perspective L (30 * pi / 180)
               (fst (canvas_size H) / snd (canvas_size H)) 0.001 10,
      projView = mat4_create,
      cube_vertices = mesh_vertices H, cube_indices = mesh_indices H,
      vertexBuffer = vb, indexBuffer = ib, viewParamsBuffer = vpb,
      sampler = smp, colormapTexture = fresh g, volumeTexture = Suc (fresh g),
      renderPipeline = Suc (Suc (Suc (Suc (Suc (fresh g))))), renderPassDesc = clear_pass,
      bindGroup = Suc (Suc (Suc (Suc (Suc (Suc (fresh g)))))),
      colormapName = ''dBZ Radarscope'', volumeDataBuffer = Suc (Suc (fresh g)),
      bindGroupEntries =
          [\<lparr>binding = 0, resource = BufferBinding vpb\<rparr>,
           \<lparr>binding = 1, resource = TextureView (Suc (fresh g))\<rparr>,
           \<lparr>binding = 2, resource = TextureView (fresh g)\<rparr>,
           \<lparr>binding = 3, resource = SamplerBinding smp\<rparr>,
           \<lparr>binding = 4, resource = BufferBinding (Suc (Suc (fresh g)))\<rparr>],
      upload = Suc (Suc (Suc (Suc (Suc (Suc (Suc (fresh g)))))))\<rparr>"
    using Some wh
    by (auto simp add: radar_setup_def uploadImage_def createTexture_def uploadRadarVolume_def
        uploadData_def alloc_def createBindGroup_def createBuffer_def Let_def)
  show ?thesis
    unfolding s0 using assms(1,2)
    by (simp add: ready_def installed_def params_buffer_def as_f32_def uniform_binding_def
        clear_pass_def staged_def uniform_def floats_of_def)
qed

lemma loop_body_step:
  fixes t :: tick and s :: "'cam radar"
  assumes rdy: "ready s" and lib: "lib_ok L" and run: "loop_body L t s = Inr s'"
  shows "ready s' \<and> staged s' ! 19 = staged s ! 19 \<and> length (staged s') = length (staged s) \<and>
    volumeTexture s' = volumeTexture s \<and> upload s' = upload s \<and>
    (\<exists>obs. presented (dev s') = presented (dev s) @ obs \<and>
       list_all (\<lambda>ob. length (seen_params ob) = 20 \<and> seen_params ob ! 19 = staged s ! 19) obs)"
proof (cases "hidden t")
  case True
  with run rdy show ?thesis
    by (auto simp add: loop_body_hidden deliver_eq)
next
  case False
  from loop_body_Inr_image [OF run False]
  have img: "colormapName s = picked t \<or> decoded t \<noteq> None" .
  have len: "length (mat4_mul L (proj s) (cam_matrix L (update_camera L t s))) = 16"
      "length (cam_eyePos L (mapped_camera L t s)) = 3"
    using lib by (simp_all add: lib_ok_def)
  from readyD(2) [OF rdy] have l20: "length (staged s) = 20"
    by (auto elim!: params_bufferE simp add: staged_def floats_of_def)
  from iteration_effect [OF rdy lib False img] run len l20
  show ?thesis
    by (auto simp add: nth_append)
qed

lemma run_loop_steps:
  fixes s :: "'cam radar"
  assumes "ready s" and "lib_ok L" and "run_loop L ts s = Inr s'"
  shows "ready s' \<and> staged s' ! 19 = staged s ! 19 \<and> length (staged s') = length (staged s) \<and>
    volumeTexture s' = volumeTexture s \<and> upload s' = upload s \<and>
    (\<exists>obs. presented (dev s') = presented (dev s) @ obs \<and>
       list_all (\<lambda>ob. length (seen_params ob) = 20 \<and> seen_params ob ! 19 = staged s ! 19) obs)"
  using assms
proof (induction ts arbitrary: s)
  case Nil
  then show ?case by simp
next
  case (Cons t ts)
  from Cons.prems(3) obtain s1 where s1: "loop_body L t s = Inr s1" "run_loop L ts s1 = Inr s'"
    by (auto simp add: and_then_eq_Inr)
  from loop_body_step [OF Cons.prems(1,2) s1(1)]
  obtain obs1 where a: "ready s1" "staged s1 ! 19 = staged s ! 19"
      "length (staged s1) = length (staged s)"
      "volumeTexture s1 = volumeTexture s" "upload s1 = upload s"
      "presented (dev s1) = presented (dev s) @ obs1"
      "list_all (\<lambda>ob. length (seen_params ob) = 20 \<and> seen_params ob ! 19 = staged s ! 19) obs1"
    by blast
  from Cons.IH [OF a(1) Cons.prems(2) s1(2)]
  obtain obs2 where b: "ready s'" "staged s' ! 19 = staged s1 ! 19"
      "length (staged s') = length (staged s1)"
      "volumeTexture s' = volumeTexture s1" "upload s' = upload s1"
      "presented (dev s') = presented (dev s1) @ obs2"
      "list_all (\<lambda>ob. length (seen_params ob) = 20 \<and> seen_params ob ! 19 = staged s1 ! 19) obs2"
    by blast
  have "presented (dev s') = presented (dev s) @ (obs1 @ obs2)"
    using a(6) b(6) by simp
  moreover have "list_all (\<lambda>ob. length (seen_params ob) = 20 \<and> seen_params ob ! 19 = staged s ! 19)
      (obs1 @ obs2)"
    using a(7) b(7) a(2) by simp
  ultimately show ?case
    using a b by (intro conjI exI [of _ "obs1 @ obs2"]) simp_all
qed

lemma radar_main_running:
  assumes "radar_main L H p ts = (p', Running s')"
  shows "\<exists>s0. ready s0 \<and> staged s0 = replicate 20 0 \<and> uniform s0 = replicate 20 0 \<and>
     presented (dev s0) = [] \<and> submitted (dev s0) = [] \<and> run_loop L ts s0 = Inr s'"
proof -
  let ?g = "new_device\<lparr>fresh := Suc 0\<rparr>"
  let ?st = "(fresh ?g, Suc (fresh ?g), Suc (Suc (fresh ?g)), Suc (Suc (Suc (fresh ?g))),
       ?g\<lparr>fresh := Suc (Suc (Suc (Suc (fresh ?g)))),
         buffers := (buffers ?g)
           (fresh ?g \<mapsto> \<lparr>buf_size = length (mesh_vertices H) * 4, mapping = Unmapped,
                          contents = F32 (mesh_vertices H)\<rparr>,
            Suc (fresh ?g) \<mapsto> \<lparr>buf_size = length (mesh_indices H) * 4, mapping = Unmapped,
                          contents = U16 (map (\<lambda>i. i mod 65536) (mesh_indices H) @
                                          replicate (length (mesh_indices H)) 0)\<rparr>,
            Suc (Suc (fresh ?g)) \<mapsto> \<lparr>buf_size = 80, mapping = Unmapped, contents = Zeros\<rparr>)\<rparr>)"
  from assms have "and_then (radar_setup L H ?st) (run_loop L ts) = Inr s'"
    by (auto simp add: radar_main_def alloc_def create_buffers_ok Let_def new_device_def
        split: if_splits option.splits sum.splits)
  then obtain s0 where s0: "radar_setup L H ?st = Inr s0" "run_loop L ts s0 = Inr s'"
    by (auto simp add: and_then_eq_Inr)
  from radar_setup_ready [OF _ _ s0(1)] s0(2)
  show ?thesis
    by (auto simp add: new_device_def)
qed

lemma upload_volume_eq:
  "upload_volume (w, h, d) bytes g =
     (if 4 dvd length bytes
      then Inr (fresh g,
        submit [CopyBufferToTexture
                   \<lparr>src_buffer = Suc (fresh g), bytesPerRow = w, rowsPerImage = h\<rparr>
                   (fresh g) (w, h, d)]
          (g\<lparr>textures := (textures g)(fresh g \<mapsto> \<lparr>tex_dimension = Dim3d, tex_size = [w, h, d]\<rparr>),
             fresh := Suc (Suc (fresh g)),
             buffers := (buffers g)(Suc (fresh g) \<mapsto>
               \<lparr>buf_size = length bytes, mapping = Unmapped, contents = U8 bytes\<rparr>)\<rparr>))
      else Inl RangeError)"
  by (simp add: upload_volume_def createTexture_def createBuffer_def getMappedRange_def
      Uint8Array_def as_u8_def typed_set_def unmap_def)

lemma copy_volume_ok:
  "copy_to_texture_ok
     (g\<lparr>textures := (textures g)(fresh g \<mapsto> \<lparr>tex_dimension = Dim3d, tex_size = [w, h, d]\<rparr>),
        fresh := Suc (Suc (fresh g)),
        buffers := (buffers g)(Suc (fresh g) \<mapsto>
          \<lparr>buf_size = n, mapping = Unmapped, contents = c\<rparr>)\<rparr>)
     \<lparr>src_buffer = Suc (fresh g), bytesPerRow = w, rowsPerImage = h\<rparr> (fresh g) (w, h, d) =
   (buffer_ok \<lparr>buf_size = n, mapping = Unmapped, contents = c\<rparr> \<and>
    texture_ok \<lparr>tex_dimension = Dim3d, tex_size = [w, h, d]\<rparr> \<and>
    256 dvd w \<and> required_bytes w h (w, h, d) \<le> n)"
  by (simp add: copy_to_texture_ok_def extent3d_def)

lemma texture_ok_3d:
  "texture_ok \<lparr>tex_dimension = Dim3d, tex_size = [w, h, d]\<rparr> \<longleftrightarrow>
     0 < w \<and> w \<le> maxTextureDimension3D \<and> 0 < h \<and> h \<le> maxTextureDimension3D \<and>
     0 < d \<and> d \<le> maxTextureDimension3D"
  by (auto simp add: texture_ok_def extent3d_def)

lemma buffer_ok_size [simp]:
  "buffer_ok \<lparr>buf_size = n, mapping = m, contents = c\<rparr> \<longleftrightarrow> n \<le> maxBufferSize"
  by (simp add: buffer_ok_def)

lemma required_bytes_volume:
  "0 < w \<Longrightarrow> 0 < h \<Longrightarrow> 0 < d \<Longrightarrow> required_bytes w h (w, h, d) = w * h * d"
proof -
  assume pos: "0 < w" "0 < h" "0 < d"
  obtain h' where h': "h = Suc h'" using pos(2) by (cases h) auto
  obtain d' where d': "d = Suc d'" using pos(3) by (cases d) auto
  show ?thesis
    by (simp add: required_bytes_def h' d' algebra_simps)
qed

lemma submit_frame:
  "presented (submit [CopyBufferToTexture src tex ext] g) = presented g"
  "buffers (submit [CopyBufferToTexture src tex ext] g) = buffers g"
  "bindGroups (submit [CopyBufferToTexture src tex ext] g) = bindGroups g"
  "textures (submit [CopyBufferToTexture src tex ext] g) = textures g"
  "fresh (submit [CopyBufferToTexture src tex ext] g) = fresh g"
  by (simp_all add: submit_def)

lemma vr_setup_installed:
  assumes "vr_setup L H g = Inr s0"
  shows "installed s0 \<and> uniform s0 = replicate 20 0 \<and> presented (dev s0) = presented g"
proof -
  obtain w h d where dims: "volume_dims H = (w, h, d)" by (cases "volume_dims H")
  from assms obtain cw ch bytes where
    img: "first_colormap H = Some (cw, ch)" and vol: "volume_data H = Some bytes"
    and four: "4 dvd length bytes"
    by (auto simp add: vr_setup_def create_buffers_ok uploadImage_def and_then_eq_Inr dims
        upload_volume_eq split: option.splits if_splits)
  from assms show ?thesis
    by (auto simp add: vr_setup_def create_buffers_ok uploadImage_def dims img vol four
        upload_volume_eq createTexture_def alloc_def createBindGroup_def Let_def submit_frame
        installed_def params_buffer_def as_f32_def uniform_binding_def clear_pass_def
        uniform_def floats_of_def)
qed

lemma frame_step:
  fixes t :: tick and s :: "'cam app"
  assumes ins: "installed s" and lib: "lib_ok L" and run: "frame L t s = Inr s'"
  shows "installed s' \<and>
    (\<exists>obs. presented (dev s') = presented (dev s) @ obs \<and>
       list_all (\<lambda>ob. length (seen_params ob) = 20 \<and> seen_params ob ! 19 = 0) obs)"
proof (cases "hidden t")
  case True
  with run ins show ?thesis
    by (auto simp add: frame_hidden deliver_eq)
next
  case False
  have len: "length (mat4_mul L (proj s) (cam_matrix L (cam_after L (during_tick t) (camera s)))) = 16"
      "length (cam_eyePos L (cam_after L (during_tick t) (camera s))) = 3"
    using lib by (simp_all add: lib_ok_def)
  then have l20: "length (mat4_mul L (proj s) (cam_matrix L (cam_after L (during_tick t) (camera s))) @
      cam_eyePos L (cam_after L (during_tick t) (camera s)) @ [0]) = 20"
    by simp
  from frame_effect [OF ins lib False, of ] run installed_rendered [OF ins l20] len
  show ?thesis
    by (auto simp add: nth_append)
qed

lemma run_frames_steps:
  fixes s :: "'cam app"
  assumes "installed s" and "lib_ok L" and "run_frames L ts s = Inr s'"
  shows "installed s' \<and>
    (\<exists>obs. presented (dev s') = presented (dev s) @ obs \<and>
       list_all (\<lambda>ob. length (seen_params ob) = 20 \<and> seen_params ob ! 19 = 0) obs)"
  using assms
proof (induction ts arbitrary: s)
  case Nil
  then show ?case by simp
next
  case (Cons t ts)
  from Cons.prems(3) obtain s1 where s1: "frame L t s = Inr s1" "run_frames L ts s1 = Inr s'"
    by (auto simp add: and_then_eq_Inr)
  from frame_step [OF Cons.prems(1,2) s1(1)]
  obtain obs1 where a: "installed s1" "presented (dev s1) = presented (dev s) @ obs1"
      "list_all (\<lambda>ob. length (seen_params ob) = 20 \<and> seen_params ob ! 19 = 0) obs1"
    by blast
  from Cons.IH [OF a(1) Cons.prems(2) s1(2)]
  obtain obs2 where b: "installed s'" "presented (dev s') = presented (dev s1) @ obs2"
      "list_all (\<lambda>ob. length (seen_params ob) = 20 \<and> seen_params ob ! 19 = 0) obs2"
    by blast
  show ?case
    using a b by (intro conjI exI [of _ "obs1 @ obs2"]) simp_all
qed

lemma vr_main_running:
  assumes "vr_main L H p ts = (p', Running s')"
  shows "\<exists>s0. installed s0 \<and> uniform s0 = replicate 20 0 \<and> presented (dev s0) = [] \<and>
     run_frames L ts s0 = Inr s'"
proof -
  from assms have "and_then (vr_setup L H (new_device\<lparr>fresh := Suc 0\<rparr>)) (run_frames L ts) = Inr s'"
    by (auto simp add: vr_main_def alloc_def Let_def new_device_def
        split: if_splits sum.splits)
  then obtain s0 where s0: "vr_setup L H (new_device\<lparr>fresh := Suc 0\<rparr>) = Inr s0"
      "run_frames L ts s0 = Inr s'"
    by (auto simp add: and_then_eq_Inr)
  from vr_setup_installed [OF s0(1)] s0(2)
  show ?thesis
    by (auto simp add: new_device_def)
qed

lemma run_loop_progress:
  fixes s :: "'cam radar"
  assumes "ready s" and "lib_ok L" and "list_all (\<lambda>t. hidden t \<or> decoded t \<noteq> None) ts"
  shows "\<exists>s'. run_loop L ts s = Inr s'"
  using assms
proof (induction ts arbitrary: s)
  case Nil
  then show ?case by simp
next
  case (Cons t ts)
  have "\<exists>s1. loop_body L t s = Inr s1 \<and> ready s1"
  proof (cases "hidden t")
    case True
    with Cons.prems(1) show ?thesis
      by (simp add: loop_body_hidden deliver_eq)
  next
    case False
    with Cons.prems(3) have "colormapName s = picked t \<or> decoded t \<noteq> None" by simp
    from iteration_effect [OF Cons.prems(1,2) False this] show ?thesis by blast
  qed
  then obtain s1 where s1: "loop_body L t s = Inr s1" "ready s1" by blast
  from Cons.prems(3) have "list_all (\<lambda>t. hidden t \<or> decoded t \<noteq> None) ts" by simp
  from Cons.IH [OF s1(2) Cons.prems(2) this] s1(1) show ?case by simp
qed

lemma run_frames_progress:
  fixes s :: "'cam app"
  assumes "installed s" and "lib_ok L"
  shows "\<exists>s'. run_frames L ts s = Inr s'"
  using assms
proof (induction ts arbitrary: s)
  case Nil
  then show ?case by simp
next
  case (Cons t ts)
  have "\<exists>s1. frame L t s = Inr s1"
  proof (cases "hidden t")
    case True
    then show ?thesis by (simp add: frame_hidden)
  next
    case False
    from frame_effect [OF Cons.prems(1,2) False] show ?thesis by blast
  qed
  then obtain s1 where s1: "frame L t s = Inr s1" by blast
  from frame_step [OF Cons.prems(1,2) s1] have "installed s1" by simp
  from Cons.IH [OF this Cons.prems(2)] s1 show ?case by simp
qed

lemma radar_main_progress:
  assumes "gpu_defined H" "adapter_found H" "\<not> hadError (shader_messages H)"
    "linked H = None" "first_colormap H = Some wh" "lib_ok L"
    "list_all (\<lambda>t. hidden t \<or> decoded t \<noteq> None) ts"
  shows "\<exists>s'. radar_main L H p ts = (p, Running s')"
proof -
  let ?g = "new_device\<lparr>fresh := Suc 0\<rparr>"
  let ?st = "(fresh ?g, Suc (fresh ?g), Suc (Suc (fresh ?g)), Suc (Suc (Suc (fresh ?g))),
       ?g\<lparr>fresh := Suc (Suc (Suc (Suc (fresh ?g)))),
         buffers := (buffers ?g)
           (fresh ?g \<mapsto> \<lparr>buf_size = length (mesh_vertices H) * 4, mapping = Unmapped,
                          contents = F32 (mesh_vertices H)\<rparr>,
            Suc (fresh ?g) \<mapsto> \<lparr>buf_size = length (mesh_indices H) * 4, mapping = Unmapped,
                          contents = U16 (map (\<lambda>i. i mod 65536) (mesh_indices H) @
                                          replicate (length (mesh_indices H)) 0)\<rparr>,
            Suc (Suc (fresh ?g)) \<mapsto> \<lparr>buf_size = 80, mapping = Unmapped, contents = Zeros\<rparr>)\<rparr>)"
  obtain w h where wh: "wh = (w, h)" by (cases wh)
  have "\<exists>s0. radar_setup L H ?st = Inr s0"
    using assms(5) wh
    by (simp add: radar_setup_def uploadImage_def createTexture_def uploadRadarVolume_def
        uploadData_def alloc_def createBindGroup_def createBuffer_def Let_def)
  then obtain s0 where s0: "radar_setup L H ?st = Inr s0" by blast
  from radar_setup_ready [OF _ _ s0] have "ready s0" by (simp add: new_device_def)
  from run_loop_progress [OF this assms(6,7)] obtain s' where "run_loop L ts s0 = Inr s'"
    by blast
  with s0 assms(1-4) show ?thesis
    by (simp add: radar_main_def alloc_def create_buffers_ok Let_def new_device_def)
qed

lemma vr_main_progress:
  assumes "gpu_defined H" "adapter_found H" "\<not> hadError (shader_messages H)"
    "first_colormap H = Some wh" "volume_data H = Some bytes" "4 dvd length bytes" "lib_ok L"
  shows "\<exists>s'. vr_main L H p ts = (p, Running s')"
proof -
  obtain w h where wh: "wh = (w, h)" by (cases wh)
  obtain vw vh vd where dims: "volume_dims H = (vw, vh, vd)" by (cases "volume_dims H")
  have "\<exists>s0. vr_setup L H (new_device\<lparr>fresh := Suc 0\<rparr>) = Inr s0"
    using assms(4,5,6) wh dims
    by (simp add: vr_setup_def create_buffers_ok uploadImage_def upload_volume_eq
        createTexture_def alloc_def createBindGroup_def Let_def)
  then obtain s0 where s0: "vr_setup L H (new_device\<lparr>fresh := Suc 0\<rparr>) = Inr s0" by blast
  from vr_setup_installed [OF s0] have "installed s0" by simp
  from run_frames_progress [OF this assms(7)] obtain s' where "run_frames L ts s0 = Inr s'"
    by blast
  with s0 assms(1-3) show ?thesis
    by (simp add: vr_main_def alloc_def Let_def new_device_def)
qed

lemma demo_host_facts:
  "gpu_defined demo_host" "adapter_found demo_host" "\<not> hadError (shader_messages demo_host)"
  "linked demo_host = None" "first_colormap demo_host = Some (180, 1)"
  "volume_data demo_host = Some (replicate 16777216 0)"
  by (simp_all add: demo_host_def hadError_def)

lemma demo_ticks_decode:
  "list_all (\<lambda>t. hidden t \<or> decoded t \<noteq> None) [demo_tick, hidden_tick, swap_tick, torn_tick]"
  by (simp add: demo_tick_def hidden_tick_def swap_tick_def torn_tick_def)

text \<open>
  C10.  A staging write fills 19 of the 20 floats: the 16 floats of the matrix at offsets
  0 to 15 and the 3 floats of the eye position at offsets 16 to 18.  The float at offset
  19 is left as it was, and since the buffer starts zeroed it is 0 in every record the
  GPU reads, in the radar renderer (one staging buffer, reused) as in
  \<^verbatim>\<open>volume-raycaster.js\<close> (a fresh staging buffer for every frame).
\<close>

theorem last_float_never_written:
  fixes s s' r' :: "'cam radar" and v v' w' :: "'cam app"
  assumes "lib_ok L"
  shows "(ready s \<and> \<not> hidden t \<and> loop_body L t s = Inr s' \<longrightarrow>
            length (projView s') = 16 \<and> length (cam_eyePos L (camera s')) = 3 \<and>
            staged s' = projView s' @ cam_eyePos L (camera s') @ [staged s ! 19]) \<and>
         (radar_main L H p ts = (p', Running r') \<longrightarrow>
            staged r' ! 19 = 0 \<and> list_all (\<lambda>ob. padded (seen_params ob)) (presented (dev r'))) \<and>
         (installed v \<and> \<not> hidden t \<and> frame L t v = Inr v' \<longrightarrow>
            length (projView v') = 16 \<and> length (cam_eyePos L (camera v')) = 3 \<and>
            uniform v' = projView v' @ cam_eyePos L (camera v') @ [0]) \<and>
         (vr_main L H q fs = (q', Running w') \<longrightarrow>
            list_all (\<lambda>ob. padded (seen_params ob)) (presented (dev w')))"
proof (intro conjI impI)
  assume a: "ready s \<and> \<not> hidden t \<and> loop_body L t s = Inr s'"
  then have img: "colormapName s = picked t \<or> decoded t \<noteq> None"
    using loop_body_Inr_image by blast
  from iteration_effect [OF _ assms _ img, of ] a
  have "camera s' = mapped_camera L t s"
    "projView s' = mat4_mul L (proj s) (cam_matrix L (update_camera L t s))"
    "staged s' = mat4_mul L (proj s) (cam_matrix L (update_camera L t s)) @
       cam_eyePos L (mapped_camera L t s) @ [staged s ! 19]"
    by auto
  then show "length (projView s') = 16" "length (cam_eyePos L (camera s')) = 3"
    "staged s' = projView s' @ cam_eyePos L (camera s') @ [staged s ! 19]"
    using assms by (simp_all add: lib_ok_def)
next
  assume "radar_main L H p ts = (p', Running r')"
  from radar_main_running [OF this] obtain s0 where s0: "ready s0" "staged s0 = replicate 20 0"
      "presented (dev s0) = []" "run_loop L ts s0 = Inr r'"
    by blast
  from run_loop_steps [OF s0(1) assms s0(4)] s0(2,3)
  show "staged r' ! 19 = 0" "list_all (\<lambda>ob. padded (seen_params ob)) (presented (dev r'))"
    by (auto simp add: padded_def)
next
  assume a: "installed v \<and> \<not> hidden t \<and> frame L t v = Inr v'"
  from frame_effect [OF _ assms, of v t] a
  have "camera v' = cam_after L (during_tick t) (camera v)"
    "projView v' = mat4_mul L (proj v) (cam_matrix L (cam_after L (during_tick t) (camera v)))"
    "uniform v' = mat4_mul L (proj v) (cam_matrix L (cam_after L (during_tick t) (camera v))) @
       cam_eyePos L (cam_after L (during_tick t) (camera v)) @ [0]"
    using installedD(2) [of v]
    by (auto simp add: uniform_def floats_of_def params_record_def as_f32_def)
  then show "length (projView v') = 16" "length (cam_eyePos L (camera v')) = 3"
    "uniform v' = projView v' @ cam_eyePos L (camera v') @ [0]"
    using assms by (simp_all add: lib_ok_def)
next
  assume "vr_main L H q fs = (q', Running w')"
  from vr_main_running [OF this] obtain s0 where s0: "installed s0"
      "presented (dev s0) = []" "run_frames L fs s0 = Inr w'"
    by blast
  from run_frames_steps [OF s0(1) assms s0(3)] s0(2)
  show "list_all (\<lambda>ob. padded (seen_params ob)) (presented (dev w'))"
    by (auto simp add: padded_def)
qed

lemma installed_demo_app: "installed demo_app"
  using readyD(1) [OF ready_demo]
  by (simp add: demo_app_def installed_def app.truncate_def)

theorem last_float_never_written_witness:
  "lib_ok demo_lib \<and> ready demo_state \<and> \<not> hidden demo_tick \<and> installed demo_app \<and>
   (\<exists>s'. loop_body demo_lib demo_tick demo_state = Inr s' \<and>
      length (projView s') = 16 \<and> length (cam_eyePos demo_lib (camera s')) = 3 \<and>
      staged s' = projView s' @ cam_eyePos demo_lib (camera s') @ [staged demo_state ! 19]) \<and>
   (\<exists>r'. radar_main demo_lib demo_host demo_page [demo_tick, hidden_tick, swap_tick, torn_tick] =
            (demo_page, Running r') \<and>
      staged r' ! 19 = 0 \<and> list_all (\<lambda>ob. padded (seen_params ob)) (presented (dev r'))) \<and>
   (\<exists>v'. frame demo_lib demo_tick demo_app = Inr v' \<and>
      length (projView v') = 16 \<and> length (cam_eyePos demo_lib (camera v')) = 3 \<and>
      uniform v' = projView v' @ cam_eyePos demo_lib (camera v') @ [0]) \<and>
   (\<exists>w'. vr_main demo_lib demo_host demo_page [demo_tick, hidden_tick] = (demo_page, Running w') \<and>
      list_all (\<lambda>ob. padded (seen_params ob)) (presented (dev w')))"
proof -
  have vis: "\<not> hidden demo_tick" by (simp add: demo_tick_def)
  have "list_all (\<lambda>t. hidden t \<or> decoded t \<noteq> None) [demo_tick]"
    by (simp add: demo_tick_def)
  from run_loop_progress [OF ready_demo lib_ok_demo this]
  obtain s' where s': "loop_body demo_lib demo_tick demo_state = Inr s'"
    by (auto simp add: and_then_eq_Inr)
  from radar_main_progress [OF demo_host_facts(1-5) lib_ok_demo demo_ticks_decode]
  obtain r' where r': "radar_main demo_lib demo_host demo_page
      [demo_tick, hidden_tick, swap_tick, torn_tick] = (demo_page, Running r')"
    by blast
  from run_frames_progress [OF installed_demo_app lib_ok_demo, of "[demo_tick]"]
  obtain v' where v': "frame demo_lib demo_tick demo_app = Inr v'"
    by (auto simp add: and_then_eq_Inr)
  have "4 dvd length (replicate 16777216 (0::nat))" by simp
  from vr_main_progress [OF demo_host_facts(1-3) demo_host_facts(5,6) this lib_ok_demo]
  obtain w' where w': "vr_main demo_lib demo_host demo_page [demo_tick, hidden_tick] =
      (demo_page, Running w')"
    by blast
  from last_float_never_written [OF lib_ok_demo, of demo_state demo_tick s' demo_host demo_page
      "[demo_tick, hidden_tick, swap_tick, torn_tick]" demo_page r' demo_app v' demo_page
      "[demo_tick, hidden_tick]" demo_page w']
  show ?thesis
    using lib_ok_demo ready_demo vis installed_demo_app s' r' v' w' by blast
qed

lemma exec_cmd_preserves:
  assumes "exec_cmd c g = Some g'"
  shows "bindGroups g' = bindGroups g \<and> textures g' = textures g \<and> fresh g' = fresh g \<and>
    submitted g' = submitted g \<and> rejected g' = rejected g"
  using assms
  by (cases c) (auto split: option.splits if_splits)

lemma exec_cmds_preserves:
  assumes "exec_cmds cs g = Some g'"
  shows "bindGroups g' = bindGroups g \<and> textures g' = textures g \<and> fresh g' = fresh g \<and>
    submitted g' = submitted g \<and> rejected g' = rejected g"
  using assms
proof (induction cs arbitrary: g)
  case Nil
  then show ?case by simp
next
  case (Cons c cs)
  then obtain g1 where g1: "exec_cmd c g = Some g1" "exec_cmds cs g1 = Some g'"
    by (auto split: option.splits)
  from exec_cmd_preserves [OF g1(1)] Cons.IH [OF g1(2)] show ?case by simp
qed

lemma submit_preserves_conj:
  "bindGroups (submit cs g) = bindGroups g \<and> textures (submit cs g) = textures g \<and>
   fresh (submit cs g) = fresh g"
proof (cases "exec_cmds cs g")
  case None
  then show ?thesis by (simp add: submit_def)
next
  case (Some g')
  from exec_cmds_preserves [OF Some] Some show ?thesis by (simp add: submit_def)
qed

lemma submit_preserves:
  "bindGroups (submit cs g) = bindGroups g" "textures (submit cs g) = textures g"
  "fresh (submit cs g) = fresh g"
  using submit_preserves_conj [of cs g] by simp_all

lemma encode_frame_preserves:
  "bindGroups (dev (encode_frame u t s)) = bindGroups (dev s)"
  "textures (dev (encode_frame u t s)) = textures (dev s)"
  "fresh (dev (encode_frame u t s)) = fresh (dev s)"
  "bindGroup (encode_frame u t s) = bindGroup s"
  "camera (encode_frame u t s) = camera s"
  "colormapTexture (encode_frame u t s) = colormapTexture s"
  "volumeTexture (encode_frame u t s) = volumeTexture s"
  "renderPipeline (encode_frame u t s) = renderPipeline s"
  by (simp_all add: encode_frame_def submit_preserves)

lemma encode_frame_radar:
  fixes s :: "'cam radar"
  shows "bindGroupEntries (encode_frame u t s) = bindGroupEntries s"
    "colormapName (encode_frame u t s) = colormapName s"
  by (simp_all add: encode_frame_def)

lemma stage_view_params_preserves:
  assumes "stage_view_params L t s = Inr s'"
  shows "bindGroups (dev s') = bindGroups (dev s) \<and> textures (dev s') = textures (dev s) \<and>
    fresh (dev s') = fresh (dev s) \<and> bindGroup s' = bindGroup s \<and>
    bindGroupEntries s' = bindGroupEntries s \<and> colormapTexture s' = colormapTexture s \<and>
    volumeTexture s' = volumeTexture s \<and> renderPipeline s' = renderPipeline s \<and>
    colormapName s' = colormapName s \<and>
    camera s' = cam_after L (during_map t) (camera s)"
  using assms
  by (auto simp add: stage_view_params_def mapAsync_def getMappedRange_def unmap_def deliver_eq
      and_then_eq_Inr Let_def split: option.splits if_splits)

lemma swap_colormap_Inr:
  assumes "swap_colormap L t s = Inr s'"
  shows "\<exists>w h. decoded t = Some (w, h) \<and> 2 < length (bindGroupEntries s) \<and>
     s' = s\<lparr>dev := (dev s)\<lparr>fresh := Suc (Suc (fresh (dev s))),
                 textures := (textures (dev s))(fresh (dev s) \<mapsto> \<lparr>tex_dimension = Dim2d, tex_size = [w, h, 1]\<rparr>),
                 bindGroups := (bindGroups (dev s))(Suc (fresh (dev s)) \<mapsto>
                    (bindGroupEntries s)[2 := (bindGroupEntries s ! 2)
                       \<lparr>resource := TextureView (fresh (dev s))\<rparr>])\<rparr>,
            camera := cam_after L (during_image t) (camera s),
            colormapTexture := fresh (dev s),
            bindGroup := Suc (fresh (dev s)),
            colormapName := picked t,
            bindGroupEntries :=
              (bindGroupEntries s)[2 := (bindGroupEntries s ! 2)
                 \<lparr>resource := TextureView (fresh (dev s))\<rparr>]\<rparr>"
  using assms
  by (auto simp add: swap_colormap_def uploadImage_def createTexture_def createBindGroup_def
      deliver_eq Let_def and_then_eq_Inr split: option.splits if_splits)

lemma loop_body_visible_Inr:
  assumes "loop_body L t s = Inr s'" "\<not> hidden t"
  shows "\<exists>s1 s3. before_update L t s = Inr s1 \<and>
    stage_view_params L t (s1\<lparr>projView := mat4_mul L (proj s1) (cam_matrix L (camera s1))\<rparr>) = Inr s3 \<and>
    s' = encode_frame (upload s3) t s3"
  using assms by (auto simp add: loop_body_visible and_then_eq_Inr)

lemma deliver_append: "deliver L (xs @ ys) s = deliver L ys (deliver L xs s)"
  by (simp add: deliver_def)

lemma run_loop_hidden:
  "list_all hidden ts \<Longrightarrow>
   run_loop L (ts @ rest) s = run_loop L rest (deliver L (concat (map during_tick ts)) s)"
proof (induction ts arbitrary: s)
  case Nil
  then show ?case by (simp add: deliver_def)
next
  case (Cons t ts)
  then show ?case by (simp add: loop_body_hidden deliver_append)
qed

lemma run_frames_hidden:
  "list_all hidden ts \<Longrightarrow>
   run_frames L (ts @ rest) s = run_frames L rest (deliver L (concat (map during_tick ts)) s)"
proof (induction ts arbitrary: s)
  case Nil
  then show ?case by (simp add: deliver_def)
next
  case (Cons t ts)
  then show ?case by (simp add: frame_hidden deliver_append)
qed

lemma before_update_Inr:
  assumes "before_update L t s = Inr s1"
  shows "(colormapName s = picked t \<and> s1 = s\<lparr>camera := cam_after L (during_tick t) (camera s)\<rparr>) \<or>
    (colormapName s \<noteq> picked t \<and>
     swap_colormap L t (s\<lparr>camera := cam_after L (during_tick t) (camera s)\<rparr>) = Inr s1)"
  using assms by (auto simp add: before_update_def deliver_eq Let_def split: if_splits)

lemma loop_body_tables:
  fixes s s' :: "'cam radar"
  assumes "loop_body L t s = Inr s'"
  shows "fresh (dev s) \<le> fresh (dev s') \<and> volumeTexture s' = volumeTexture s \<and>
    renderPipeline s' = renderPipeline s \<and>
    (\<forall>h<fresh (dev s). bindGroups (dev s') h = bindGroups (dev s) h \<and>
                         textures (dev s') h = textures (dev s) h) \<and>
    (colormapName s = picked t \<longrightarrow>
       bindGroup s' = bindGroup s \<and> bindGroupEntries s' = bindGroupEntries s \<and>
       bindGroups (dev s') = bindGroups (dev s) \<and> textures (dev s') = textures (dev s) \<and>
       colormapTexture s' = colormapTexture s \<and> fresh (dev s') = fresh (dev s))"
proof (cases "hidden t")
  case True
  with assms show ?thesis
    by (auto simp add: loop_body_hidden deliver_eq)
next
  case False
  from loop_body_visible_Inr [OF assms False] obtain s1 s3 where
    s1: "before_update L t s = Inr s1" and
    s3: "stage_view_params L t
      (s1\<lparr>projView := mat4_mul L (proj s1) (cam_matrix L (camera s1))\<rparr>) = Inr s3" and
    s': "s' = encode_frame (upload s3) t s3"
    by blast
  note P = stage_view_params_preserves [OF s3]
  have tail: "bindGroups (dev s') = bindGroups (dev s1)" "textures (dev s') = textures (dev s1)"
    "fresh (dev s') = fresh (dev s1)" "volumeTexture s' = volumeTexture s1"
    "bindGroup s' = bindGroup s1" "bindGroupEntries s' = bindGroupEntries s1"
    "colormapTexture s' = colormapTexture s1" "renderPipeline s' = renderPipeline s1"
    using P by (simp_all add: s' encode_frame_preserves encode_frame_radar)
  from before_update_Inr [OF s1] show ?thesis
  proof
    assume "colormapName s = picked t \<and> s1 = s\<lparr>camera := cam_after L (during_tick t) (camera s)\<rparr>"
    with tail show ?thesis by simp
  next
    assume a: "colormapName s \<noteq> picked t \<and>
      swap_colormap L t (s\<lparr>camera := cam_after L (during_tick t) (camera s)\<rparr>) = Inr s1"
    from swap_colormap_Inr [OF conjunct2 [OF a]] a tail show ?thesis
      by auto
  qed
qed


lemma iteration_effect_Inr:
  fixes t :: tick and s s' :: "'cam radar"
  assumes rdy: "ready s" and lib: "lib_ok L" and vis: "\<not> hidden t"
    and body: "loop_body L t s = Inr s'"
  defines "M \<equiv> mat4_mul L (proj s) (cam_matrix L (update_camera L t s))"
  defines "r \<equiv> M @ cam_eyePos L (mapped_camera L t s) @ [staged s ! 19]"
  shows "\<exists>s1. before_update L t s = Inr s1 \<and> ready s1 \<and> ready s' \<and>
     camera s' = mapped_camera L t s \<and> projView s' = M \<and> proj s' = proj s \<and>
     staged s' = r \<and> uniform s' = r \<and>
     buffers (dev s') = (buffers (dev s))
        (upload s \<mapsto> params_record r, viewParamsBuffer s \<mapsto> params_record r) \<and>
     presented (dev s') = presented (dev s) @
        [\<lparr>seen_target = surface t, seen_clear = [0.3, 0.3, 0.3, 1], seen_params = r,
          seen_entries = bindGroupEntries s',
          seen_draw = Draw (length (cube_vertices s) div 3) 1 0 0\<rparr>] \<and>
     submitted (dev s') = submitted (dev s) @ [frame_commands (upload s) t s1] \<and>
     rejected (dev s') = rejected (dev s) \<and>
     upload s' = upload s \<and> viewParamsBuffer s' = viewParamsBuffer s \<and>
     volumeTexture s' = volumeTexture s \<and> renderPipeline s' = renderPipeline s \<and>
     vertexBuffer s' = vertexBuffer s \<and> indexBuffer s' = indexBuffer s \<and>
     cube_vertices s' = cube_vertices s \<and> colormapName s' = picked t \<and>
     bindGroup s' = bindGroup s1 \<and> bindGroupEntries s' = bindGroupEntries s1 \<and>
     colormapTexture s' = colormapTexture s1 \<and>
     bindGroups (dev s') = bindGroups (dev s1) \<and> textures (dev s') = textures (dev s1) \<and>
     fresh (dev s') = fresh (dev s1) \<and>
     vertexBuffer s1 = vertexBuffer s \<and> indexBuffer s1 = indexBuffer s \<and>
     renderPipeline s1 = renderPipeline s \<and> viewParamsBuffer s1 = viewParamsBuffer s \<and>
     cube_vertices s1 = cube_vertices s \<and>
     renderPassDesc s1 = renderPassDesc s \<and> volumeTexture s1 = volumeTexture s \<and>
     camera s1 = update_camera L t s \<and>
     renderPassDesc s' = (renderPassDesc s)\<lparr>view := Some (surface t)\<rparr>"
proof -
  from loop_body_Inr_image [OF body vis]
  have img: "colormapName s = picked t \<or> decoded t \<noteq> None" .
  show ?thesis
    unfolding r_def M_def
    using iteration_effect [OF rdy lib vis img] body
    apply (elim exE conjE)
    subgoal for s1 s2
      apply (subgoal_tac "s2 = s'")
       apply (rule exI [where x = s1])
       apply simp
      apply simp
      done
    done
qed


lemma iteration_commands:
  fixes t :: tick and s s' :: "'cam radar"
  assumes rdy: "ready s" and lib: "lib_ok L" and vis: "\<not> hidden t"
    and body: "loop_body L t s = Inr s'"
  shows "ready s' \<and>
     submitted (dev s') = submitted (dev s) @ [frame_commands (upload s) t s'] \<and>
     presented (dev s') = presented (dev s) @
        [\<lparr>seen_target = surface t, seen_clear = [0.3, 0.3, 0.3, 1],
          seen_params = mat4_mul L (proj s) (cam_matrix L (update_camera L t s)) @
            cam_eyePos L (mapped_camera L t s) @ [staged s ! 19],
          seen_entries = bindGroupEntries s',
          seen_draw = Draw (length (cube_vertices s) div 3) 1 0 0\<rparr>] \<and>
     uniform s' = mat4_mul L (proj s) (cam_matrix L (update_camera L t s)) @
            cam_eyePos L (mapped_camera L t s) @ [staged s ! 19] \<and>
     rejected (dev s') = rejected (dev s) \<and>
     camera s' = mapped_camera L t s \<and>
     upload s' = upload s \<and> viewParamsBuffer s' = viewParamsBuffer s \<and>
     renderPipeline s' = renderPipeline s \<and>
     vertexBuffer s' = vertexBuffer s \<and> indexBuffer s' = indexBuffer s \<and>
     cube_vertices s' = cube_vertices s"
  using iteration_effect_Inr [OF assms]
  by (elim exE conjE) (simp add: frame_commands_def)



lemma swap_tick_swaps:
  "\<exists>s'. swap_colormap demo_lib swap_tick demo_state = Inr s'"
  using swap_colormap_ok [OF readyD(6) [OF ready_demo], of swap_tick 180 1 demo_lib]
  by (simp add: swap_tick_def)

lemma swap_ready:
  assumes "ready s" "swap_colormap L t s = Inr s'"
  shows "ready s' \<and> bindGroup s' = Suc (fresh (dev s)) \<and> colormapTexture s' = fresh (dev s) \<and>
    bindGroupEntries s' =
      (bindGroupEntries s)[2 := \<lparr>binding = 2, resource = TextureView (fresh (dev s))\<rparr>] \<and>
    bindGroups (dev s') =
      (bindGroups (dev s))(Suc (fresh (dev s)) \<mapsto> bindGroupEntries s') \<and>
    (\<exists>w h. decoded t = Some (w, h) \<and>
       textures (dev s') = (textures (dev s))(fresh (dev s) \<mapsto> \<lparr>tex_dimension = Dim2d, tex_size = [w, h, 1]\<rparr>))"
proof -
  note R = readyD [OF assms(1)]
  from swap_colormap_Inr [OF assms(2)] obtain w h where wh: "decoded t = Some (w, h)"
    by blast
  from swap_colormap_ok [OF R(6) wh, of L] assms(2)
  have e: "s' = s\<lparr>dev := (dev s)\<lparr>fresh := Suc (Suc (fresh (dev s))),
                 textures := (textures (dev s))(fresh (dev s) \<mapsto> \<lparr>tex_dimension = Dim2d, tex_size = [w, h, 1]\<rparr>),
                 bindGroups := (bindGroups (dev s))(Suc (fresh (dev s)) \<mapsto>
                    (bindGroupEntries s)[2 := \<lparr>binding = 2, resource = TextureView (fresh (dev s))\<rparr>])\<rparr>,
            camera := cam_after L (during_image t) (camera s),
            colormapTexture := fresh (dev s),
            bindGroup := Suc (fresh (dev s)),
            colormapName := picked t,
            bindGroupEntries :=
              (bindGroupEntries s)[2 := \<lparr>binding = 2, resource = TextureView (fresh (dev s))\<rparr>]\<rparr>"
    by simp
  have "ready s'"
    unfolding e by (rule ready_swapped [OF assms(1)])
  then show ?thesis
    using wh by (simp add: e)
qed

text \<open>
  C2.  On a colormap swap a bind group is created anew from all five entries (uniform
  buffer, volume texture, the new colormap texture, sampler, storage buffer) and becomes
  the installed one.  The bind group installed before still holds the entries it was
  created with, as does every other existing bind group: none is changed after its
  creation.  The frame rendered in the same iteration is drawn with the complete new
  set: what its draw call reads is the five entries of the bind group the swap created.
\<close>

theorem bind_group_replaced_as_a_whole:
  fixes s s' s'' :: "'cam radar"
  assumes "ready s"
  shows "(swap_colormap L t s = Inr s' \<longrightarrow>
       bindGroup s < bindGroup s' \<and>
       bindGroups (dev s') (bindGroup s') = Some (bindGroupEntries s') \<and>
       bindGroupEntries s' =
         (bindGroupEntries s)[2 := \<lparr>binding = 2, resource = TextureView (colormapTexture s')\<rparr>] \<and>
       map binding (bindGroupEntries s') = [0, 1, 2, 3, 4] \<and>
       bindGroups (dev s') (bindGroup s) = Some (bindGroupEntries s) \<and>
       (\<forall>h. h \<noteq> bindGroup s' \<longrightarrow> bindGroups (dev s') h = bindGroups (dev s) h)) \<and>
     (lib_ok L \<and> \<not> hidden t \<and> loop_body L t s = Inr s'' \<longrightarrow>
       seen_entries (last (presented (dev s''))) = bindGroupEntries s'' \<and>
       bindGroups (dev s'') (bindGroup s'') = Some (bindGroupEntries s'') \<and>
       map binding (bindGroupEntries s'') = [0, 1, 2, 3, 4] \<and>
       resource (bindGroupEntries s'' ! 2) = TextureView (colormapTexture s'') \<and>
       colormapName s'' = picked t \<and>
       (\<forall>h<fresh (dev s). bindGroups (dev s'') h = bindGroups (dev s) h))"
proof (intro conjI impI)
  assume sw: "swap_colormap L t s = Inr s'"
  note R = readyD [OF assms]
  note I = installedD [OF R(1)]
  from swap_ready [OF assms sw]
  have e: "ready s'" "bindGroup s' = Suc (fresh (dev s))" "colormapTexture s' = fresh (dev s)"
    "bindGroupEntries s' =
      (bindGroupEntries s)[2 := \<lparr>binding = 2, resource = TextureView (fresh (dev s))\<rparr>]"
    "bindGroups (dev s') = (bindGroups (dev s))(Suc (fresh (dev s)) \<mapsto> bindGroupEntries s')"
    by simp_all
  show "bindGroup s < bindGroup s'" using I(3) e(2) by simp
  show "bindGroups (dev s') (bindGroup s') = Some (bindGroupEntries s')"
    by (rule readyD(5) [OF e(1)])
  show "bindGroupEntries s' =
      (bindGroupEntries s)[2 := \<lparr>binding = 2, resource = TextureView (colormapTexture s')\<rparr>]"
    using e(3,4) by simp
  show "map binding (bindGroupEntries s') = [0, 1, 2, 3, 4]"
    by (rule readyD(6) [OF e(1)])
  show "bindGroups (dev s') (bindGroup s) = Some (bindGroupEntries s)"
    using I(3) R(5) by (simp add: e(5))
  show "\<forall>h. h \<noteq> bindGroup s' \<longrightarrow> bindGroups (dev s') h = bindGroups (dev s) h"
    by (simp add: e(5) e(2))
next
  assume a: "lib_ok L \<and> \<not> hidden t \<and> loop_body L t s = Inr s''"
  then have lib: "lib_ok L" and vis: "\<not> hidden t" and body: "loop_body L t s = Inr s''"
    by simp_all
  from loop_body_Inr_image [OF body vis]
  have img: "colormapName s = picked t \<or> decoded t \<noteq> None" .
  from iteration_effect [OF assms lib vis img] body
  have rdy: "ready s''" and nm: "colormapName s'' = picked t"
    and pr: "presented (dev s'') = presented (dev s) @
        [\<lparr>seen_target = surface t, seen_clear = [0.3, 0.3, 0.3, 1],
          seen_params = mat4_mul L (proj s) (cam_matrix L (update_camera L t s)) @
            cam_eyePos L (mapped_camera L t s) @ [staged s ! 19],
          seen_entries = bindGroupEntries s'',
          seen_draw = Draw (length (cube_vertices s) div 3) 1 0 0\<rparr>]"
    by auto
  show "seen_entries (last (presented (dev s''))) = bindGroupEntries s''"
    by (simp add: pr)
  show "bindGroups (dev s'') (bindGroup s'') = Some (bindGroupEntries s'')"
    by (rule readyD(5) [OF rdy])
  show "map binding (bindGroupEntries s'') = [0, 1, 2, 3, 4]"
    by (rule readyD(6) [OF rdy])
  show "resource (bindGroupEntries s'' ! 2) = TextureView (colormapTexture s'')"
    by (rule readyD(8) [OF rdy])
  show "colormapName s'' = picked t" by (rule nm)
  show "\<forall>h<fresh (dev s). bindGroups (dev s'') h = bindGroups (dev s) h"
    using loop_body_tables [OF body] by simp
qed

theorem bind_group_replaced_as_a_whole_witness:
  "ready demo_state \<and> lib_ok demo_lib \<and> \<not> hidden swap_tick \<and>
   (\<exists>s'. swap_colormap demo_lib swap_tick demo_state = Inr s' \<and>
      (bindGroup demo_state < bindGroup s' \<and>
       bindGroups (dev s') (bindGroup s') = Some (bindGroupEntries s') \<and>
       bindGroupEntries s' =
         (bindGroupEntries demo_state)
           [2 := \<lparr>binding = 2, resource = TextureView (colormapTexture s')\<rparr>] \<and>
       map binding (bindGroupEntries s') = [0, 1, 2, 3, 4] \<and>
       bindGroups (dev s') (bindGroup demo_state) = Some (bindGroupEntries demo_state) \<and>
       (\<forall>h. h \<noteq> bindGroup s' \<longrightarrow> bindGroups (dev s') h = bindGroups (dev demo_state) h))) \<and>
   (\<exists>s''. loop_body demo_lib swap_tick demo_state = Inr s'' \<and>
      (seen_entries (last (presented (dev s''))) = bindGroupEntries s'' \<and>
       bindGroups (dev s'') (bindGroup s'') = Some (bindGroupEntries s'') \<and>
       map binding (bindGroupEntries s'') = [0, 1, 2, 3, 4] \<and>
       resource (bindGroupEntries s'' ! 2) = TextureView (colormapTexture s'') \<and>
       colormapName s'' = picked swap_tick \<and>
       (\<forall>h<fresh (dev demo_state). bindGroups (dev s'') h = bindGroups (dev demo_state) h)))"
proof -
  have vis: "\<not> hidden swap_tick" by (simp add: swap_tick_def)
  from swap_tick_swaps obtain s' where s': "swap_colormap demo_lib swap_tick demo_state = Inr s'"
    by blast
  have "list_all (\<lambda>t. hidden t \<or> decoded t \<noteq> None) [swap_tick]"
    by (simp add: swap_tick_def)
  from run_loop_progress [OF ready_demo lib_ok_demo this]
  obtain s'' where s'': "loop_body demo_lib swap_tick demo_state = Inr s''"
    by (auto simp add: and_then_eq_Inr)
  note T = bind_group_replaced_as_a_whole [OF ready_demo, of demo_lib swap_tick s' s'']
  note Q = T [THEN conjunct1, THEN mp, OF s']
  note S = T [THEN conjunct2, THEN mp, OF conjI [OF lib_ok_demo conjI [OF vis s'']]]
  show ?thesis
    apply (intro conjI ready_demo lib_ok_demo vis)
     apply (rule exI [where x = s'], rule conjI [OF s' Q])
    apply (rule exI [where x = s''], rule conjI [OF s'' S])
    done
qed



lemmas eval_defs =
  loop_body_def demo_lib_def demo_state_def demo_dev_def demo_entries_def deliver_def
  dispatch_def wheel_def swap_colormap_def uploadImage_def createTexture_def
  createBindGroup_def stage_view_params_def mapAsync_def getMappedRange_def
  Float32Array_def as_f32_def typed_set_def unmap_def encode_frame_def frame_commands_def
  submit_def observe_def uniform_binding_def copy_floats_def clear_pass_def mat4_create_def
  buffer_ok_def maxBufferSize_def Let_def


lemma clear_attachment:
  assumes "loadOp a = ''clear''" "clearValue a = [0.3, 0.3, 0.3, 1]" "storeOp a = ''store''"
  shows "a\<lparr>view := v\<rparr> =
    \<lparr>view = v, loadOp = ''clear'', clearValue = [0.3, 0.3, 0.3, 1], storeOp = ''store''\<rparr>"
  using assms by (cases a) simp

lemma frame_commands_installed:
  assumes "installed s"
  shows "frame_commands u t s =
     [CopyBufferToBuffer u 0 (viewParamsBuffer s) 0 80,
      RenderPass \<lparr>view = Some (surface t), loadOp = ''clear'', clearValue = [0.3, 0.3, 0.3, 1],
                   storeOp = ''store''\<rparr>
        [SetPipeline (renderPipeline s), SetBindGroup 0 (bindGroup s),
         SetVertexBuffer 0 (vertexBuffer s), SetIndexBuffer (indexBuffer s) ''uint16'',
         Draw (length (cube_vertices s) div 3) 1 0 0]]"
  using installedD(6-8) [OF assms]
  by (simp add: frame_commands_def clear_attachment)

text \<open>
  C5 (as amended).  Every frame that is rendered submits one command buffer: the copy
  of the staging buffer into the uniform buffer, then one render pass that clears to the
  background colour (0.3, 0.3, 0.3, 1), sets the pipeline, the bind group, the cube's
  vertex buffer and its index buffer, and issues exactly one draw call.  That call is a
  plain draw of \<^verbatim>\<open>cube.vertices.length / 3\<close> vertices, one instance, from vertex 0:
  there is no indexed draw, so the index buffer that was set is not read.
\<close>

theorem one_plain_draw_per_frame:
  fixes s s' :: "'cam radar" and v v' :: "'cam app"
  assumes "lib_ok L" and "\<not> hidden t"
  shows "(ready s \<and> loop_body L t s = Inr s' \<longrightarrow>
       submitted (dev s') = submitted (dev s) @
         [[CopyBufferToBuffer (upload s) 0 (viewParamsBuffer s) 0 80,
           RenderPass \<lparr>view = Some (surface t), loadOp = ''clear'',
                        clearValue = [0.3, 0.3, 0.3, 1], storeOp = ''store''\<rparr>
             [SetPipeline (renderPipeline s), SetBindGroup 0 (bindGroup s'),
              SetVertexBuffer 0 (vertexBuffer s), SetIndexBuffer (indexBuffer s) ''uint16'',
              Draw (length (cube_vertices s) div 3) 1 0 0]]] \<and>
       indexed_draws (last (submitted (dev s'))) = [] \<and>
       draws (last (submitted (dev s'))) = [Draw (length (cube_vertices s) div 3) 1 0 0] \<and>
       (\<exists>ob. presented (dev s') = presented (dev s) @ [ob] \<and>
          seen_target ob = surface t \<and> seen_clear ob = [0.3, 0.3, 0.3, 1] \<and>
          seen_draw ob = Draw (length (cube_vertices s) div 3) 1 0 0)) \<and>
     (installed v \<and> frame L t v = Inr v' \<longrightarrow>
       submitted (dev v') = submitted (dev v) @
         [[CopyBufferToBuffer (fresh (dev v)) 0 (viewParamsBuffer v) 0 80,
           RenderPass \<lparr>view = Some (surface t), loadOp = ''clear'',
                        clearValue = [0.3, 0.3, 0.3, 1], storeOp = ''store''\<rparr>
             [SetPipeline (renderPipeline v), SetBindGroup 0 (bindGroup v),
              SetVertexBuffer 0 (vertexBuffer v), SetIndexBuffer (indexBuffer v) ''uint16'',
              Draw (length (cube_vertices v) div 3) 1 0 0]]] \<and>
       indexed_draws (last (submitted (dev v'))) = [] \<and>
       draws (last (submitted (dev v'))) = [Draw (length (cube_vertices v) div 3) 1 0 0] \<and>
       (\<exists>ob. presented (dev v') = presented (dev v) @ [ob] \<and>
          seen_target ob = surface t \<and> seen_clear ob = [0.3, 0.3, 0.3, 1] \<and>
          seen_draw ob = Draw (length (cube_vertices v) div 3) 1 0 0))"
proof (intro conjI impI)
  assume a: "ready s \<and> loop_body L t s = Inr s'"
  then have rdy: "ready s" and body: "loop_body L t s = Inr s'" by simp_all
  note E = iteration_commands [OF rdy assms body]
  from E have rdy': "ready s'" and sub0: "submitted (dev s') = submitted (dev s) @ [frame_commands (upload s) t s']"
    and fr: "viewParamsBuffer s' = viewParamsBuffer s" "renderPipeline s' = renderPipeline s"
      "vertexBuffer s' = vertexBuffer s" "indexBuffer s' = indexBuffer s"
      "cube_vertices s' = cube_vertices s"
    by simp_all
  from E have pr: "presented (dev s') = presented (dev s) @
        [\<lparr>seen_target = surface t, seen_clear = [0.3, 0.3, 0.3, 1],
          seen_params = mat4_mul L (proj s) (cam_matrix L (update_camera L t s)) @
            cam_eyePos L (mapped_camera L t s) @ [staged s ! 19],
          seen_entries = bindGroupEntries s',
          seen_draw = Draw (length (cube_vertices s) div 3) 1 0 0\<rparr>]"
    by (elim conjE)
  show sub: "submitted (dev s') = submitted (dev s) @
         [[CopyBufferToBuffer (upload s) 0 (viewParamsBuffer s) 0 80,
           RenderPass \<lparr>view = Some (surface t), loadOp = ''clear'',
                        clearValue = [0.3, 0.3, 0.3, 1], storeOp = ''store''\<rparr>
             [SetPipeline (renderPipeline s), SetBindGroup 0 (bindGroup s'),
              SetVertexBuffer 0 (vertexBuffer s), SetIndexBuffer (indexBuffer s) ''uint16'',
              Draw (length (cube_vertices s) div 3) 1 0 0]]]"
    unfolding sub0 frame_commands_installed [OF readyD(1) [OF rdy']] fr ..
  show "indexed_draws (last (submitted (dev s'))) = []"
    "draws (last (submitted (dev s'))) = [Draw (length (cube_vertices s) div 3) 1 0 0]"
    by (simp_all add: sub indexed_draws_def draws_def)
  show "\<exists>ob. presented (dev s') = presented (dev s) @ [ob] \<and>
          seen_target ob = surface t \<and> seen_clear ob = [0.3, 0.3, 0.3, 1] \<and>
          seen_draw ob = Draw (length (cube_vertices s) div 3) 1 0 0"
    by (simp add: pr)
next
  assume a: "installed v \<and> frame L t v = Inr v'"
  then have ins: "installed v" and fr: "frame L t v = Inr v'" by simp_all
  from frame_effect [OF ins assms] fr obtain es where
    e: "v' = v\<lparr>dev := (dev v)\<lparr>fresh := Suc (fresh (dev v)),
                  buffers := (buffers (dev v))
                    (fresh (dev v) \<mapsto> params_record
                       (mat4_mul L (proj v) (cam_matrix L (cam_after L (during_tick t) (camera v))) @
                        cam_eyePos L (cam_after L (during_tick t) (camera v)) @ [0]),
                     viewParamsBuffer v \<mapsto> params_record
                       (mat4_mul L (proj v) (cam_matrix L (cam_after L (during_tick t) (camera v))) @
                        cam_eyePos L (cam_after L (during_tick t) (camera v)) @ [0])),
                  submitted := submitted (dev v) @ [frame_commands (fresh (dev v)) t v],
                  presented := presented (dev v) @
                    [\<lparr>seen_target = surface t, seen_clear = [0.3, 0.3, 0.3, 1],
                      seen_params =
                        mat4_mul L (proj v) (cam_matrix L (cam_after L (during_tick t) (camera v))) @
                        cam_eyePos L (cam_after L (during_tick t) (camera v)) @ [0],
                      seen_entries = es,
                      seen_draw = Draw (length (cube_vertices v) div 3) 1 0 0\<rparr>]\<rparr>,
            camera := cam_after L (during_tick t) (camera v),
            projView := mat4_mul L (proj v) (cam_matrix L (cam_after L (during_tick t) (camera v))),
            renderPassDesc := (renderPassDesc v)\<lparr>view := Some (surface t)\<rparr>\<rparr>"
    by auto
  show sub: "submitted (dev v') = submitted (dev v) @
         [[CopyBufferToBuffer (fresh (dev v)) 0 (viewParamsBuffer v) 0 80,
           RenderPass \<lparr>view = Some (surface t), loadOp = ''clear'',
                        clearValue = [0.3, 0.3, 0.3, 1], storeOp = ''store''\<rparr>
             [SetPipeline (renderPipeline v), SetBindGroup 0 (bindGroup v),
              SetVertexBuffer 0 (vertexBuffer v), SetIndexBuffer (indexBuffer v) ''uint16'',
              Draw (length (cube_vertices v) div 3) 1 0 0]]]"
    by (simp add: e frame_commands_installed [OF ins])
  show "indexed_draws (last (submitted (dev v'))) = []"
    "draws (last (submitted (dev v'))) = [Draw (length (cube_vertices v) div 3) 1 0 0]"
    by (simp_all add: sub indexed_draws_def draws_def)
  show "\<exists>ob. presented (dev v') = presented (dev v) @ [ob] \<and>
          seen_target ob = surface t \<and> seen_clear ob = [0.3, 0.3, 0.3, 1] \<and>
          seen_draw ob = Draw (length (cube_vertices v) div 3) 1 0 0"
    by (simp add: e)
qed

theorem one_plain_draw_per_frame_witness:
  "lib_ok demo_lib \<and> \<not> hidden demo_tick \<and> ready demo_state \<and> installed demo_app \<and>
   (\<exists>s'. loop_body demo_lib demo_tick demo_state = Inr s' \<and>
      (submitted (dev s') = submitted (dev demo_state) @
         [[CopyBufferToBuffer (upload demo_state) 0 (viewParamsBuffer demo_state) 0 80,
           RenderPass \<lparr>view = Some (surface demo_tick), loadOp = ''clear'',
                        clearValue = [0.3, 0.3, 0.3, 1], storeOp = ''store''\<rparr>
             [SetPipeline (renderPipeline demo_state), SetBindGroup 0 (bindGroup s'),
              SetVertexBuffer 0 (vertexBuffer demo_state),
              SetIndexBuffer (indexBuffer demo_state) ''uint16'',
              Draw (length (cube_vertices demo_state) div 3) 1 0 0]]] \<and>
       indexed_draws (last (submitted (dev s'))) = [] \<and>
       draws (last (submitted (dev s'))) =
         [Draw (length (cube_vertices demo_state) div 3) 1 0 0] \<and>
       (\<exists>ob. presented (dev s') = presented (dev demo_state) @ [ob] \<and>
          seen_target ob = surface demo_tick \<and> seen_clear ob = [0.3, 0.3, 0.3, 1] \<and>
          seen_draw ob = Draw (length (cube_vertices demo_state) div 3) 1 0 0))) \<and>
   (\<exists>v'. frame demo_lib demo_tick demo_app = Inr v' \<and>
      (submitted (dev v') = submitted (dev demo_app) @
         [[CopyBufferToBuffer (fresh (dev demo_app)) 0 (viewParamsBuffer demo_app) 0 80,
           RenderPass \<lparr>view = Some (surface demo_tick), loadOp = ''clear'',
                        clearValue = [0.3, 0.3, 0.3, 1], storeOp = ''store''\<rparr>
             [SetPipeline (renderPipeline demo_app), SetBindGroup 0 (bindGroup demo_app),
              SetVertexBuffer 0 (vertexBuffer demo_app),
              SetIndexBuffer (indexBuffer demo_app) ''uint16'',
              Draw (length (cube_vertices demo_app) div 3) 1 0 0]]] \<and>
       indexed_draws (last (submitted (dev v'))) = [] \<and>
       draws (last (submitted (dev v'))) =
         [Draw (length (cube_vertices demo_app) div 3) 1 0 0] \<and>
       (\<exists>ob. presented (dev v') = presented (dev demo_app) @ [ob] \<and>
          seen_target ob = surface demo_tick \<and> seen_clear ob = [0.3, 0.3, 0.3, 1] \<and>
          seen_draw ob = Draw (length (cube_vertices demo_app) div 3) 1 0 0)))"
proof -
  have vis: "\<not> hidden demo_tick" by (simp add: demo_tick_def)
  have "list_all (\<lambda>t. hidden t \<or> decoded t \<noteq> None) [demo_tick]"
    by (simp add: demo_tick_def)
  from run_loop_progress [OF ready_demo lib_ok_demo this]
  obtain s' where s': "loop_body demo_lib demo_tick demo_state = Inr s'"
    by (auto simp add: and_then_eq_Inr)
  from run_frames_progress [OF installed_demo_app lib_ok_demo, of "[demo_tick]"]
  obtain v' where v': "frame demo_lib demo_tick demo_app = Inr v'"
    by (auto simp add: and_then_eq_Inr)
  note T = one_plain_draw_per_frame [OF lib_ok_demo vis, of demo_state s' demo_app v']
  note Q = T [THEN conjunct1, THEN mp, OF conjI [OF ready_demo s']]
  note S = T [THEN conjunct2, THEN mp, OF conjI [OF installed_demo_app v']]
  show ?thesis
    apply (intro conjI lib_ok_demo vis ready_demo installed_demo_app)
     apply (rule exI [where x = s'], rule conjI [OF s' Q])
    apply (rule exI [where x = v'], rule conjI [OF v' S])
    done
qed

theorem no_indexed_draw_is_issued:
  "map indexed_draws (result_submitted (loop_body demo_lib demo_tick demo_state)) = [[]] \<and>
   map draws (result_submitted (loop_body demo_lib demo_tick demo_state)) = [[Draw 14 1 0 0]] \<and>
   length (cube_indices demo_state) = 14"
  by (simp add: eval_defs demo_tick_def result_submitted_def indexed_draws_def draws_def)

text \<open>
  When no event is handled while the staging buffer is being mapped, and always in
  \<^verbatim>\<open>volume-raycaster.js\<close>, what the draw call reads is the record of one camera state:
  the one the iteration ends with.
\<close>

lemma undisturbed_record_is_snapshot:
  fixes s s' :: "'cam radar"
  assumes "ready s" "lib_ok L" "\<not> hidden t" "during_map t = []" "loop_body L t s = Inr s'"
  shows "seen_params (last (presented (dev s'))) = snapshot L (proj s) (camera s') @ [staged s ! 19]"
    and "uniform s' = snapshot L (proj s) (camera s') @ [staged s ! 19]"
  using iteration_commands [OF assms(1-3) assms(5)] assms(4)
  by (simp_all add: snapshot_def mapped_camera_def cam_after_def)

lemma frame_record_is_snapshot:
  fixes v v' :: "'cam app"
  assumes "installed v" "lib_ok L" "\<not> hidden t" "frame L t v = Inr v'"
  shows "seen_params (last (presented (dev v'))) = snapshot L (proj v) (camera v') @ [0]"
  using frame_effect [OF assms(1-3)] assms(4)
  by (auto simp add: snapshot_def)

text \<open>
  C1.  In the radar renderer the matrix is computed before the loop waits for the staging
  buffer to be mapped and the eye position is read after it.  Here the wheel turns
  during that wait and moves the camera from distance 2 to distance 3: the record the
  draw call reads has the matrix of the camera at 2 and the eye position of the camera
  at 3, which is the record of neither camera state.  The same event handled before the
  frame callback of \<^verbatim>\<open>volume-raycaster.js\<close> yields the record of the camera at 3.
\<close>

theorem torn_view_parameters:
  "map seen_params (result_presented (loop_body demo_lib torn_tick demo_state)) =
     [replicate 16 (- 2) @ [0, 0, 3] @ [0]] \<and>
   snapshot demo_lib (proj demo_state) 2 = replicate 16 (- 2) @ [0, 0, 2] \<and>
   snapshot demo_lib (proj demo_state) 3 = replicate 16 (- 3) @ [0, 0, 3] \<and>
   camera demo_state = 2 \<and> cam_after demo_lib (during_map torn_tick) 2 = 3 \<and>
   map seen_params (result_presented (frame demo_lib demo_tick demo_app)) =
     [replicate 16 (- 3) @ [0, 0, 3] @ [0]]"
  by (simp add: eval_defs torn_tick_def demo_tick_def result_presented_def snapshot_def
      cam_after_def frame_def createBuffer_def demo_app_def app.truncate_def)

text \<open>
  The radar renderer answers a missing \<^verbatim>\<open>navigator.gpu\<close> and a missing adapter alike:
  it shows the notice and returns, whatever the host would do next.
  \<^verbatim>\<open>volume-raycaster.js\<close> shows the notice for a missing \<^verbatim>\<open>navigator.gpu\<close> only.
\<close>

lemma radar_main_unsupported:
  "\<not> gpu_defined H \<or> \<not> adapter_found H \<Longrightarrow>
   radar_main L H p ticks = (show_notice p, Returned)"
  by (auto simp add: radar_main_def)

lemma vr_main_no_gpu:
  "\<not> gpu_defined H \<Longrightarrow> vr_main L H p ticks = (show_notice p, Returned)"
  by (simp add: vr_main_def)

lemma vr_main_no_adapter:
  "gpu_defined H \<Longrightarrow> \<not> adapter_found H \<Longrightarrow> vr_main L H p ticks = (p, Threw TypeError)"
  by (simp add: vr_main_def)

text \<open>
  C9.  With \<^verbatim>\<open>navigator.gpu\<close> defined and no adapter available, the radar renderer
  replaces the canvas by the notice and returns, but \<^verbatim>\<open>volume-raycaster.js\<close> throws a
  \<open>TypeError\<close> and leaves the page as it was: no notice is shown.
\<close>

theorem missing_adapter_is_unchecked:
  "radar_main demo_lib (demo_host\<lparr>adapter_found := False\<rparr>) demo_page [demo_tick] =
     (\<lparr>canvas_style = ''display:none;'', no_webgpu_style = ''display:block;'', alerts = []\<rparr>,
      Returned) \<and>
   vr_main demo_lib (demo_host\<lparr>adapter_found := False\<rparr>) demo_page [demo_tick] =
     (\<lparr>canvas_style = [], no_webgpu_style = ''display:none;'', alerts = []\<rparr>, Threw TypeError)"
  by (simp add: radar_main_def vr_main_def demo_host_def demo_page_def show_notice_def)

lemma upload_volume_submit:
  "submit [CopyBufferToTexture
             \<lparr>src_buffer = Suc (fresh g), bytesPerRow = w, rowsPerImage = h\<rparr> (fresh g) (w, h, d)]
     (g\<lparr>textures := (textures g)(fresh g \<mapsto> \<lparr>tex_dimension = Dim3d, tex_size = [w, h, d]\<rparr>),
        fresh := Suc (Suc (fresh g)),
        buffers := (buffers g)(Suc (fresh g) \<mapsto>
          \<lparr>buf_size = n, mapping = Unmapped, contents = c\<rparr>)\<rparr>) =
   (if n \<le> maxBufferSize \<and> texture_ok \<lparr>tex_dimension = Dim3d, tex_size = [w, h, d]\<rparr> \<and>
       256 dvd w \<and> required_bytes w h (w, h, d) \<le> n
    then g\<lparr>textures := (textures g)(fresh g \<mapsto> \<lparr>tex_dimension = Dim3d, tex_size = [w, h, d]\<rparr>),
          fresh := Suc (Suc (fresh g)),
          buffers := (buffers g)(Suc (fresh g) \<mapsto>
            \<lparr>buf_size = n, mapping = Unmapped, contents = c\<rparr>),
          submitted := submitted g @
            [[CopyBufferToTexture
                \<lparr>src_buffer = Suc (fresh g), bytesPerRow = w, rowsPerImage = h\<rparr>
                (fresh g) (w, h, d)]]\<rparr>
    else g\<lparr>textures := (textures g)(fresh g \<mapsto> \<lparr>tex_dimension = Dim3d, tex_size = [w, h, d]\<rparr>),
          fresh := Suc (Suc (fresh g)),
          buffers := (buffers g)(Suc (fresh g) \<mapsto>
            \<lparr>buf_size = n, mapping = Unmapped, contents = c\<rparr>),
          rejected := Suc (rejected g)\<rparr>)"
  by (simp add: submit_def copy_volume_ok)

lemma volume_accepted_iff:
  "volume_accepted g (upload_volume (w, h, d) bytes g) \<longleftrightarrow>
     4 dvd length bytes \<and> length bytes \<le> maxBufferSize \<and>
     texture_ok \<lparr>tex_dimension = Dim3d, tex_size = [w, h, d]\<rparr> \<and>
     256 dvd w \<and> required_bytes w h (w, h, d) \<le> length bytes"
  by (simp add: upload_volume_eq upload_volume_submit volume_accepted_def)

text \<open>
  C4 (as amended).  The upload code compares no lengths, pads no rows and raises no
  resource error.  When the number of bytes is not a multiple of 4, \<^verbatim>\<open>createBuffer\<close>
  throws a \<open>RangeError\<close>.  Otherwise the code stages exactly the bytes it was given, in
  a buffer of their length, hands the queue one copy whose \<^verbatim>\<open>bytesPerRow\<close> is the
  volume's width and whose \<^verbatim>\<open>rowsPerImage\<close> is its height, and returns the texture:
  the device either executes the copy or drops it, and the program carries on in both
  cases.  For a width that is a multiple of 256, so that rows need no padding, the
  device with its default limits executes the copy iff the number of bytes is a multiple
  of 4 and no more than \<open>maxBufferSize\<close>, every dimension is at least 1 and at most
  \<open>maxTextureDimension3D\<close>, and there are at least width x height x depth bytes.
\<close>

theorem volume_upload_as_coded:
  "upload_volume (w, h, d) bytes g =
     (if 4 dvd length bytes
      then Inr (fresh g,
        submit [CopyBufferToTexture
                  \<lparr>src_buffer = Suc (fresh g), bytesPerRow = w, rowsPerImage = h\<rparr>
                  (fresh g) (w, h, d)]
          (g\<lparr>textures := (textures g)
                (fresh g \<mapsto> \<lparr>tex_dimension = Dim3d, tex_size = [w, h, d]\<rparr>),
             fresh := Suc (Suc (fresh g)),
             buffers := (buffers g)(Suc (fresh g) \<mapsto>
               \<lparr>buf_size = length bytes, mapping = Unmapped, contents = U8 bytes\<rparr>)\<rparr>))
      else Inl RangeError) \<and>
   (4 dvd length bytes \<longrightarrow>
      (\<exists>g'. upload_volume (w, h, d) bytes g = Inr (fresh g, g') \<and>
         textures g' (fresh g) = Some \<lparr>tex_dimension = Dim3d, tex_size = [w, h, d]\<rparr> \<and>
         buffers g' (Suc (fresh g)) =
           Some \<lparr>buf_size = length bytes, mapping = Unmapped, contents = U8 bytes\<rparr> \<and>
         (if volume_accepted g (upload_volume (w, h, d) bytes g)
          then rejected g' = rejected g \<and>
               submitted g' = submitted g @
                 [[CopyBufferToTexture
                     \<lparr>src_buffer = Suc (fresh g), bytesPerRow = w, rowsPerImage = h\<rparr>
                     (fresh g) (w, h, d)]]
          else rejected g' = Suc (rejected g) \<and> submitted g' = submitted g))) \<and>
   (256 dvd w \<longrightarrow>
      (volume_accepted g (upload_volume (w, h, d) bytes g) \<longleftrightarrow>
         4 dvd length bytes \<and> length bytes \<le> maxBufferSize \<and>
         0 < w \<and> w \<le> maxTextureDimension3D \<and>
         0 < h \<and> h \<le> maxTextureDimension3D \<and>
         0 < d \<and> d \<le> maxTextureDimension3D \<and>
         w * h * d \<le> length bytes))"
proof (intro conjI impI)
  show "upload_volume (w, h, d) bytes g =
     (if 4 dvd length bytes
      then Inr (fresh g,
        submit [CopyBufferToTexture
                  \<lparr>src_buffer = Suc (fresh g), bytesPerRow = w, rowsPerImage = h\<rparr>
                  (fresh g) (w, h, d)]
          (g\<lparr>textures := (textures g)
                (fresh g \<mapsto> \<lparr>tex_dimension = Dim3d, tex_size = [w, h, d]\<rparr>),
             fresh := Suc (Suc (fresh g)),
             buffers := (buffers g)(Suc (fresh g) \<mapsto>
               \<lparr>buf_size = length bytes, mapping = Unmapped, contents = U8 bytes\<rparr>)\<rparr>))
      else Inl RangeError)"
    by (rule upload_volume_eq)
next
  assume four: "4 dvd length bytes"
  show "\<exists>g'. upload_volume (w, h, d) bytes g = Inr (fresh g, g') \<and>
         textures g' (fresh g) = Some \<lparr>tex_dimension = Dim3d, tex_size = [w, h, d]\<rparr> \<and>
         buffers g' (Suc (fresh g)) =
           Some \<lparr>buf_size = length bytes, mapping = Unmapped, contents = U8 bytes\<rparr> \<and>
         (if volume_accepted g (upload_volume (w, h, d) bytes g)
          then rejected g' = rejected g \<and>
               submitted g' = submitted g @
                 [[CopyBufferToTexture
                     \<lparr>src_buffer = Suc (fresh g), bytesPerRow = w, rowsPerImage = h\<rparr>
                     (fresh g) (w, h, d)]]
          else rejected g' = Suc (rejected g) \<and> submitted g' = submitted g)"
    unfolding volume_accepted_iff
    using four by (simp add: upload_volume_eq upload_volume_submit)
next
  assume al: "256 dvd w"
  show "volume_accepted g (upload_volume (w, h, d) bytes g) \<longleftrightarrow>
         4 dvd length bytes \<and> length bytes \<le> maxBufferSize \<and>
         0 < w \<and> w \<le> maxTextureDimension3D \<and>
         0 < h \<and> h \<le> maxTextureDimension3D \<and>
         0 < d \<and> d \<le> maxTextureDimension3D \<and>
         w * h * d \<le> length bytes"
  proof (cases "0 < w \<and> 0 < h \<and> 0 < d")
    case True
    then have rb: "required_bytes w h (w, h, d) = w * h * d"
      by (simp add: required_bytes_volume)
    show ?thesis
      using al True by (auto simp add: volume_accepted_iff texture_ok_3d rb)
  next
    case False
    then show ?thesis
      by (auto simp add: volume_accepted_iff texture_ok_3d)
  qed
qed

theorem volume_upload_as_coded_witness:
  "(256::nat) dvd 256 \<and> (256::nat) dvd 2304 \<and>
   4 dvd length (replicate 1024 (0::nat)) \<and>
   volume_accepted new_device (upload_volume (256, 2, 2) (replicate 1024 0) new_device) \<and>
   volume_accepted new_device (upload_volume (256, 2, 2) (replicate 2048 0) new_device) \<and>
   \<not> volume_accepted new_device (upload_volume (256, 2, 2) (replicate 1020 0) new_device) \<and>
   \<not> volume_accepted new_device (upload_volume (2304, 1, 1) (replicate 2304 0) new_device) \<and>
   \<not> volume_accepted new_device (upload_volume (256, 0, 1) (replicate 256 0) new_device) \<and>
   upload_volume (256, 2, 2) (replicate 1026 0) new_device = Inl RangeError \<and>
   (\<exists>g'. upload_volume (256, 2, 2) (replicate 1024 0) new_device = Inr (0, g') \<and>
      textures g' 0 = Some \<lparr>tex_dimension = Dim3d, tex_size = [256, 2, 2]\<rparr> \<and>
      rejected g' = 0 \<and>
      submitted g' =
        [[CopyBufferToTexture \<lparr>src_buffer = 1, bytesPerRow = 256, rowsPerImage = 2\<rparr>
            0 (256, 2, 2)]])"
proof -
  have h: "(256::nat) dvd 256" "(256::nat) dvd 2304" "4 dvd length (replicate 1024 (0::nat))"
    by simp_all
  note A1 = volume_upload_as_coded [where g = new_device and w = 256 and h = 2 and d = 2
      and bytes = "replicate 1024 0", THEN conjunct2, THEN conjunct2, THEN mp, OF h(1)]
  note A2 = volume_upload_as_coded [where g = new_device and w = 256 and h = 2 and d = 2
      and bytes = "replicate 2048 0", THEN conjunct2, THEN conjunct2, THEN mp, OF h(1)]
  note A3 = volume_upload_as_coded [where g = new_device and w = 256 and h = 2 and d = 2
      and bytes = "replicate 1020 0", THEN conjunct2, THEN conjunct2, THEN mp, OF h(1)]
  note B = volume_upload_as_coded [where g = new_device and w = 2304 and h = 1 and d = 1
      and bytes = "replicate 2304 0", THEN conjunct2, THEN conjunct2, THEN mp, OF h(2)]
  note C = volume_upload_as_coded [where g = new_device and w = 256 and h = 0 and d = 1
      and bytes = "replicate 256 0", THEN conjunct2, THEN conjunct2, THEN mp, OF h(1)]
  note D = volume_upload_as_coded [where g = new_device and w = 256 and h = 2 and d = 2
      and bytes = "replicate 1026 0", THEN conjunct1]
  note E = volume_upload_as_coded [where g = new_device and w = 256 and h = 2 and d = 2
      and bytes = "replicate 1024 0", THEN conjunct2, THEN conjunct1, THEN mp, OF h(3)]
  have a1: "volume_accepted new_device (upload_volume (256, 2, 2) (replicate 1024 0) new_device)"
    using A1 by (simp add: maxBufferSize_def maxTextureDimension3D_def)
  have a2: "volume_accepted new_device (upload_volume (256, 2, 2) (replicate 2048 0) new_device)"
    using A2 by (simp add: maxBufferSize_def maxTextureDimension3D_def)
  have a3: "\<not> volume_accepted new_device (upload_volume (256, 2, 2) (replicate 1020 0) new_device)"
    using A3 by simp
  have a4: "\<not> volume_accepted new_device (upload_volume (2304, 1, 1) (replicate 2304 0) new_device)"
    using B by (simp add: maxTextureDimension3D_def)
  have a5: "\<not> volume_accepted new_device (upload_volume (256, 0, 1) (replicate 256 0) new_device)"
    using C by simp
  have a6: "upload_volume (256, 2, 2) (replicate 1026 0) new_device = Inl RangeError"
    using D by simp
  have a7: "\<exists>g'. upload_volume (256, 2, 2) (replicate 1024 0) new_device = Inr (0, g') \<and>
      textures g' 0 = Some \<lparr>tex_dimension = Dim3d, tex_size = [256, 2, 2]\<rparr> \<and>
      rejected g' = 0 \<and>
      submitted g' =
        [[CopyBufferToTexture \<lparr>src_buffer = 1, bytesPerRow = 256, rowsPerImage = 2\<rparr>
            0 (256, 2, 2)]]"
    using E a1 by (auto simp add: new_device_def)
  show ?thesis
    by (intro conjI h a1 a2 a3 a4 a5 a6 a7)
qed

theorem volume_upload_ignores_length_and_padding:
  "volume_accepted new_device (upload_volume (256, 1, 1) (replicate 260 0) new_device) \<and>
   length (replicate 260 (0::nat)) \<noteq> 256 * 1 * 1 \<and>
   \<not> volume_accepted new_device (upload_volume (100, 100, 100) (replicate 1000000 0) new_device) \<and>
   length (replicate 1000000 (0::nat)) = 100 * 100 * 100 \<and>
   upload_volume (100, 100, 100) (replicate 999999 0) new_device = Inl RangeError"
  by (simp add: upload_volume_eq submit_def copy_to_texture_ok_def volume_accepted_def
      new_device_def required_bytes_def extent3d_def texture_ok_def buffer_ok_def
      maxBufferSize_def maxTextureDimension3D_def)

lemma first_visible_iteration:
  fixes s s' :: "'cam radar"
  assumes rdy: "ready s" and lib: "lib_ok L" and vis: "\<not> hidden t"
    and body: "loop_body L t s = Inr s'"
  shows "submitted (dev s') = submitted (dev s) @ [frame_commands (upload s) t s'] \<and>
    rejected (dev s') = rejected (dev s) \<and>
    length (presented (dev s')) = Suc (length (presented (dev s))) \<and>
    seen_entries (last (presented (dev s'))) = bindGroupEntries s' \<and>
    bindGroups (dev s') (bindGroup s') = Some (bindGroupEntries s') \<and>
    colormapName s' = picked t \<and> volumeTexture s' = volumeTexture s \<and>
    (colormapName s \<noteq> picked t \<longrightarrow>
       (\<exists>w h. decoded t = Some (w, h) \<and>
          textures (dev s') = (textures (dev s))
            (fresh (dev s) \<mapsto> \<lparr>tex_dimension = Dim2d, tex_size = [w, h, 1]\<rparr>)) \<and>
       colormapTexture s' = fresh (dev s) \<and> bindGroup s' = Suc (fresh (dev s)) \<and>
       bindGroupEntries s' =
         (bindGroupEntries s)[2 := \<lparr>binding = 2, resource = TextureView (fresh (dev s))\<rparr>] \<and>
       bindGroups (dev s') =
         (bindGroups (dev s))(Suc (fresh (dev s)) \<mapsto> bindGroupEntries s')) \<and>
    (colormapName s = picked t \<longrightarrow>
       bindGroup s' = bindGroup s \<and> bindGroupEntries s' = bindGroupEntries s \<and>
       colormapTexture s' = colormapTexture s \<and> textures (dev s') = textures (dev s) \<and>
       bindGroups (dev s') = bindGroups (dev s))"
proof -
  from iteration_effect_Inr [OF rdy lib vis body] obtain s1 where
    bu: "before_update L t s = Inr s1" and
    tl: "bindGroup s' = bindGroup s1" "bindGroupEntries s' = bindGroupEntries s1"
      "colormapTexture s' = colormapTexture s1" "bindGroups (dev s') = bindGroups (dev s1)"
      "textures (dev s') = textures (dev s1)" "volumeTexture s' = volumeTexture s"
      "colormapName s' = picked t" "ready s'"
    by blast
  note C = iteration_commands [OF rdy lib vis body]
  have sub: "submitted (dev s') = submitted (dev s) @ [frame_commands (upload s) t s']"
    and rej: "rejected (dev s') = rejected (dev s)"
    and pre: "length (presented (dev s')) = Suc (length (presented (dev s)))"
      "seen_entries (last (presented (dev s'))) = bindGroupEntries s'"
    using C by simp_all
  have bg: "bindGroups (dev s') (bindGroup s') = Some (bindGroupEntries s')"
    by (rule readyD(5) [OF tl(8)])
  let ?s0 = "s\<lparr>camera := cam_after L (during_tick t) (camera s)\<rparr>"
  have rdy0: "ready ?s0" using rdy by simp
  have same: "colormapName s = picked t \<longrightarrow>
       bindGroup s' = bindGroup s \<and> bindGroupEntries s' = bindGroupEntries s \<and>
       colormapTexture s' = colormapTexture s \<and> textures (dev s') = textures (dev s) \<and>
       bindGroups (dev s') = bindGroups (dev s)"
    using before_update_Inr [OF bu] tl by auto
  have swap: "colormapName s \<noteq> picked t \<longrightarrow>
       (\<exists>w h. decoded t = Some (w, h) \<and>
          textures (dev s') = (textures (dev s))
            (fresh (dev s) \<mapsto> \<lparr>tex_dimension = Dim2d, tex_size = [w, h, 1]\<rparr>)) \<and>
       colormapTexture s' = fresh (dev s) \<and> bindGroup s' = Suc (fresh (dev s)) \<and>
       bindGroupEntries s' =
         (bindGroupEntries s)[2 := \<lparr>binding = 2, resource = TextureView (fresh (dev s))\<rparr>] \<and>
       bindGroups (dev s') =
         (bindGroups (dev s))(Suc (fresh (dev s)) \<mapsto> bindGroupEntries s')"
  proof
    assume ne: "colormapName s \<noteq> picked t"
    with before_update_Inr [OF bu] have sw: "swap_colormap L t ?s0 = Inr s1" by simp
    from swap_ready [OF rdy0 sw] tl
    show "(\<exists>w h. decoded t = Some (w, h) \<and>
          textures (dev s') = (textures (dev s))
            (fresh (dev s) \<mapsto> \<lparr>tex_dimension = Dim2d, tex_size = [w, h, 1]\<rparr>)) \<and>
       colormapTexture s' = fresh (dev s) \<and> bindGroup s' = Suc (fresh (dev s)) \<and>
       bindGroupEntries s' =
         (bindGroupEntries s)[2 := \<lparr>binding = 2, resource = TextureView (fresh (dev s))\<rparr>] \<and>
       bindGroups (dev s') =
         (bindGroups (dev s))(Suc (fresh (dev s)) \<mapsto> bindGroupEntries s')"
      by simp
  qed
  show ?thesis
    by (intro conjI sub rej pre bg tl(7) tl(6) swap same)
qed

lemma first_visible_callback:
  fixes v v' :: "'cam app"
  assumes ins: "installed v" and lib: "lib_ok L" and vis: "\<not> hidden t"
    and run: "frame L t v = Inr v'"
  shows "length (submitted (dev v')) = Suc (length (submitted (dev v))) \<and>
    rejected (dev v') = rejected (dev v) \<and>
    bindGroup v' = bindGroup v \<and> bindGroups (dev v') = bindGroups (dev v) \<and>
    textures (dev v') = textures (dev v) \<and> colormapTexture v' = colormapTexture v \<and>
    volumeTexture v' = volumeTexture v"
  using frame_effect [OF ins lib vis] run by auto

lemma visible_iteration_returns:
  fixes s :: "'cam radar"
  assumes "ready s" and "lib_ok L" and "\<not> hidden t"
    and "colormapName s = picked t \<or> decoded t \<noteq> None"
  shows "\<exists>s'. loop_body L t s = Inr s'"
  using iteration_effect [OF assms] by blast

text \<open>
  C6 (as amended).  An iteration of the radar loop, or a call of the frame callback of
  \<^verbatim>\<open>volume-raycaster.js\<close>, that finds the page hidden when it reads
  \<^verbatim>\<open>document.hidden\<close> does nothing: a run of such iterations leaves the device (and
  with it the queue), the bound resource set and every variable as they were; the camera
  moves only as far as the handlers of events that arrived moved it, and not at all when
  none arrived.  The first iteration that finds the page visible proceeds from exactly
  that state and makes the one submission since then; it returns whenever the colormap
  picked is the installed one or its image can be decoded.  In the radar loop it is the
  iteration that applies the colormap picked meanwhile: it creates the texture of the
  decoded image and a new bind group whose entry 2 is that texture, installs both, and
  its draw call reads the entries of the new bind group; when no other colormap was
  picked, textures, bind groups and the installed set are as they were.  The volume
  texture stays in either case: the loop reads no data set selector, and
  \<^verbatim>\<open>volume-raycaster.js\<close> reads no selector at all.
\<close>

theorem hidden_frames_do_nothing:
  fixes s s' :: "'cam radar" and v v' :: "'cam app"
  assumes "list_all hidden ts"
  shows "run_loop L ts s = Inr (s\<lparr>camera := cam_after L (concat (map during_tick ts)) (camera s)\<rparr>) \<and>
    run_loop L (ts @ rest) s =
      run_loop L rest (s\<lparr>camera := cam_after L (concat (map during_tick ts)) (camera s)\<rparr>) \<and>
    (concat (map during_tick ts) = [] \<longrightarrow>
       run_loop L ts s = Inr s \<and> run_loop L (ts @ rest) s = run_loop L rest s \<and>
       run_frames L ts v = Inr v \<and> run_frames L (ts @ rest) v = run_frames L rest v) \<and>
    run_frames L ts v = Inr (v\<lparr>camera := cam_after L (concat (map during_tick ts)) (camera v)\<rparr>) \<and>
    run_frames L (ts @ rest) v =
      run_frames L rest (v\<lparr>camera := cam_after L (concat (map during_tick ts)) (camera v)\<rparr>) \<and>
    (ready s \<and> lib_ok L \<and> \<not> hidden t \<and> run_loop L (ts @ [t]) s = Inr s' \<longrightarrow>
       submitted (dev s') = submitted (dev s) @ [frame_commands (upload s) t s'] \<and>
       rejected (dev s') = rejected (dev s) \<and>
       length (presented (dev s')) = Suc (length (presented (dev s))) \<and>
       seen_entries (last (presented (dev s'))) = bindGroupEntries s' \<and>
       bindGroups (dev s') (bindGroup s') = Some (bindGroupEntries s') \<and>
       colormapName s' = picked t \<and> volumeTexture s' = volumeTexture s \<and>
       (colormapName s \<noteq> picked t \<longrightarrow>
          (\<exists>w h. decoded t = Some (w, h) \<and>
             textures (dev s') = (textures (dev s))
               (fresh (dev s) \<mapsto> \<lparr>tex_dimension = Dim2d, tex_size = [w, h, 1]\<rparr>)) \<and>
          colormapTexture s' = fresh (dev s) \<and> bindGroup s' = Suc (fresh (dev s)) \<and>
          bindGroupEntries s' =
            (bindGroupEntries s)[2 := \<lparr>binding = 2, resource = TextureView (fresh (dev s))\<rparr>] \<and>
          bindGroups (dev s') =
            (bindGroups (dev s))(Suc (fresh (dev s)) \<mapsto> bindGroupEntries s')) \<and>
       (colormapName s = picked t \<longrightarrow>
          bindGroup s' = bindGroup s \<and> bindGroupEntries s' = bindGroupEntries s \<and>
          colormapTexture s' = colormapTexture s \<and> textures (dev s') = textures (dev s) \<and>
          bindGroups (dev s') = bindGroups (dev s))) \<and>
    (installed v \<and> lib_ok L \<and> \<not> hidden t \<and> run_frames L (ts @ [t]) v = Inr v' \<longrightarrow>
       length (submitted (dev v')) = Suc (length (submitted (dev v))) \<and>
       rejected (dev v') = rejected (dev v) \<and>
       bindGroup v' = bindGroup v \<and> bindGroups (dev v') = bindGroups (dev v) \<and>
       textures (dev v') = textures (dev v) \<and> colormapTexture v' = colormapTexture v \<and>
       volumeTexture v' = volumeTexture v) \<and>
    (ready s \<and> lib_ok L \<and> \<not> hidden t \<and> (colormapName s = picked t \<or> decoded t \<noteq> None) \<longrightarrow>
       (\<exists>s''. run_loop L (ts @ [t]) s = Inr s'')) \<and>
    (installed v \<and> lib_ok L \<longrightarrow> (\<exists>v''. run_frames L (ts @ [t]) v = Inr v''))"
proof -
  let ?c = "cam_after L (concat (map during_tick ts)) (camera s)"
  let ?cv = "cam_after L (concat (map during_tick ts)) (camera v)"
  have a: "run_loop L (ts @ rest) s = run_loop L rest (s\<lparr>camera := ?c\<rparr>)" for rest
    using run_loop_hidden [OF assms, of L rest s] by (simp add: deliver_eq)
  have b: "run_frames L (ts @ rest) v = run_frames L rest (v\<lparr>camera := ?cv\<rparr>)" for rest
    using run_frames_hidden [OF assms, of L rest v] by (simp add: deliver_eq)
  have c: "ready s \<and> lib_ok L \<and> \<not> hidden t \<and> run_loop L (ts @ [t]) s = Inr s' \<longrightarrow>
       submitted (dev s') = submitted (dev s) @ [frame_commands (upload s) t s'] \<and>
       rejected (dev s') = rejected (dev s) \<and>
       length (presented (dev s')) = Suc (length (presented (dev s))) \<and>
       seen_entries (last (presented (dev s'))) = bindGroupEntries s' \<and>
       bindGroups (dev s') (bindGroup s') = Some (bindGroupEntries s') \<and>
       colormapName s' = picked t \<and> volumeTexture s' = volumeTexture s \<and>
       (colormapName s \<noteq> picked t \<longrightarrow>
          (\<exists>w h. decoded t = Some (w, h) \<and>
             textures (dev s') = (textures (dev s))
               (fresh (dev s) \<mapsto> \<lparr>tex_dimension = Dim2d, tex_size = [w, h, 1]\<rparr>)) \<and>
          colormapTexture s' = fresh (dev s) \<and> bindGroup s' = Suc (fresh (dev s)) \<and>
          bindGroupEntries s' =
            (bindGroupEntries s)[2 := \<lparr>binding = 2, resource = TextureView (fresh (dev s))\<rparr>] \<and>
          bindGroups (dev s') =
            (bindGroups (dev s))(Suc (fresh (dev s)) \<mapsto> bindGroupEntries s')) \<and>
       (colormapName s = picked t \<longrightarrow>
          bindGroup s' = bindGroup s \<and> bindGroupEntries s' = bindGroupEntries s \<and>
          colormapTexture s' = colormapTexture s \<and> textures (dev s') = textures (dev s) \<and>
          bindGroups (dev s') = bindGroups (dev s))"
  proof
    assume h: "ready s \<and> lib_ok L \<and> \<not> hidden t \<and> run_loop L (ts @ [t]) s = Inr s'"
    then have body: "loop_body L t (s\<lparr>camera := ?c\<rparr>) = Inr s'"
      using a [of "[t]"] by (simp add: and_then_eq_Inr)
    from h have rdy: "ready (s\<lparr>camera := ?c\<rparr>)" and lib: "lib_ok L" and vis: "\<not> hidden t"
      by simp_all
    from first_visible_iteration [OF rdy lib vis body]
    show "submitted (dev s') = submitted (dev s) @ [frame_commands (upload s) t s'] \<and>
       rejected (dev s') = rejected (dev s) \<and>
       length (presented (dev s')) = Suc (length (presented (dev s))) \<and>
       seen_entries (last (presented (dev s'))) = bindGroupEntries s' \<and>
       bindGroups (dev s') (bindGroup s') = Some (bindGroupEntries s') \<and>
       colormapName s' = picked t \<and> volumeTexture s' = volumeTexture s \<and>
       (colormapName s \<noteq> picked t \<longrightarrow>
          (\<exists>w h. decoded t = Some (w, h) \<and>
             textures (dev s') = (textures (dev s))
               (fresh (dev s) \<mapsto> \<lparr>tex_dimension = Dim2d, tex_size = [w, h, 1]\<rparr>)) \<and>
          colormapTexture s' = fresh (dev s) \<and> bindGroup s' = Suc (fresh (dev s)) \<and>
          bindGroupEntries s' =
            (bindGroupEntries s)[2 := \<lparr>binding = 2, resource = TextureView (fresh (dev s))\<rparr>] \<and>
          bindGroups (dev s') =
            (bindGroups (dev s))(Suc (fresh (dev s)) \<mapsto> bindGroupEntries s')) \<and>
       (colormapName s = picked t \<longrightarrow>
          bindGroup s' = bindGroup s \<and> bindGroupEntries s' = bindGroupEntries s \<and>
          colormapTexture s' = colormapTexture s \<and> textures (dev s') = textures (dev s) \<and>
          bindGroups (dev s') = bindGroups (dev s))"
      by simp
  qed
  have f: "installed v \<and> lib_ok L \<and> \<not> hidden t \<and> run_frames L (ts @ [t]) v = Inr v' \<longrightarrow>
       length (submitted (dev v')) = Suc (length (submitted (dev v))) \<and>
       rejected (dev v') = rejected (dev v) \<and>
       bindGroup v' = bindGroup v \<and> bindGroups (dev v') = bindGroups (dev v) \<and>
       textures (dev v') = textures (dev v) \<and> colormapTexture v' = colormapTexture v \<and>
       volumeTexture v' = volumeTexture v"
  proof
    assume h: "installed v \<and> lib_ok L \<and> \<not> hidden t \<and> run_frames L (ts @ [t]) v = Inr v'"
    then have run: "frame L t (v\<lparr>camera := ?cv\<rparr>) = Inr v'"
      using b [of "[t]"] by (simp add: and_then_eq_Inr)
    from h have ins: "installed (v\<lparr>camera := ?cv\<rparr>)" and lib: "lib_ok L" and vis: "\<not> hidden t"
      by simp_all
    from first_visible_callback [OF ins lib vis run]
    show "length (submitted (dev v')) = Suc (length (submitted (dev v))) \<and>
       rejected (dev v') = rejected (dev v) \<and>
       bindGroup v' = bindGroup v \<and> bindGroups (dev v') = bindGroups (dev v) \<and>
       textures (dev v') = textures (dev v) \<and> colormapTexture v' = colormapTexture v \<and>
       volumeTexture v' = volumeTexture v"
      by simp
  qed
  have d: "s\<lparr>camera := ?c\<rparr> = s" "v\<lparr>camera := ?cv\<rparr> = v"
    if "concat (map during_tick ts) = []"
    unfolding that by (simp_all add: cam_after_def)
  have e: "concat (map during_tick ts) = [] \<longrightarrow>
       run_loop L ts s = Inr s \<and> run_loop L (ts @ rest) s = run_loop L rest s \<and>
       run_frames L ts v = Inr v \<and> run_frames L (ts @ rest) v = run_frames L rest v"
  proof
    assume n: "concat (map during_tick ts) = []"
    show "run_loop L ts s = Inr s \<and> run_loop L (ts @ rest) s = run_loop L rest s \<and>
       run_frames L ts v = Inr v \<and> run_frames L (ts @ rest) v = run_frames L rest v"
      using a [of "[]"] a [of rest] b [of "[]"] b [of rest]
      unfolding d [OF n] by simp
  qed
  from a [of "[]"] have a0: "run_loop L ts s = Inr (s\<lparr>camera := ?c\<rparr>)" by simp
  from b [of "[]"] have b0: "run_frames L ts v = Inr (v\<lparr>camera := ?cv\<rparr>)" by simp
  have g: "ready s \<and> lib_ok L \<and> \<not> hidden t \<and> (colormapName s = picked t \<or> decoded t \<noteq> None) \<longrightarrow>
       (\<exists>s''. run_loop L (ts @ [t]) s = Inr s'')"
  proof
    assume h: "ready s \<and> lib_ok L \<and> \<not> hidden t \<and> (colormapName s = picked t \<or> decoded t \<noteq> None)"
    then have "\<exists>s''. loop_body L t (s\<lparr>camera := ?c\<rparr>) = Inr s''"
      by (intro visible_iteration_returns) simp_all
    then show "\<exists>s''. run_loop L (ts @ [t]) s = Inr s''"
      using a [of "[t]"] by auto
  qed
  have i: "installed v \<and> lib_ok L \<longrightarrow> (\<exists>v''. run_frames L (ts @ [t]) v = Inr v'')"
    using run_frames_progress [of v L "ts @ [t]"] by blast
  show ?thesis
    by (intro conjI a0 a b0 b c e f g i)
qed

theorem hidden_frames_do_nothing_witness:
  "list_all hidden [hidden_tick, hidden_tick] \<and> ready demo_state \<and> lib_ok demo_lib \<and>
   installed demo_app \<and> \<not> hidden swap_tick \<and>
   concat (map during_tick [hidden_tick, hidden_tick]) = [] \<and>
   colormapName demo_state \<noteq> picked swap_tick \<and>
   run_loop demo_lib [hidden_tick, hidden_tick] demo_state = Inr demo_state \<and>
   run_frames demo_lib [hidden_tick, hidden_tick] demo_app = Inr demo_app \<and>
   (\<exists>s'. run_loop demo_lib ([hidden_tick, hidden_tick] @ [swap_tick]) demo_state = Inr s' \<and>
      colormapName s' = picked swap_tick \<and> colormapTexture s' = 13 \<and> bindGroup s' = 14 \<and>
      textures (dev s') 13 = Some \<lparr>tex_dimension = Dim2d, tex_size = [180, 1, 1]\<rparr> \<and>
      resource (bindGroupEntries s' ! 2) = TextureView 13 \<and>
      bindGroups (dev s') 14 = Some (bindGroupEntries s') \<and>
      seen_entries (last (presented (dev s'))) = bindGroupEntries s' \<and>
      length (submitted (dev s')) = 1) \<and>
   (\<exists>v'. run_frames demo_lib ([hidden_tick, hidden_tick] @ [swap_tick]) demo_app = Inr v' \<and>
      length (submitted (dev v')) = 1 \<and> bindGroup v' = 11)"
proof -
  have h: "list_all hidden [hidden_tick, hidden_tick]" "\<not> hidden swap_tick"
    "concat (map during_tick [hidden_tick, hidden_tick]) = []"
    "colormapName demo_state \<noteq> picked swap_tick"
    by (simp_all add: hidden_tick_def swap_tick_def demo_state_def)
  have img: "colormapName demo_state = picked swap_tick \<or> decoded swap_tick \<noteq> None"
    by (simp add: swap_tick_def)
  note P = hidden_frames_do_nothing [OF h(1), where L = demo_lib and s = demo_state
      and v = demo_app and t = swap_tick]
  from P [THEN conjunct2, THEN conjunct2, THEN conjunct2, THEN conjunct2, THEN conjunct2,
      THEN conjunct2, THEN conjunct2, THEN conjunct1, THEN mp,
      OF conjI [OF ready_demo conjI [OF lib_ok_demo conjI [OF h(2) img]]]]
  obtain s' where s': "run_loop demo_lib ([hidden_tick, hidden_tick] @ [swap_tick]) demo_state = Inr s'"
    by blast
  from P [THEN conjunct2, THEN conjunct2, THEN conjunct2, THEN conjunct2, THEN conjunct2,
      THEN conjunct2, THEN conjunct2, THEN conjunct2, THEN mp,
      OF conjI [OF installed_demo_app lib_ok_demo]]
  obtain v' where v': "run_frames demo_lib ([hidden_tick, hidden_tick] @ [swap_tick]) demo_app = Inr v'"
    by blast
  note T = hidden_frames_do_nothing [OF h(1), where L = demo_lib and s = demo_state
      and v = demo_app and rest = "[]" and t = swap_tick and s' = s' and v' = v']
  note E = T [THEN conjunct2, THEN conjunct2, THEN conjunct1, THEN mp, OF h(3)]
  note Q = T [THEN conjunct2, THEN conjunct2, THEN conjunct2, THEN conjunct2, THEN conjunct2,
      THEN conjunct1, THEN mp, OF conjI [OF ready_demo conjI [OF lib_ok_demo conjI [OF h(2) s']]]]
  note R = T [THEN conjunct2, THEN conjunct2, THEN conjunct2, THEN conjunct2, THEN conjunct2,
      THEN conjunct2, THEN conjunct1, THEN mp,
      OF conjI [OF installed_demo_app conjI [OF lib_ok_demo conjI [OF h(2) v']]]]
  have e: "run_loop demo_lib [hidden_tick, hidden_tick] demo_state = Inr demo_state"
    "run_frames demo_lib [hidden_tick, hidden_tick] demo_app = Inr demo_app"
    using E by simp_all
  have fr: "fresh (dev demo_state) = 13" "decoded swap_tick = Some (180, 1)"
    "submitted (dev demo_state) = []" "submitted (dev demo_app) = []" "bindGroup demo_app = 11"
    by (simp_all add: demo_state_def demo_dev_def swap_tick_def demo_app_def app.truncate_def)
  from Q h(4) have q: "colormapName s' = picked swap_tick" "colormapTexture s' = 13"
    "bindGroup s' = 14"
    "textures (dev s') 13 = Some \<lparr>tex_dimension = Dim2d, tex_size = [180, 1, 1]\<rparr>"
    "bindGroups (dev s') (bindGroup s') = Some (bindGroupEntries s')"
    "seen_entries (last (presented (dev s'))) = bindGroupEntries s'"
    "length (submitted (dev s')) = 1"
    "bindGroupEntries s' =
       (bindGroupEntries demo_state)[2 := \<lparr>binding = 2, resource = TextureView 13\<rparr>]"
    by (auto simp add: fr)
  have q2: "resource (bindGroupEntries s' ! 2) = TextureView 13"
    unfolding q(8) by (simp add: demo_state_def demo_entries_def)
  have q5: "bindGroups (dev s') 14 = Some (bindGroupEntries s')"
    using q(5) q(3) by simp
  from R have r: "length (submitted (dev v')) = 1" "bindGroup v' = 11"
    by (simp_all add: fr)
  have S: "colormapName s' = picked swap_tick \<and> colormapTexture s' = 13 \<and> bindGroup s' = 14 \<and>
      textures (dev s') 13 = Some \<lparr>tex_dimension = Dim2d, tex_size = [180, 1, 1]\<rparr> \<and>
      resource (bindGroupEntries s' ! 2) = TextureView 13 \<and>
      bindGroups (dev s') 14 = Some (bindGroupEntries s') \<and>
      seen_entries (last (presented (dev s'))) = bindGroupEntries s' \<and>
      length (submitted (dev s')) = 1"
    by (intro conjI q(1-4) q2 q5 q(6) q(7))
  have V: "length (submitted (dev v')) = 1 \<and> bindGroup v' = 11"
    by (intro conjI r)
  show ?thesis
    apply (intro conjI h(1) ready_demo lib_ok_demo installed_demo_app h(2) h(3) h(4) e)
     apply (rule exI [where x = s'], rule conjI [OF s' S])
    apply (rule exI [where x = v'], rule conjI [OF v' V])
    done
qed

theorem frame_in_flight_is_submitted:
  "\<not> hidden flight_tick \<and> hidden_at_submit flight_tick \<and> hidden hidden_tick \<and>
   submitted (dev demo_state) = [] \<and>
   length (result_submitted (loop_body demo_lib flight_tick demo_state)) = 1 \<and>
   length (result_presented (loop_body demo_lib flight_tick demo_state)) = 1 \<and>
   length (result_submitted (run_loop demo_lib [flight_tick, hidden_tick] demo_state)) = 1"
  by (simp add: eval_defs flight_tick_def hidden_tick_def result_submitted_def
      result_presented_def)

end
